theory Spec2Isabelle
  imports Complex_Main "HOL-Library.Sublist" "HOL-Library.Log_Nat" "HOL-Library.AList"
begin

section \<open>Python values, exceptions and dictionaries\<close>

text \<open>
  A Python \<open>float\<close> is a finite binary64 number or one of the three special values.
  A finite float is carried by the rational number it denotes (both zeros are
  \<open>Finite 0\<close>; their sign plays no role in the code modelled here).
\<close>

datatype pyfloat = Finite rat | PInf | NInf | NaN

text \<open>
  The values a decoded JSON document and the connector's own dictionaries hold.
  A dictionary is an association list in insertion order, read with \<open>map_of\<close>.
\<close>

datatype pyval =
    PNone
  | PBool bool
  | PInt int
  | PFloat pyfloat
  | PStr string
  | PList "pyval list"
  | PDict "(string \<times> pyval) list"

type_synonym pydict = "(string \<times> pyval) list"

text \<open>
  The exceptions the modelled code raises or lets through. \<open>CancelledError\<close> derives
  from \<open>BaseException\<close> (Python 3.8 and later), every other one from \<open>Exception\<close>.
  A message is carried where the source builds it; \<open>BuiltinValueError\<close> is a
  \<open>ValueError\<close> raised by the interpreter (a failed unpacking or conversion), whose
  message is the interpreter's. \<open>OtherError\<close> stands for any further subclass of
  \<open>Exception\<close> that a collaborator (the HTTP client) raises.
\<close>

datatype exn =
    RuntimeError string
  | ValueError string
  | BuiltinValueError
  | TypeError
  | AttributeError
  | OverflowError
  | InvalidOperation
  | DivisionByZero
  | ClientError
  | QueueFull
  | OtherError string
  | CancelledError

definition is_Exception :: "exn \<Rightarrow> bool" where
  "is_Exception e = (e \<noteq> CancelledError)"

section \<open>Binary floats and decimals\<close>

text \<open>Rounding a rational to the nearest integer, ties to the even one.\<close>

definition round_half_even :: "rat \<Rightarrow> int" where
  "round_half_even x =
     (let f = \<lfloor>x\<rfloor>; r = x - of_int f
      in if r < 1 / 2 then f else if 1 / 2 < r then f + 1 else if even f then f else f + 1)"

text \<open>
  \<open>ilog b x\<close> is the integer \<open>e\<close> with \<open>b\<^sup>e \<le> x < b\<^sup>e\<^sup>+\<^sup>1\<close>, for \<open>0 < x\<close> and \<open>1 < b\<close>: the
  difference of the digit counts of numerator and denominator, or one less.
\<close>

definition ilog :: "nat \<Rightarrow> rat \<Rightarrow> int" where
  "ilog b x =
     (let (p, q) = quotient_of x;
          k = int (floorlog b (nat p)) - int (floorlog b (nat q))
      in if of_nat b powi k \<le> x then k else k - 1)"

text \<open>
  \<open>float(d)\<close> for a finite decimal \<open>d\<close>: the IEEE 754 binary64 number nearest to the
  value, ties to even (53 significant bits, least exponent \<open>-1022\<close>, subnormal numbers below
  it); a result of magnitude \<open>2\<^sup>1\<^sup>0\<^sup>2\<^sup>4\<close> or more is an infinity.
\<close>

definition float_of_rat :: "rat \<Rightarrow> pyfloat" where
  "float_of_rat x =
     (if x = 0 then Finite 0
      else let a = \<bar>x\<bar>; e = max (ilog 2 a) (- 1022); ulp = 2 powi (e - 52);
               m = of_int (round_half_even (a / ulp)) * ulp
           in if 2 powi 1024 \<le> m then (if x < 0 then NInf else PInf)
              else Finite (if x < 0 then - m else m))"

text \<open>
  A \<open>Decimal\<close> is carried by its value. The default context rounds every result to 28
  significant digits, ties to even, and traps \<open>InvalidOperation\<close> and \<open>DivisionByZero\<close>.
  The sign of a zero is not kept, and the exponent limits of the context
  (\<open>\<plusminus>999999\<close>) are not modelled: the operands below are read from a float.
\<close>

datatype decimal = DFin rat | DInf bool | DNaN

definition round_prec :: "rat \<Rightarrow> rat" where
  "round_prec x =
     (if x = 0 then 0
      else let a = \<bar>x\<bar>; u = 10 powi (ilog 10 a - 27);
               m = of_int (round_half_even (a / u)) * u
           in if x < 0 then - m else m)"

fun dec_mul :: "decimal \<Rightarrow> decimal \<Rightarrow> exn + decimal" where
  "dec_mul DNaN b = Inr DNaN"
| "dec_mul a DNaN = Inr DNaN"
| "dec_mul (DInf s) (DInf t) = Inr (DInf (s \<noteq> t))"
| "dec_mul (DInf s) (DFin y) = (if y = 0 then Inl InvalidOperation else Inr (DInf (s \<noteq> (y < 0))))"
| "dec_mul (DFin x) (DInf t) = (if x = 0 then Inl InvalidOperation else Inr (DInf ((x < 0) \<noteq> t)))"
| "dec_mul (DFin x) (DFin y) = Inr (DFin (round_prec (x * y)))"

fun dec_div :: "decimal \<Rightarrow> decimal \<Rightarrow> exn + decimal" where
  "dec_div DNaN b = Inr DNaN"
| "dec_div a DNaN = Inr DNaN"
| "dec_div (DInf s) (DInf t) = Inl InvalidOperation"
| "dec_div (DInf s) (DFin y) = Inr (DInf (s \<noteq> (y < 0)))"
| "dec_div (DFin x) (DInf t) = Inr (DFin 0)"
| "dec_div (DFin x) (DFin y) =
     (if y = 0 then (if x = 0 then Inl InvalidOperation else Inl DivisionByZero)
      else Inr (DFin (round_prec (x / y))))"

fun dec_add :: "decimal \<Rightarrow> decimal \<Rightarrow> exn + decimal" where
  "dec_add DNaN b = Inr DNaN"
| "dec_add a DNaN = Inr DNaN"
| "dec_add (DInf s) (DInf t) = (if s = t then Inr (DInf s) else Inl InvalidOperation)"
| "dec_add (DInf s) (DFin y) = Inr (DInf s)"
| "dec_add (DFin x) (DInf t) = Inr (DInf t)"
| "dec_add (DFin x) (DFin y) = Inr (DFin (round_prec (x + y)))"

fun dec_neg :: "decimal \<Rightarrow> decimal" where
  "dec_neg (DFin x) = DFin (- x)"
| "dec_neg (DInf s) = DInf (\<not> s)"
| "dec_neg DNaN = DNaN"

definition dec_sub :: "decimal \<Rightarrow> decimal \<Rightarrow> exn + decimal" where
  "dec_sub a b = dec_add a (dec_neg b)"

fun float_of_decimal :: "decimal \<Rightarrow> pyfloat" where
  "float_of_decimal (DFin x) = float_of_rat x"
| "float_of_decimal (DInf s) = (if s then NInf else PInf)"
| "float_of_decimal DNaN = NaN"

text \<open>
  \<open>has_digits n x\<close>: the decimal expansion of \<open>x\<close> ends within its first \<open>n\<close> significant
  digits.
\<close>

definition has_digits :: "nat \<Rightarrow> rat \<Rightarrow> bool" where
  "has_digits n x =
     (if x = 0 then True
      else let t = \<bar>x\<bar> / 10 powi (ilog 10 \<bar>x\<bar> + 1 - int n) in of_int \<lfloor>t\<rfloor> = t)"

text \<open>The order of floats: every comparison with a NaN is false.\<close>

fun float_less :: "pyfloat \<Rightarrow> pyfloat \<Rightarrow> bool" where
  "float_less (Finite x) (Finite y) = (x < y)"
| "float_less (Finite x) PInf = True"
| "float_less NInf (Finite y) = True"
| "float_less NInf PInf = True"
| "float_less a b = False"

text \<open>Sequencing of computations that may raise.\<close>

definition bind_exn :: "exn + 'a \<Rightarrow> ('a \<Rightarrow> exn + 'b) \<Rightarrow> exn + 'b" where
  "bind_exn r f = (case r of Inl e \<Rightarrow> Inl e | Inr v \<Rightarrow> f v)"

text \<open>\<open>try: ... except Exception: return dflt\<close>.\<close>

definition except_Exception :: "'a \<Rightarrow> exn + 'a \<Rightarrow> exn + 'a" where
  "except_Exception dflt r =
     (case r of Inl e \<Rightarrow> (if is_Exception e then Inr dflt else Inl e) | Inr v \<Rightarrow> Inr v)"

text \<open>Truth value testing (\<open>if x:\<close>).\<close>

fun truthy :: "pyval \<Rightarrow> bool" where
  "truthy PNone = False"
| "truthy (PBool b) = b"
| "truthy (PInt n) = (n \<noteq> 0)"
| "truthy (PFloat f) = (f \<noteq> Finite 0)"
| "truthy (PStr s) = (s \<noteq> [])"
| "truthy (PList xs) = (xs \<noteq> [])"
| "truthy (PDict kvs) = (kvs \<noteq> [])"

text \<open>\<open>d.get(k)\<close> and \<open>d.get(k, default)\<close>.\<close>

definition dict_get :: "pydict \<Rightarrow> string \<Rightarrow> pyval" where
  "dict_get d k = (case map_of d k of None \<Rightarrow> PNone | Some v \<Rightarrow> v)"

definition dict_get_default :: "pydict \<Rightarrow> string \<Rightarrow> pyval \<Rightarrow> pyval" where
  "dict_get_default d k dflt = (case map_of d k of None \<Rightarrow> dflt | Some v \<Rightarrow> v)"

text \<open>
  \<open>{**a, **b}\<close>: the entries of \<open>a\<close> in their order, each entry of \<open>b\<close> in turn replacing
  the value of its key or appended as a new key.
\<close>

definition dict_merge :: "pydict \<Rightarrow> pydict \<Rightarrow> pydict" where
  "dict_merge a b = fold (\<lambda>(k, v) d. AList.update k v d) b a"

text \<open>
  The conversions of the interpreter whose algorithms are not part of this repository
  are parameters of the model: parsing a string as an int or a float (\<open>None\<close> where the
  parse fails, which raises \<open>ValueError\<close>), the text of a float and of a container, and
  \<open>float_decimal\<close>,
  the number that the text \<open>str\<close> prints for a finite float denotes (what \<open>Decimal(str(x))\<close>
  reads).
\<close>

record builtins =
  int_of_str :: "string \<Rightarrow> int option"
  float_of_str :: "string \<Rightarrow> pyfloat option"
  repr_float :: "pyfloat \<Rightarrow> string"
  repr_container :: "pyval \<Rightarrow> string"
  float_decimal :: "rat \<Rightarrow> rat"

text \<open>
  What Python documents of \<open>str\<close> on a float \<open>x\<close>: the text reads back as \<open>x\<close>, and has at
  most 17 significant digits.
\<close>

definition repr_contract :: "builtins \<Rightarrow> rat \<Rightarrow> bool" where
  "repr_contract B x =
     (float_of_rat (float_decimal B x) = Finite x \<and> has_digits 17 (float_decimal B x))"

text \<open>\<open>Decimal(str(f))\<close> for a float \<open>f\<close>.\<close>

fun decimal_of_float :: "builtins \<Rightarrow> pyfloat \<Rightarrow> decimal" where
  "decimal_of_float B (Finite x) = DFin (float_decimal B x)"
| "decimal_of_float B PInf = DInf False"
| "decimal_of_float B NInf = DInf True"
| "decimal_of_float B NaN = DNaN"

text \<open>\<open>float(x)\<close>; an int too large for a float raises \<open>OverflowError\<close>.\<close>

fun py_float :: "builtins \<Rightarrow> pyval \<Rightarrow> exn + pyfloat" where
  "py_float B PNone = Inl TypeError"
| "py_float B (PBool b) = Inr (Finite (if b then 1 else 0))"
| "py_float B (PInt n) =
     (case float_of_rat (of_int n) of Finite y \<Rightarrow> Inr (Finite y) | _ \<Rightarrow> Inl OverflowError)"
| "py_float B (PFloat f) = Inr f"
| "py_float B (PStr s) =
     (case float_of_str B s of None \<Rightarrow> Inl BuiltinValueError | Some f \<Rightarrow> Inr f)"
| "py_float B (PList xs) = Inl TypeError"
| "py_float B (PDict kvs) = Inl TypeError"

text \<open>\<open>int(x)\<close> on a float truncates towards zero.\<close>

definition trunc_rat :: "rat \<Rightarrow> int" where
  "trunc_rat x = (if 0 \<le> x then \<lfloor>x\<rfloor> else \<lceil>x\<rceil>)"

fun py_int :: "builtins \<Rightarrow> pyval \<Rightarrow> exn + int" where
  "py_int B PNone = Inl TypeError"
| "py_int B (PBool b) = Inr (if b then 1 else 0)"
| "py_int B (PInt n) = Inr n"
| "py_int B (PFloat (Finite x)) = Inr (trunc_rat x)"
| "py_int B (PFloat NaN) = Inl BuiltinValueError"
| "py_int B (PFloat PInf) = Inl OverflowError"
| "py_int B (PFloat NInf) = Inl OverflowError"
| "py_int B (PStr s) =
     (case int_of_str B s of None \<Rightarrow> Inl BuiltinValueError | Some n \<Rightarrow> Inr n)"
| "py_int B (PList xs) = Inl TypeError"
| "py_int B (PDict kvs) = Inl TypeError"

text \<open>\<open>str.split(sep)\<close> for a one-character separator, and \<open>a, b = xs\<close>.\<close>

fun split_on :: "char \<Rightarrow> string \<Rightarrow> string list" where
  "split_on sep [] = [[]]"
| "split_on sep (c # cs) =
     (if c = sep then [] # split_on sep cs
      else (let r = split_on sep cs in (c # hd r) # tl r))"

fun unpack2 :: "'a list \<Rightarrow> exn + ('a \<times> 'a)" where
  "unpack2 [a, b] = Inr (a, b)"
| "unpack2 xs = Inl BuiltinValueError"

section \<open>Rendering integers as Python's \<open>str\<close> does\<close>

fun str_nat :: "nat \<Rightarrow> string" where
  "str_nat n = (if n < 10 then [''0123456789'' ! n]
                else str_nat (n div 10) @ [''0123456789'' ! (n mod 10)])"

declare str_nat.simps [simp del]

definition str_int :: "int \<Rightarrow> string" where
  "str_int i = (if i < 0 then CHR ''-'' # str_nat (nat (- i)) else str_nat (nat i))"

text \<open>\<open>", ".join(...)\<close> over already rendered items, and \<open>str\<close> of a list of ints.\<close>

fun join_comma :: "string list \<Rightarrow> string" where
  "join_comma [] = []"
| "join_comma [x] = x"
| "join_comma (x # y # ys) = x @ '', '' @ join_comma (y # ys)"

definition str_int_list :: "int list \<Rightarrow> string" where
  "str_int_list ns = ''['' @ join_comma (map str_int ns) @ '']''"

text \<open>The text an f-string puts for a value (\<open>str\<close>).\<close>

fun py_str :: "builtins \<Rightarrow> pyval \<Rightarrow> string" where
  "py_str B PNone = ''None''"
| "py_str B (PBool b) = (if b then ''True'' else ''False'')"
| "py_str B (PInt n) = str_int n"
| "py_str B (PFloat f) = repr_float B f"
| "py_str B (PStr s) = s"
| "py_str B (PList xs) = repr_container B (PList xs)"
| "py_str B (PDict kvs) = repr_container B (PDict kvs)"

section \<open>Constants (\<open>deluthium_constants.py\<close>)\<close>

definition BASE_URL :: string where
  "BASE_URL = ''https://rfq-api.deluthium.ai''"

definition LISTING_PAIRS_PATH :: string where
  "LISTING_PAIRS_PATH = ''/v1/listing/pairs''"

definition QUOTE_INDICATIVE_PATH :: string where
  "QUOTE_INDICATIVE_PATH = ''/v1/quote/indicative''"

definition QUOTE_FIRM_PATH :: string where
  "QUOTE_FIRM_PATH = ''/v1/quote/firm''"

definition SUPPORTED_CHAINS :: "(int \<times> string) list" where
  "SUPPORTED_CHAINS = [(56, ''BSC''), (8453, ''Base''), (1, ''Ethereum'')]"

definition WRAPPED_TOKENS :: "(int \<times> string) list" where
  "WRAPPED_TOKENS =
     [(56, ''0xbb4CdB9CBd36B01bD1cBaEBF2De08d9173bc095c''),
      (8453, ''0x4200000000000000000000000000000000000006''),
      (1, ''0xC02aaA39b223FE8D0A0e5C4F27eAD9083C756Cc2'')]"

text \<open>
  The dash of \<open>RATE_LIMIT_EXCEEDED\<close> is the en dash U+2013 in the source; it is written
  here as its three UTF-8 bytes.
\<close>

definition STRING_ERROR_CODES :: "(string \<times> string) list" where
  "STRING_ERROR_CODES =
     [(''INVALID_API_KEY'', ''The API key provided is invalid or expired.''),
      (''INSUFFICIENT_LIQUIDITY'', ''Not enough liquidity to fill the requested amount.''),
      (''PAIR_NOT_SUPPORTED'', ''The requested trading pair is not supported.''),
      (''QUOTE_EXPIRED'', ''The firm quote has expired. Request a new one.''),
      (''RATE_LIMIT_EXCEEDED'',
         ''Too many requests '' @ [char_of (226 :: nat), char_of (128 :: nat), char_of (147 :: nat)]
           @ '' slow down.''),
      (''CHAIN_NOT_SUPPORTED'', ''The specified chain ID is not supported.''),
      (''INVALID_AMOUNT'', ''The amount provided is invalid (zero or negative).''),
      (''INTERNAL_ERROR'', ''An unexpected server-side error occurred.'')]"

definition NUMERIC_ERROR_CODES :: "(int \<times> string) list" where
  "NUMERIC_ERROR_CODES =
     [(1001, ''Invalid API key''),
      (1002, ''Insufficient liquidity''),
      (1003, ''Pair not supported''),
      (1004, ''Quote expired''),
      (1005, ''Rate limit exceeded''),
      (1006, ''Chain not supported''),
      (1007, ''Invalid amount''),
      (5000, ''Internal server error'')]"

section \<open>Utilities (\<open>deluthium_utils.py\<close>)\<close>

text \<open>\<open>str.replace(old, new)\<close> for one-character \<open>old\<close> and \<open>new\<close>: every occurrence.\<close>

definition replace_char :: "char \<Rightarrow> char \<Rightarrow> string \<Rightarrow> string" where
  "replace_char old new s = map (\<lambda>c. if c = old then new else c) s"

definition convert_symbol_to_hummingbot :: "string \<Rightarrow> string" where
  "convert_symbol_to_hummingbot symbol = replace_char (CHR ''/'') (CHR ''-'') symbol"

definition convert_symbol_to_deluthium :: "string \<Rightarrow> string" where
  "convert_symbol_to_deluthium symbol = replace_char (CHR ''-'') (CHR ''/'') symbol"

definition validate_chain_id :: "int \<Rightarrow> bool" where
  "validate_chain_id chain_id = (map_of SUPPORTED_CHAINS chain_id \<noteq> None)"

definition get_wrapped_token :: "int \<Rightarrow> exn + string" where
  "get_wrapped_token chain_id =
     (case map_of WRAPPED_TOKENS chain_id of
        None \<Rightarrow>
          Inl (ValueError (''Chain ID '' @ str_int chain_id @ '' is not supported. ''
                 @ ''Supported chains: '' @ str_int_list (map fst WRAPPED_TOKENS)))
      | Some address \<Rightarrow> Inr address)"

text \<open>A token of a trading pair is free of both separators.\<close>

definition sep_free :: "string \<Rightarrow> bool" where
  "sep_free t = (CHR ''/'' \<notin> set t \<and> CHR ''-'' \<notin> set t)"

section \<open>The exchange connector (\<open>deluthium_exchange.py\<close>)\<close>

text \<open>
  What one HTTP exchange gives the caller: an exception while connecting or waiting (a
  connection failure, a cancellation), or a response with its status code and the outcome
  of \<open>resp.json()\<close>, which is the decoded body or an exception.
\<close>

datatype http_outcome = Raised exn | Response nat "exn + pyval"

type_synonym headers = "(string \<times> string) list"

record exchange =
  api_key :: string
  chain_id :: int
  wallet_address :: string

text \<open>
  \<open>error_code in STRING_ERROR_CODES\<close> followed by \<open>STRING_ERROR_CODES[error_code]\<close>: a list
  or a dict cannot be hashed; no other value than a string equals a key of the table.
\<close>

fun string_code_lookup :: "pyval \<Rightarrow> exn + string option" where
  "string_code_lookup (PStr s) = Inr (map_of STRING_ERROR_CODES s)"
| "string_code_lookup (PList xs) = Inl TypeError"
| "string_code_lookup (PDict kvs) = Inl TypeError"
| "string_code_lookup v = Inr None"

text \<open>\<open>int(numeric_code) in NUMERIC_ERROR_CODES\<close> and the description it selects.\<close>

definition numeric_code_lookup :: "builtins \<Rightarrow> pyval \<Rightarrow> exn + string option" where
  "numeric_code_lookup B v =
     (case py_int B v of Inl e \<Rightarrow> Inl e | Inr n \<Rightarrow> Inr (map_of NUMERIC_ERROR_CODES n))"

definition handle_response_errors :: "builtins \<Rightarrow> pyval \<Rightarrow> exn + unit" where
  "handle_response_errors B data =
     (case data of
        PDict d \<Rightarrow>
          (let error_code = dict_get d ''errorCode'' in
           case (if truthy error_code then string_code_lookup error_code else Inr None) of
             Inl e \<Rightarrow> Inl e
           | Inr (Some description) \<Rightarrow>
               Inl (RuntimeError
                     (''Deluthium API error ['' @ py_str B error_code @ '']: '' @ description))
           | Inr None \<Rightarrow>
               (let numeric_code = dict_get d ''code'' in
                case (if truthy numeric_code then numeric_code_lookup B numeric_code
                      else Inr None) of
                  Inl e \<Rightarrow> Inl e
                | Inr (Some description) \<Rightarrow>
                    Inl (RuntimeError
                          (''Deluthium API error [code '' @ py_str B numeric_code @ '']: ''
                             @ description))
                | Inr None \<Rightarrow> Inr ()))
      | _ \<Rightarrow> Inl AttributeError)"

text \<open>
  \<open>_place_order\<close>. \<open>post\<close> is the HTTP client: the outcome of the POST of a payload to a
  URL; \<open>str_amount\<close> is \<open>str\<close> on the amount. The parameters \<open>order_type\<close> and \<open>price\<close> are
  not read by the source. The status of the response is not inspected. An exception of the
  client is logged and raised again.
\<close>

definition place_order ::
  "builtins \<Rightarrow> ('d \<Rightarrow> string) \<Rightarrow> (string \<Rightarrow> pydict \<Rightarrow> headers \<Rightarrow> http_outcome)
     \<Rightarrow> exchange \<Rightarrow> string \<Rightarrow> 'd \<Rightarrow> bool \<Rightarrow> exn + pyval" where
  "place_order B str_amount post self trading_pair amount is_buy =
     (let url = BASE_URL @ QUOTE_FIRM_PATH;
          deluthium_symbol = convert_symbol_to_deluthium trading_pair
      in case unpack2 (split_on (CHR ''/'') deluthium_symbol) of
           Inl e \<Rightarrow> Inl e
         | Inr (base, quote) \<Rightarrow>
             (let payload =
                    [(''baseToken'', PStr base),
                     (''quoteToken'', PStr quote),
                     (''side'', PStr (if is_buy then ''buy'' else ''sell'')),
                     (''amount'', PStr (str_amount amount)),
                     (''chainId'', PInt (chain_id self))]
                    @ (if wallet_address self \<noteq> []
                       then [(''walletAddress'', PStr (wallet_address self))] else []);
                  headers =
                    [(''Authorization'', ''Bearer '' @ api_key self),
                     (''Content-Type'', ''application/json'')]
              in case post url payload headers of
                   Raised e \<Rightarrow> Inl e
                 | Response status (Inl e) \<Rightarrow> Inl e
                 | Response status (Inr data) \<Rightarrow>
                     (case handle_response_errors B data of
                        Inl e \<Rightarrow> Inl e
                      | Inr u \<Rightarrow> Inr data)))"

text \<open>
  Vocabulary for the statements about unknown codes. \<open>string_table_has v\<close> and
  \<open>numeric_table_has v\<close> say that the value \<open>v\<close> is a key of the table as Python compares
  keys (a float or a bool equals the int of the same value).
\<close>

fun string_table_has :: "pyval \<Rightarrow> bool" where
  "string_table_has (PStr s) = (map_of STRING_ERROR_CODES s \<noteq> None)"
| "string_table_has v = False"

fun numeric_table_has :: "pyval \<Rightarrow> bool" where
  "numeric_table_has (PInt n) = (map_of NUMERIC_ERROR_CODES n \<noteq> None)"
| "numeric_table_has (PBool b) = (map_of NUMERIC_ERROR_CODES (if b then 1 else 0) \<noteq> None)"
| "numeric_table_has (PFloat (Finite x)) =
     (x = of_int \<lfloor>x\<rfloor> \<and> map_of NUMERIC_ERROR_CODES \<lfloor>x\<rfloor> \<noteq> None)"
| "numeric_table_has v = False"

text \<open>
  The \<open>errorCode\<close> values that pass the first test: not a key of the string table, and
  not a non-empty list or dict (which cannot be hashed). The \<open>code\<close> values that pass the
  second test: falsy, or converted by \<open>int\<close> to an integer that is not a key.
\<close>

fun unknown_string_code :: "pyval \<Rightarrow> bool" where
  "unknown_string_code (PStr s) = (map_of STRING_ERROR_CODES s = None)"
| "unknown_string_code (PList xs) = (xs = [])"
| "unknown_string_code (PDict kvs) = (kvs = [])"
| "unknown_string_code v = True"

definition unknown_numeric_code :: "builtins \<Rightarrow> pyval \<Rightarrow> bool" where
  "unknown_numeric_code B v =
     (if truthy v
      then (case py_int B v of Inl e \<Rightarrow> False | Inr n \<Rightarrow> map_of NUMERIC_ERROR_CODES n = None)
      else True)"

section \<open>The order book (\<open>deluthium_order_book.py\<close>)\<close>

text \<open>
  Dictionaries are objects: a caller and a callee may hold the same one. The store is the
  list of the dictionaries allocated so far, a reference is an index into it, and a new
  dictionary is appended.
\<close>

type_synonym store = "pydict list"

datatype message_type = SNAPSHOT | DIFF | TRADE

text \<open>
  What the class methods return: an \<open>OrderBookMessage\<close> of the host framework when it is
  installed, the bare content dictionary otherwise.
\<close>

datatype order_book_message =
    OrderBookMessage message_type pydict pyfloat
  | PlainContent pydict

text \<open>
  \<open>DeluthiumOrderBook.snapshot_message_from_exchange\<close>. \<open>hb_available\<close> is the module flag
  \<open>_HB_AVAILABLE\<close>; \<open>msg\<close> is the reference the caller passes. With a non-empty
  \<open>metadata\<close> the local name \<open>msg\<close> is rebound to a new merged dictionary. The default
  \<open>int(timestamp)\<close> is evaluated whether or not \<open>update_id\<close> is present. The result is
  paired with the store after the call.
\<close>

definition snapshot_message_from_exchange ::
  "builtins \<Rightarrow> bool \<Rightarrow> store \<Rightarrow> nat \<Rightarrow> pyfloat \<Rightarrow> pydict option
     \<Rightarrow> (exn + order_book_message) \<times> store" where
  "snapshot_message_from_exchange B hb_available s msg timestamp metadata =
     (let (s1, msg1) =
            (case metadata of
               None \<Rightarrow> (s, msg)
             | Some md \<Rightarrow>
                 if md \<noteq> [] then (s @ [dict_merge (s ! msg) md], length s) else (s, msg));
          m = s1 ! msg1
      in (case py_int B (PFloat timestamp) of
            Inl e \<Rightarrow> Inl e
          | Inr ts \<Rightarrow>
              (let content =
                     [(''trading_pair'', dict_get_default m ''trading_pair'' (PStr [])),
                      (''update_id'', dict_get_default m ''update_id'' (PInt ts)),
                      (''bids'', dict_get_default m ''bids'' (PList [])),
                      (''asks'', dict_get_default m ''asks'' (PList []))]
               in Inr (if hb_available then OrderBookMessage SNAPSHOT content timestamp
                       else PlainContent content)),
          s1))"

section \<open>The order-book data source (\<open>deluthium_api_order_book_data_source.py\<close>)\<close>

definition SYNTHETIC_SPREAD_RATIO :: decimal where
  "SYNTHETIC_SPREAD_RATIO = DFin (1 / 1000)"

record data_source =
  src_trading_pairs :: "string list"
  src_api_key :: string
  src_chain_id :: int

text \<open>
  \<open>_get_indicative_price\<close>. \<open>get\<close> is the HTTP client: the outcome of the GET of a URL with
  headers and query parameters. The pair is split before the \<open>try\<close> block; inside it,
  \<open>raise_for_status\<close> raises for a status of 400 or more, and \<open>data.get\<close> raises
  \<open>AttributeError\<close> when the body is not an object.
\<close>

definition price_of_response :: "builtins \<Rightarrow> http_outcome \<Rightarrow> exn + pyfloat option" where
  "price_of_response B outcome =
     (case outcome of
        Raised e \<Rightarrow> Inl e
      | Response status json \<Rightarrow>
          (if 400 \<le> status then Inl ClientError
           else case json of
                  Inl e \<Rightarrow> Inl e
                | Inr (PDict d) \<Rightarrow>
                    (let price = dict_get d ''price''
                     in if price \<noteq> PNone
                        then (case py_float B price of Inl e \<Rightarrow> Inl e | Inr f \<Rightarrow> Inr (Some f))
                        else Inr None)
                | Inr v \<Rightarrow> Inl AttributeError))"

text \<open>The request was cancelled while the caller was waiting for it.\<close>

fun cancelled :: "http_outcome \<Rightarrow> bool" where
  "cancelled (Raised e) = (e = CancelledError)"
| "cancelled (Response status (Inl e)) = (e = CancelledError)"
| "cancelled (Response status (Inr v)) = False"

definition get_indicative_price ::
  "builtins \<Rightarrow> (string \<Rightarrow> headers \<Rightarrow> pydict \<Rightarrow> http_outcome) \<Rightarrow> data_source \<Rightarrow> string
     \<Rightarrow> exn + pyfloat option" where
  "get_indicative_price B get self trading_pair =
     (let url = BASE_URL @ QUOTE_INDICATIVE_PATH;
          headers =
            [(''Authorization'', ''Bearer '' @ src_api_key self),
             (''Content-Type'', ''application/json'')]
      in case unpack2 (if CHR ''-'' \<in> set trading_pair
                       then split_on (CHR ''-'') trading_pair
                       else split_on (CHR ''/'') trading_pair) of
           Inl e \<Rightarrow> Inl e
         | Inr (base, quote) \<Rightarrow>
             (let params =
                    [(''baseToken'', PStr base),
                     (''quoteToken'', PStr quote),
                     (''chainId'', PInt (src_chain_id self))]
              in except_Exception None (price_of_response B (get url headers params))))"

text \<open>
  \<open>_request_order_book_snapshot\<close>: the synthetic book of two levels on each side, in the
  order in which the source evaluates it.
\<close>

definition request_order_book_snapshot ::
  "builtins \<Rightarrow> (string \<Rightarrow> headers \<Rightarrow> pydict \<Rightarrow> http_outcome) \<Rightarrow> data_source \<Rightarrow> string
     \<Rightarrow> exn + pydict" where
  "request_order_book_snapshot B get self trading_pair =
     bind_exn (get_indicative_price B get self trading_pair) (\<lambda>mid.
       case mid of
         None \<Rightarrow>
           Inr [(''bids'', PList []), (''asks'', PList []), (''trading_pair'', PStr trading_pair)]
       | Some mid_f \<Rightarrow>
           (let mid_d = decimal_of_float B mid_f in
            bind_exn (dec_mul mid_d SYNTHETIC_SPREAD_RATIO) (\<lambda>t.
            bind_exn (dec_div t (DFin 2)) (\<lambda>half_spread.
            bind_exn (dec_sub mid_d half_spread) (\<lambda>bid1.
            bind_exn (dec_add mid_d half_spread) (\<lambda>ask1.
            bind_exn (dec_mul half_spread (DFin 2)) (\<lambda>h2.
            bind_exn (dec_sub mid_d h2) (\<lambda>bid2.
            bind_exn (dec_mul half_spread (DFin 2)) (\<lambda>h2'.
            bind_exn (dec_add mid_d h2') (\<lambda>ask2.
              Inr [(''trading_pair'', PStr trading_pair),
                   (''bids'',
                      PList [PList [PFloat (float_of_decimal bid1), PFloat (Finite 1)],
                             PList [PFloat (float_of_decimal bid2), PFloat (Finite 2)]]),
                   (''asks'',
                      PList [PList [PFloat (float_of_decimal ask1), PFloat (Finite 1)],
                             PList [PFloat (float_of_decimal ask2), PFloat (Finite 2)]])]))))))))))"

text \<open>
  \<open>listen_for_order_book_snapshots\<close>, as a transition system. One step is what the
  coroutine does between two suspension points: polling one pair (the request, the
  message, \<open>put_nowait\<close>), or one sleep. The environment of a step says what the
  surroundings do during it: how the HTTP client answers, what \<open>time.time()\<close> returns,
  whether the output queue is full, and whether the sleep completes or is cancelled.
\<close>

datatype sleep_outcome = Woke | SleepCancelled

record environment =
  http :: "string \<Rightarrow> headers \<Rightarrow> pydict \<Rightarrow> http_outcome"
  now :: pyfloat
  queue_full :: bool
  sleep :: sleep_outcome

text \<open>
  The control point: inside the \<open>for\<close> loop with the pairs still to poll (none left: at
  the sleep that ends the \<open>try\<close> block), in the handler of \<open>except Exception\<close> at its
  sleep, or ended by an exception that left the coroutine.
\<close>

datatype control = Polling "string list" | Recovering | Terminated exn

record poller =
  control :: control
  emitted :: "order_book_message list"

text \<open>\<open>output.put_nowait(msg)\<close>: the messages put so far, in order.\<close>

definition put_nowait ::
  "environment \<Rightarrow> order_book_message list \<Rightarrow> order_book_message
     \<Rightarrow> exn + order_book_message list" where
  "put_nowait env out msg = (if queue_full env then Inl QueueFull else Inr (out @ [msg]))"

text \<open>The body of the \<open>for\<close> loop for one pair; the snapshot is a new dictionary.\<close>

definition poll_pair ::
  "builtins \<Rightarrow> bool \<Rightarrow> data_source \<Rightarrow> environment \<Rightarrow> string \<Rightarrow> order_book_message list
     \<Rightarrow> exn + order_book_message list" where
  "poll_pair B hb_available self env pair out =
     bind_exn (request_order_book_snapshot B (http env) self pair) (\<lambda>snapshot.
       bind_exn
         (fst (snapshot_message_from_exchange B hb_available [snapshot] 0 (now env)
                 (Some [(''trading_pair'', PStr pair)])))
         (\<lambda>msg. put_nowait env out msg))"

text \<open>\<open>await asyncio.sleep(POLL_INTERVAL)\<close>, then the next iteration of \<open>while True\<close>.\<close>

definition after_sleep :: "data_source \<Rightarrow> environment \<Rightarrow> poller \<Rightarrow> poller" where
  "after_sleep self env st =
     (case sleep env of
        Woke \<Rightarrow> st\<lparr>control := Polling (src_trading_pairs self)\<rparr>
      | SleepCancelled \<Rightarrow> st\<lparr>control := Terminated CancelledError\<rparr>)"

definition step ::
  "builtins \<Rightarrow> bool \<Rightarrow> data_source \<Rightarrow> environment \<Rightarrow> poller \<Rightarrow> poller option" where
  "step B hb_available self env st =
     (case control st of
        Polling [] \<Rightarrow> Some (after_sleep self env st)
      | Polling (pair # rest) \<Rightarrow>
          (case poll_pair B hb_available self env pair (emitted st) of
             Inr out \<Rightarrow> Some \<lparr>control = Polling rest, emitted = out\<rparr>
           | Inl e \<Rightarrow>
               if e = CancelledError then Some (st\<lparr>control := Terminated e\<rparr>)
               else if is_Exception e then Some (st\<lparr>control := Recovering\<rparr>)
               else Some (st\<lparr>control := Terminated e\<rparr>))
      | Recovering \<Rightarrow> Some (after_sleep self env st)
      | Terminated e \<Rightarrow> None)"

text \<open>A run: the steps taken under a sequence of environments, for as long as there is one.\<close>

fun run ::
  "builtins \<Rightarrow> bool \<Rightarrow> data_source \<Rightarrow> environment list \<Rightarrow> poller \<Rightarrow> poller" where
  "run B hb_available self [] st = st"
| "run B hb_available self (env # envs) st =
     (case step B hb_available self env st of
        None \<Rightarrow> st
      | Some st' \<Rightarrow> run B hb_available self envs st')"

text \<open>
  Vocabulary for the statements about the loop: the poller has ended; the surroundings
  deliver a cancellation during the step (to the request, the only suspension point of
  polling a pair, or to the sleep).
\<close>

definition terminated :: "poller \<Rightarrow> bool" where
  "terminated st = (case control st of Terminated e \<Rightarrow> True | _ \<Rightarrow> False)"

definition cancellation_delivered :: "environment \<Rightarrow> poller \<Rightarrow> bool" where
  "cancellation_delivered env st =
     (case control st of
        Polling (pair # rest) \<Rightarrow> (\<exists>u h p. cancelled (http env u h p))
      | Terminated e \<Rightarrow> False
      | _ \<Rightarrow> sleep env = SleepCancelled)"

text \<open>
  The cancellation is raised at the suspension point of the step: the request of the pair
  being polled raises it out of \<open>_get_indicative_price\<close>, or the sleep raises it.
\<close>

definition cancellation_observed :: "builtins \<Rightarrow> data_source \<Rightarrow> environment \<Rightarrow> poller \<Rightarrow> bool" where
  "cancellation_observed B self env st =
     (case control st of
        Polling (pair # rest) \<Rightarrow> get_indicative_price B (http env) self pair = Inl CancelledError
      | Terminated e \<Rightarrow> False
      | _ \<Rightarrow> sleep env = SleepCancelled)"

text \<open>
  Vocabulary for the statement about the snapshot message: the value of field \<open>k\<close> where
  the entries of \<open>metadata\<close> override those of \<open>msg\<close>, and \<open>dflt\<close> stands in when neither
  has the field.
\<close>

definition overriding_get :: "pydict \<Rightarrow> pydict \<Rightarrow> string \<Rightarrow> pyval \<Rightarrow> pyval" where
  "overriding_get metadata msg k dflt =
     (case map_of metadata k of
        Some v \<Rightarrow> v
      | None \<Rightarrow> (case map_of msg k of Some v \<Rightarrow> v | None \<Rightarrow> dflt))"

text \<open>No cancellation reaches the poller during the step, wherever it is suspended.\<close>

definition no_cancellation :: "environment \<Rightarrow> bool" where
  "no_cancellation env = ((\<forall>u h p. \<not> cancelled (http env u h p)) \<and> sleep env = Woke)"

section \<open>Symbol codec and chain validation: properties\<close>

lemma replace_char_absent: "old \<notin> set s \<Longrightarrow> replace_char old new s = s"
  by (induction s) (auto simp: replace_char_def)

lemma replace_char_back:
  "new \<notin> set s \<Longrightarrow> replace_char new old (replace_char old new s) = s"
  by (induction s) (auto simp: replace_char_def)

lemma replace_char_append:
  "replace_char a b (s @ t) = replace_char a b s @ replace_char a b t"
  by (simp add: replace_char_def)

lemma str_nat_999: "str_nat 999 = ''999''"
  by (simp add: str_nat.simps [of 999] str_nat.simps [of 99] str_nat.simps [of 9])

lemma str_nat_56: "str_nat 56 = ''56''"
  by (simp add: str_nat.simps [of 56] str_nat.simps [of 5])

lemma str_nat_8453: "str_nat 8453 = ''8453''"
  by (simp add: str_nat.simps [of 8453] str_nat.simps [of 845] str_nat.simps [of 84]
        str_nat.simps [of 8])

lemma str_nat_1: "str_nat (Suc 0) = ''1''"
  by (simp add: str_nat.simps [of "Suc 0"])

text \<open>
  Claim C8. The symbol codec round-trips: a venue symbol \<open>BASE/QUOTE\<close> whose tokens hold
  neither separator is mapped to the host notation and back to itself, and a host symbol
  \<open>BASE-QUOTE\<close> of such tokens is mapped to the venue notation and back to itself.
\<close>

theorem symbol_codec_roundtrip:
  assumes "sep_free b" and "sep_free q"
  shows "convert_symbol_to_deluthium (convert_symbol_to_hummingbot (b @ ''/'' @ q)) = b @ ''/'' @ q
       \<and> convert_symbol_to_hummingbot (convert_symbol_to_deluthium (b @ ''-'' @ q)) = b @ ''-'' @ q"
proof -
  from assms have v: "CHR ''-'' \<notin> set (b @ ''/'' @ q)" and h: "CHR ''/'' \<notin> set (b @ ''-'' @ q)"
    by (auto simp: sep_free_def)
  show ?thesis
    unfolding convert_symbol_to_deluthium_def convert_symbol_to_hummingbot_def
    using replace_char_back [OF v] replace_char_back [OF h] by simp
qed

theorem symbol_codec_roundtrip_witness:
  "sep_free ''BNB'' \<and> sep_free ''USDT''
   \<and> convert_symbol_to_hummingbot ''BNB/USDT'' = ''BNB-USDT''
   \<and> convert_symbol_to_deluthium (convert_symbol_to_hummingbot ''BNB/USDT'') = ''BNB/USDT''
   \<and> convert_symbol_to_hummingbot (convert_symbol_to_deluthium ''BNB-USDT'') = ''BNB-USDT''"
proof -
  have b: "sep_free ''BNB''" and q: "sep_free ''USDT''"
    by (simp_all add: sep_free_def)
  have "convert_symbol_to_hummingbot ''BNB/USDT'' = ''BNB-USDT''"
    by (simp add: convert_symbol_to_hummingbot_def replace_char_def)
  with b q symbol_codec_roundtrip [OF b q] show ?thesis by simp
qed

text \<open>
  Claim C9. Chain 56 is supported and chain 999 is not; \<open>get_wrapped_token(999)\<close> raises
  (the source raises \<open>ValueError\<close>, the validation error of the specification, naming the
  chain and the supported ones), and on each supported chain 56, 8453 and 1 it returns the
  wrapped-token address.
\<close>

theorem chain_validation:
  "validate_chain_id 56 \<and> \<not> validate_chain_id 999
   \<and> get_wrapped_token 999
       = Inl (ValueError ''Chain ID 999 is not supported. Supported chains: [56, 8453, 1]'')
   \<and> get_wrapped_token 56 = Inr ''0xbb4CdB9CBd36B01bD1cBaEBF2De08d9173bc095c''
   \<and> get_wrapped_token 8453 = Inr ''0x4200000000000000000000000000000000000006''
   \<and> get_wrapped_token 1 = Inr ''0xC02aaA39b223FE8D0A0e5C4F27eAD9083C756Cc2''"
  by (simp add: validate_chain_id_def SUPPORTED_CHAINS_def get_wrapped_token_def
        WRAPPED_TOKENS_def str_int_def str_int_list_def str_nat_999 str_nat_56 str_nat_8453
        str_nat_1)
section \<open>Error normalisation of the firm-quote response: properties\<close>

lemma string_table_key_nonempty: "map_of STRING_ERROR_CODES s = Some desc \<Longrightarrow> s \<noteq> []"
  by (auto simp: STRING_ERROR_CODES_def)

lemma handle_string_code:
  assumes "map_of d ''errorCode'' = Some (PStr s)" and "map_of STRING_ERROR_CODES s = Some desc"
  shows "handle_response_errors B (PDict d)
           = Inl (RuntimeError (''Deluthium API error ['' @ s @ '']: '' @ desc))"
  using assms string_table_key_nonempty [OF assms(2)]
  by (simp add: handle_response_errors_def dict_get_def)

lemma handle_numeric_code:
  assumes "\<not> truthy (dict_get d ''errorCode'') \<or> string_code_lookup (dict_get d ''errorCode'') = Inr None"
    and "truthy (dict_get d ''code'')"
    and "py_int B (dict_get d ''code'') = Inr n"
    and "map_of NUMERIC_ERROR_CODES n = Some desc"
  shows "handle_response_errors B (PDict d)
           = Inl (RuntimeError (''Deluthium API error [code '' @ py_str B (dict_get d ''code'')
                    @ '']: '' @ desc))"
  using assms by (auto simp: handle_response_errors_def numeric_code_lookup_def Let_def)

lemma handle_no_code:
  assumes "\<not> truthy (dict_get d ''errorCode'') \<or> string_code_lookup (dict_get d ''errorCode'') = Inr None"
    and "\<not> truthy (dict_get d ''code'') \<or> numeric_code_lookup B (dict_get d ''code'') = Inr None"
  shows "handle_response_errors B (PDict d) = Inr ()"
  using assms by (auto simp: handle_response_errors_def Let_def)

lemma place_order_body:
  assumes "unpack2 (split_on (CHR ''/'') (convert_symbol_to_deluthium trading_pair)) = Inr (base, quote)"
  shows "place_order B str_amount (\<lambda>u p h. Response status (Inr data)) self trading_pair amount is_buy
           = (case handle_response_errors B data of Inl e \<Rightarrow> Inl e | Inr u \<Rightarrow> Inr data)"
  using assms by (simp add: place_order_def Let_def)

lemma sublist_expired_string:
  "sublist ''expired''
     ''Deluthium API error [QUOTE_EXPIRED]: The firm quote has expired. Request a new one.''"
proof -
  have "''Deluthium API error [QUOTE_EXPIRED]: The firm quote has expired. Request a new one.''
          = ''Deluthium API error [QUOTE_EXPIRED]: The firm quote has '' @ ''expired''
              @ ''. Request a new one.''"
    by simp
  then show ?thesis
    unfolding sublist_def by blast
qed

lemma sublist_expired_numeric:
  "sublist ''expired'' ''Deluthium API error [code 1004]: Quote expired''"
proof -
  have "''Deluthium API error [code 1004]: Quote expired''
          = ''Deluthium API error [code 1004]: Quote '' @ ''expired'' @ []"
    by simp
  then show ?thesis
    unfolding sublist_def by blast
qed

lemma str_nat_1004: "str_nat 1004 = ''1004''"
  by (simp add: str_nat.simps [of 1004] str_nat.simps [of 100] str_nat.simps [of 10]
        str_nat.simps [of "Suc 0"])

text \<open>
  Claim C3. Once the pair has split into its two tokens and the POST has delivered a JSON
  object \<open>d\<close>: with \<open>errorCode = "QUOTE_EXPIRED"\<close> the call raises the venue error (a
  \<open>RuntimeError\<close> in the source) whose message contains "expired"; with \<open>code = 1004\<close> it
  raises the corresponding error whenever the test of the string field has not fired, that
  is when \<open>errorCode\<close> is missing, null, empty or any other falsy value, or is a hashable
  value that is not a key of the string table; a known string code wins whatever the
  \<open>code\<close> field holds, and an \<open>errorCode\<close> that cannot be hashed raises before the \<open>code\<close>
  field is read, so the string field is decided first and the numeric field only after it;
  every known numeric code raises its description in the same way; with both fields
  absent \<open>_handle_response_errors\<close> returns and \<open>_place_order\<close> returns the payload itself.
\<close>

theorem firm_quote_error_normalisation:
  assumes pair:
    "unpack2 (split_on (CHR ''/'') (convert_symbol_to_deluthium trading_pair)) = Inr (base, quote)"
  shows
    "(\<forall>d. map_of d ''errorCode'' = Some (PStr ''QUOTE_EXPIRED'') \<longrightarrow>
        (\<exists>msg. place_order B str_amount (\<lambda>u p h. Response status (Inr (PDict d))) self trading_pair amount is_buy
                  = Inl (RuntimeError msg)
             \<and> msg = ''Deluthium API error [QUOTE_EXPIRED]: The firm quote has expired. Request a new one.''
             \<and> sublist ''expired'' msg))
   \<and> (\<forall>d. (\<not> truthy (dict_get d ''errorCode'')
              \<or> string_code_lookup (dict_get d ''errorCode'') = Inr None)
          \<and> map_of d ''code'' = Some (PInt 1004) \<longrightarrow>
        (\<exists>msg. place_order B str_amount (\<lambda>u p h. Response status (Inr (PDict d))) self trading_pair amount is_buy
                  = Inl (RuntimeError msg)
             \<and> msg = ''Deluthium API error [code 1004]: Quote expired''
             \<and> sublist ''expired'' msg))
   \<and> (\<forall>d s desc. map_of d ''errorCode'' = Some (PStr s) \<and> map_of STRING_ERROR_CODES s = Some desc \<longrightarrow>
        place_order B str_amount (\<lambda>u p h. Response status (Inr (PDict d))) self trading_pair amount is_buy
          = Inl (RuntimeError (''Deluthium API error ['' @ s @ '']: '' @ desc)))
   \<and> (\<forall>d. map_of d ''errorCode'' = None \<and> map_of d ''code'' = None \<longrightarrow>
        handle_response_errors B (PDict d) = Inr ()
        \<and> place_order B str_amount (\<lambda>u p h. Response status (Inr (PDict d))) self trading_pair amount is_buy
            = Inr (PDict d))
   \<and> (\<forall>d n desc. (\<not> truthy (dict_get d ''errorCode'')
                     \<or> string_code_lookup (dict_get d ''errorCode'') = Inr None)
          \<and> truthy (dict_get d ''code'') \<and> py_int B (dict_get d ''code'') = Inr n
          \<and> map_of NUMERIC_ERROR_CODES n = Some desc \<longrightarrow>
        place_order B str_amount (\<lambda>u p h. Response status (Inr (PDict d))) self trading_pair amount is_buy
          = Inl (RuntimeError (''Deluthium API error [code '' @ py_str B (dict_get d ''code'')
                    @ '']: '' @ desc)))
   \<and> (\<forall>d e. truthy (dict_get d ''errorCode'')
          \<and> string_code_lookup (dict_get d ''errorCode'') = Inl e \<longrightarrow>
        place_order B str_amount (\<lambda>u p h. Response status (Inr (PDict d))) self trading_pair amount is_buy
          = Inl e)"
proof (intro conjI allI impI)
  fix d
  assume "map_of d ''errorCode'' = Some (PStr ''QUOTE_EXPIRED'')"
  then have "handle_response_errors B (PDict d)
      = Inl (RuntimeError ''Deluthium API error [QUOTE_EXPIRED]: The firm quote has expired. Request a new one.'')"
    using handle_string_code [of d "''QUOTE_EXPIRED''" "''The firm quote has expired. Request a new one.''" B]
    by (simp add: STRING_ERROR_CODES_def)
  then show "\<exists>msg. place_order B str_amount (\<lambda>u p h. Response status (Inr (PDict d))) self trading_pair amount is_buy
                  = Inl (RuntimeError msg)
             \<and> msg = ''Deluthium API error [QUOTE_EXPIRED]: The firm quote has expired. Request a new one.''
             \<and> sublist ''expired'' msg"
    using sublist_expired_string by (simp add: place_order_body [OF pair])
next
  fix d
  assume a: "(\<not> truthy (dict_get d ''errorCode'')
              \<or> string_code_lookup (dict_get d ''errorCode'') = Inr None)
          \<and> map_of d ''code'' = Some (PInt 1004)"
  then have s: "\<not> truthy (dict_get d ''errorCode'')
              \<or> string_code_lookup (dict_get d ''errorCode'') = Inr None"
    and c: "map_of d ''code'' = Some (PInt 1004)"
    by simp_all
  from c have "handle_response_errors B (PDict d)
      = Inl (RuntimeError (''Deluthium API error [code '' @ py_str B (dict_get d ''code'')
                    @ '']: '' @ ''Quote expired''))"
    by (intro handle_numeric_code [where n = 1004] s)
       (simp_all add: dict_get_def NUMERIC_ERROR_CODES_def)
  with c have "handle_response_errors B (PDict d)
      = Inl (RuntimeError ''Deluthium API error [code 1004]: Quote expired'')"
    by (simp add: dict_get_def str_int_def str_nat_1004)
  then show "\<exists>msg. place_order B str_amount (\<lambda>u p h. Response status (Inr (PDict d))) self trading_pair amount is_buy
                  = Inl (RuntimeError msg)
             \<and> msg = ''Deluthium API error [code 1004]: Quote expired''
             \<and> sublist ''expired'' msg"
    using sublist_expired_numeric by (simp add: place_order_body [OF pair])
next
  fix d s desc
  assume "map_of d ''errorCode'' = Some (PStr s) \<and> map_of STRING_ERROR_CODES s = Some desc"
  then show "place_order B str_amount (\<lambda>u p h. Response status (Inr (PDict d))) self trading_pair amount is_buy
          = Inl (RuntimeError (''Deluthium API error ['' @ s @ '']: '' @ desc))"
    by (simp add: place_order_body [OF pair] handle_string_code)
next
  fix d :: pydict
  assume a: "map_of d ''errorCode'' = None \<and> map_of d ''code'' = None"
  then show h: "handle_response_errors B (PDict d) = Inr ()"
    by (intro handle_no_code) (simp_all add: dict_get_def)
  show "place_order B str_amount (\<lambda>u p h. Response status (Inr (PDict d))) self trading_pair amount is_buy
            = Inr (PDict d)"
    by (simp add: place_order_body [OF pair] h)
next
  fix d n desc
  assume a: "(\<not> truthy (dict_get d ''errorCode'')
                \<or> string_code_lookup (dict_get d ''errorCode'') = Inr None)
          \<and> truthy (dict_get d ''code'') \<and> py_int B (dict_get d ''code'') = Inr n
          \<and> map_of NUMERIC_ERROR_CODES n = Some desc"
  then have "handle_response_errors B (PDict d)
      = Inl (RuntimeError (''Deluthium API error [code '' @ py_str B (dict_get d ''code'')
                    @ '']: '' @ desc))"
    by (intro handle_numeric_code [where n = n]) simp_all
  then show "place_order B str_amount (\<lambda>u p h. Response status (Inr (PDict d))) self trading_pair amount is_buy
          = Inl (RuntimeError (''Deluthium API error [code '' @ py_str B (dict_get d ''code'')
                    @ '']: '' @ desc))"
    by (simp add: place_order_body [OF pair])
next
  fix d e
  assume "truthy (dict_get d ''errorCode'')
          \<and> string_code_lookup (dict_get d ''errorCode'') = Inl e"
  then have "handle_response_errors B (PDict d) = Inl e"
    by (simp add: handle_response_errors_def)
  then show "place_order B str_amount (\<lambda>u p h. Response status (Inr (PDict d))) self trading_pair amount is_buy
          = Inl e"
    by (simp add: place_order_body [OF pair])
qed

theorem firm_quote_error_normalisation_witness:
  "\<forall>B. unpack2 (split_on (CHR ''/'') (convert_symbol_to_deluthium ''BNB-USDT'')) = Inr (''BNB'', ''USDT'')
   \<and> place_order B (\<lambda>a. a) (\<lambda>u p h. Response 200 (Inr (PDict [(''errorCode'', PStr ''QUOTE_EXPIRED'')])))
        \<lparr>api_key = ''key'', chain_id = 56, wallet_address = []\<rparr> ''BNB-USDT'' ''1.5'' True
       = Inl (RuntimeError
               ''Deluthium API error [QUOTE_EXPIRED]: The firm quote has expired. Request a new one.'')
   \<and> place_order B (\<lambda>a. a) (\<lambda>u p h. Response 200 (Inr (PDict [(''code'', PInt 1004)])))
        \<lparr>api_key = ''key'', chain_id = 56, wallet_address = []\<rparr> ''BNB-USDT'' ''1.5'' True
       = Inl (RuntimeError ''Deluthium API error [code 1004]: Quote expired'')
   \<and> place_order B (\<lambda>a. a)
        (\<lambda>u p h. Response 200 (Inr (PDict [(''errorCode'', PStr ''INVALID_AMOUNT''), (''code'', PInt 1004)])))
        \<lparr>api_key = ''key'', chain_id = 56, wallet_address = []\<rparr> ''BNB-USDT'' ''1.5'' True
       = Inl (RuntimeError
               ''Deluthium API error [INVALID_AMOUNT]: The amount provided is invalid (zero or negative).'')
   \<and> place_order B (\<lambda>a. a) (\<lambda>u p h. Response 200 (Inr (PDict [(''txHash'', PStr ''0xabc'')])))
        \<lparr>api_key = ''key'', chain_id = 56, wallet_address = []\<rparr> ''BNB-USDT'' ''1.5'' True
       = Inr (PDict [(''txHash'', PStr ''0xabc'')])
   \<and> place_order B (\<lambda>a. a)
        (\<lambda>u p h. Response 200 (Inr (PDict [(''errorCode'', PNone), (''code'', PInt 1004)])))
        \<lparr>api_key = ''key'', chain_id = 56, wallet_address = []\<rparr> ''BNB-USDT'' ''1.5'' True
       = Inl (RuntimeError ''Deluthium API error [code 1004]: Quote expired'')
   \<and> place_order B (\<lambda>a. a)
        (\<lambda>u p h. Response 200 (Inr (PDict [(''errorCode'', PStr []), (''code'', PInt 1004)])))
        \<lparr>api_key = ''key'', chain_id = 56, wallet_address = []\<rparr> ''BNB-USDT'' ''1.5'' True
       = Inl (RuntimeError ''Deluthium API error [code 1004]: Quote expired'')
   \<and> place_order B (\<lambda>a. a)
        (\<lambda>u p h. Response 200 (Inr (PDict [(''errorCode'', PStr ''SOMETHING_NEW''), (''code'', PInt 1004)])))
        \<lparr>api_key = ''key'', chain_id = 56, wallet_address = []\<rparr> ''BNB-USDT'' ''1.5'' True
       = Inl (RuntimeError ''Deluthium API error [code 1004]: Quote expired'')"
proof
  fix B :: builtins
  have p: "unpack2 (split_on (CHR ''/'') (convert_symbol_to_deluthium ''BNB-USDT''))
             = Inr (''BNB'', ''USDT'')"
    by (simp add: convert_symbol_to_deluthium_def replace_char_def)
  note t = firm_quote_error_normalisation [OF p, where B = B and str_amount = "\<lambda>a. a"
      and self = "\<lparr>api_key = ''key'', chain_id = 56, wallet_address = []\<rparr>"
      and amount = "''1.5''" and is_buy = True and status = 200]
  from t have c1: "\<forall>d. map_of d ''errorCode'' = Some (PStr ''QUOTE_EXPIRED'') \<longrightarrow>
        (\<exists>msg. place_order B (\<lambda>a. a) (\<lambda>u p h. Response 200 (Inr (PDict d)))
                  \<lparr>api_key = ''key'', chain_id = 56, wallet_address = []\<rparr> ''BNB-USDT'' ''1.5'' True
                  = Inl (RuntimeError msg)
             \<and> msg = ''Deluthium API error [QUOTE_EXPIRED]: The firm quote has expired. Request a new one.''
             \<and> sublist ''expired'' msg)"
    by (rule conjunct1)
  from t have c2: "\<forall>d. (\<not> truthy (dict_get d ''errorCode'')
              \<or> string_code_lookup (dict_get d ''errorCode'') = Inr None)
          \<and> map_of d ''code'' = Some (PInt 1004) \<longrightarrow>
        (\<exists>msg. place_order B (\<lambda>a. a) (\<lambda>u p h. Response 200 (Inr (PDict d)))
                  \<lparr>api_key = ''key'', chain_id = 56, wallet_address = []\<rparr> ''BNB-USDT'' ''1.5'' True
                  = Inl (RuntimeError msg)
             \<and> msg = ''Deluthium API error [code 1004]: Quote expired''
             \<and> sublist ''expired'' msg)"
    by (rule conjunct1 [OF conjunct2])
  from t have c3: "\<forall>d s desc. map_of d ''errorCode'' = Some (PStr s)
          \<and> map_of STRING_ERROR_CODES s = Some desc \<longrightarrow>
        place_order B (\<lambda>a. a) (\<lambda>u p h. Response 200 (Inr (PDict d)))
            \<lparr>api_key = ''key'', chain_id = 56, wallet_address = []\<rparr> ''BNB-USDT'' ''1.5'' True
          = Inl (RuntimeError (''Deluthium API error ['' @ s @ '']: '' @ desc))"
    by (rule conjunct1 [OF conjunct2 [OF conjunct2]])
  from t have c4: "\<forall>d. map_of d ''errorCode'' = None \<and> map_of d ''code'' = None \<longrightarrow>
        handle_response_errors B (PDict d) = Inr ()
        \<and> place_order B (\<lambda>a. a) (\<lambda>u p h. Response 200 (Inr (PDict d)))
            \<lparr>api_key = ''key'', chain_id = 56, wallet_address = []\<rparr> ''BNB-USDT'' ''1.5'' True
            = Inr (PDict d)"
    by (rule conjunct1 [OF conjunct2 [OF conjunct2 [OF conjunct2]]])
  have r1: "place_order B (\<lambda>a. a) (\<lambda>u p h. Response 200 (Inr (PDict [(''errorCode'', PStr ''QUOTE_EXPIRED'')])))
        \<lparr>api_key = ''key'', chain_id = 56, wallet_address = []\<rparr> ''BNB-USDT'' ''1.5'' True
       = Inl (RuntimeError
               ''Deluthium API error [QUOTE_EXPIRED]: The firm quote has expired. Request a new one.'')"
    using c1 [rule_format, of "[(''errorCode'', PStr ''QUOTE_EXPIRED'')]"] by auto
  have r2: "place_order B (\<lambda>a. a) (\<lambda>u p h. Response 200 (Inr (PDict [(''code'', PInt 1004)])))
        \<lparr>api_key = ''key'', chain_id = 56, wallet_address = []\<rparr> ''BNB-USDT'' ''1.5'' True
       = Inl (RuntimeError ''Deluthium API error [code 1004]: Quote expired'')"
    using c2 [rule_format, of "[(''code'', PInt 1004)]"] by (auto simp: dict_get_def)
  have r3: "place_order B (\<lambda>a. a)
        (\<lambda>u p h. Response 200 (Inr (PDict [(''errorCode'', PStr ''INVALID_AMOUNT''), (''code'', PInt 1004)])))
        \<lparr>api_key = ''key'', chain_id = 56, wallet_address = []\<rparr> ''BNB-USDT'' ''1.5'' True
       = Inl (RuntimeError
               ''Deluthium API error [INVALID_AMOUNT]: The amount provided is invalid (zero or negative).'')"
    using c3 [rule_format, of "[(''errorCode'', PStr ''INVALID_AMOUNT''), (''code'', PInt 1004)]"
        "''INVALID_AMOUNT''" "''The amount provided is invalid (zero or negative).''"]
    by (simp add: STRING_ERROR_CODES_def)
  have r4: "place_order B (\<lambda>a. a) (\<lambda>u p h. Response 200 (Inr (PDict [(''txHash'', PStr ''0xabc'')])))
        \<lparr>api_key = ''key'', chain_id = 56, wallet_address = []\<rparr> ''BNB-USDT'' ''1.5'' True
       = Inr (PDict [(''txHash'', PStr ''0xabc'')])"
    using c4 [rule_format, of "[(''txHash'', PStr ''0xabc'')]"] by simp
  have r5: "place_order B (\<lambda>a. a)
        (\<lambda>u p h. Response 200 (Inr (PDict [(''errorCode'', PNone), (''code'', PInt 1004)])))
        \<lparr>api_key = ''key'', chain_id = 56, wallet_address = []\<rparr> ''BNB-USDT'' ''1.5'' True
       = Inl (RuntimeError ''Deluthium API error [code 1004]: Quote expired'')"
    using c2 [rule_format, of "[(''errorCode'', PNone), (''code'', PInt 1004)]"]
    by (auto simp: dict_get_def)
  have r6: "place_order B (\<lambda>a. a)
        (\<lambda>u p h. Response 200 (Inr (PDict [(''errorCode'', PStr []), (''code'', PInt 1004)])))
        \<lparr>api_key = ''key'', chain_id = 56, wallet_address = []\<rparr> ''BNB-USDT'' ''1.5'' True
       = Inl (RuntimeError ''Deluthium API error [code 1004]: Quote expired'')"
    using c2 [rule_format, of "[(''errorCode'', PStr []), (''code'', PInt 1004)]"]
    by (auto simp: dict_get_def)
  have r7: "place_order B (\<lambda>a. a)
        (\<lambda>u p h. Response 200 (Inr (PDict [(''errorCode'', PStr ''SOMETHING_NEW''), (''code'', PInt 1004)])))
        \<lparr>api_key = ''key'', chain_id = 56, wallet_address = []\<rparr> ''BNB-USDT'' ''1.5'' True
       = Inl (RuntimeError ''Deluthium API error [code 1004]: Quote expired'')"
    using c2 [rule_format, of "[(''errorCode'', PStr ''SOMETHING_NEW''), (''code'', PInt 1004)]"]
    by (auto simp: dict_get_def STRING_ERROR_CODES_def)
  from p r1 r2 r3 r4 r5 r6 r7
  show "unpack2 (split_on (CHR ''/'') (convert_symbol_to_deluthium ''BNB-USDT'')) = Inr (''BNB'', ''USDT'')
   \<and> place_order B (\<lambda>a. a) (\<lambda>u p h. Response 200 (Inr (PDict [(''errorCode'', PStr ''QUOTE_EXPIRED'')])))
        \<lparr>api_key = ''key'', chain_id = 56, wallet_address = []\<rparr> ''BNB-USDT'' ''1.5'' True
       = Inl (RuntimeError
               ''Deluthium API error [QUOTE_EXPIRED]: The firm quote has expired. Request a new one.'')
   \<and> place_order B (\<lambda>a. a) (\<lambda>u p h. Response 200 (Inr (PDict [(''code'', PInt 1004)])))
        \<lparr>api_key = ''key'', chain_id = 56, wallet_address = []\<rparr> ''BNB-USDT'' ''1.5'' True
       = Inl (RuntimeError ''Deluthium API error [code 1004]: Quote expired'')
   \<and> place_order B (\<lambda>a. a)
        (\<lambda>u p h. Response 200 (Inr (PDict [(''errorCode'', PStr ''INVALID_AMOUNT''), (''code'', PInt 1004)])))
        \<lparr>api_key = ''key'', chain_id = 56, wallet_address = []\<rparr> ''BNB-USDT'' ''1.5'' True
       = Inl (RuntimeError
               ''Deluthium API error [INVALID_AMOUNT]: The amount provided is invalid (zero or negative).'')
   \<and> place_order B (\<lambda>a. a) (\<lambda>u p h. Response 200 (Inr (PDict [(''txHash'', PStr ''0xabc'')])))
        \<lparr>api_key = ''key'', chain_id = 56, wallet_address = []\<rparr> ''BNB-USDT'' ''1.5'' True
       = Inr (PDict [(''txHash'', PStr ''0xabc'')])
   \<and> place_order B (\<lambda>a. a)
        (\<lambda>u p h. Response 200 (Inr (PDict [(''errorCode'', PNone), (''code'', PInt 1004)])))
        \<lparr>api_key = ''key'', chain_id = 56, wallet_address = []\<rparr> ''BNB-USDT'' ''1.5'' True
       = Inl (RuntimeError ''Deluthium API error [code 1004]: Quote expired'')
   \<and> place_order B (\<lambda>a. a)
        (\<lambda>u p h. Response 200 (Inr (PDict [(''errorCode'', PStr []), (''code'', PInt 1004)])))
        \<lparr>api_key = ''key'', chain_id = 56, wallet_address = []\<rparr> ''BNB-USDT'' ''1.5'' True
       = Inl (RuntimeError ''Deluthium API error [code 1004]: Quote expired'')
   \<and> place_order B (\<lambda>a. a)
        (\<lambda>u p h. Response 200 (Inr (PDict [(''errorCode'', PStr ''SOMETHING_NEW''), (''code'', PInt 1004)])))
        \<lparr>api_key = ''key'', chain_id = 56, wallet_address = []\<rparr> ''BNB-USDT'' ''1.5'' True
       = Inl (RuntimeError ''Deluthium API error [code 1004]: Quote expired'')" by blast
qed

section \<open>Unknown codes: properties\<close>

lemma unknown_string_code_passes:
  "unknown_string_code v \<Longrightarrow> \<not> truthy v \<or> string_code_lookup v = Inr None"
  by (cases v) auto

lemma unknown_numeric_code_passes:
  "unknown_numeric_code B v \<Longrightarrow> \<not> truthy v \<or> numeric_code_lookup B v = Inr None"
  by (auto simp: unknown_numeric_code_def numeric_code_lookup_def split: if_splits sum.splits)

text \<open>
  Claim C4, as stated, fails: a \<open>code\<close> of 1004.5 is not a key of the numeric table (and
  there is no \<open>errorCode\<close>), yet \<open>int\<close> truncates it to 1004 and the call raises; an
  \<open>errorCode\<close> that is a list is not a key of the string table either, and the membership
  test raises \<open>TypeError\<close>.
\<close>

theorem unknown_codes_counterexample:
  "\<not> string_table_has (dict_get [(''code'', PFloat (Finite (2009 / 2)))] ''errorCode'')
   \<and> \<not> numeric_table_has (dict_get [(''code'', PFloat (Finite (2009 / 2)))] ''code'')
   \<and> (\<forall>B. handle_response_errors B (PDict [(''code'', PFloat (Finite (2009 / 2)))])
          = Inl (RuntimeError (''Deluthium API error [code '' @ repr_float B (Finite (2009 / 2))
                    @ '']: Quote expired'')))
   \<and> \<not> string_table_has (dict_get [(''errorCode'', PList [PStr ''E'']), (''code'', PInt 7)] ''errorCode'')
   \<and> \<not> numeric_table_has (dict_get [(''errorCode'', PList [PStr ''E'']), (''code'', PInt 7)] ''code'')
   \<and> (\<forall>B. handle_response_errors B (PDict [(''errorCode'', PList [PStr ''E'']), (''code'', PInt 7)])
          = Inl TypeError)"
proof -
  have fl: "\<lfloor>2009 / 2 :: rat\<rfloor> = 1004"
    by (simp add: floor_eq_iff)
  have "\<forall>B. handle_response_errors B (PDict [(''code'', PFloat (Finite (2009 / 2)))])
          = Inl (RuntimeError (''Deluthium API error [code '' @ repr_float B (Finite (2009 / 2))
                    @ '']: Quote expired''))"
    by (simp add: handle_response_errors_def dict_get_def numeric_code_lookup_def trunc_rat_def
          fl NUMERIC_ERROR_CODES_def)
  moreover have "\<forall>B. handle_response_errors B
          (PDict [(''errorCode'', PList [PStr ''E'']), (''code'', PInt 7)]) = Inl TypeError"
    by (simp add: handle_response_errors_def dict_get_def)
  ultimately show ?thesis
    by (simp add: dict_get_def NUMERIC_ERROR_CODES_def fl)
qed

text \<open>
  Claim C4, amended. For every response object whose \<open>errorCode\<close> is absent or falsy, or
  is neither a key of the string table nor a non-empty list or dict, and whose \<open>code\<close> is
  absent or falsy, or is converted by \<open>int\<close> to an integer that is not a key of the numeric
  table, \<open>_handle_response_errors\<close> returns without raising and \<open>_place_order\<close> (the pair
  having split into its two tokens) returns the payload itself.
\<close>

theorem unknown_codes_pass_through:
  assumes "unpack2 (split_on (CHR ''/'') (convert_symbol_to_deluthium trading_pair)) = Inr (base, quote)"
    and "unknown_string_code (dict_get d ''errorCode'')"
    and "unknown_numeric_code B (dict_get d ''code'')"
  shows "handle_response_errors B (PDict d) = Inr ()
       \<and> place_order B str_amount (\<lambda>u p h. Response status (Inr (PDict d))) self trading_pair amount is_buy
           = Inr (PDict d)"
proof -
  have h: "handle_response_errors B (PDict d) = Inr ()"
    using unknown_string_code_passes [OF assms(2)] unknown_numeric_code_passes [OF assms(3)]
    by (rule handle_no_code)
  then show ?thesis
    by (simp add: place_order_body [OF assms(1)])
qed

theorem unknown_codes_pass_through_witness:
  "\<forall>B. unpack2 (split_on (CHR ''/'') (convert_symbol_to_deluthium ''BNB-USDT'')) = Inr (''BNB'', ''USDT'')
   \<and> unknown_string_code (dict_get [(''errorCode'', PStr ''SOMETHING_NEW''), (''code'', PInt 4242)] ''errorCode'')
   \<and> unknown_numeric_code B (dict_get [(''errorCode'', PStr ''SOMETHING_NEW''), (''code'', PInt 4242)] ''code'')
   \<and> handle_response_errors B (PDict [(''errorCode'', PStr ''SOMETHING_NEW''), (''code'', PInt 4242)]) = Inr ()
   \<and> place_order B (\<lambda>a. a)
        (\<lambda>u p h. Response 200 (Inr (PDict [(''errorCode'', PStr ''SOMETHING_NEW''), (''code'', PInt 4242)])))
        \<lparr>api_key = ''key'', chain_id = 56, wallet_address = []\<rparr> ''BNB-USDT'' ''1.5'' False
       = Inr (PDict [(''errorCode'', PStr ''SOMETHING_NEW''), (''code'', PInt 4242)])"
proof
  fix B :: builtins
  have p: "unpack2 (split_on (CHR ''/'') (convert_symbol_to_deluthium ''BNB-USDT''))
             = Inr (''BNB'', ''USDT'')"
    by (simp add: convert_symbol_to_deluthium_def replace_char_def)
  have s: "unknown_string_code
             (dict_get [(''errorCode'', PStr ''SOMETHING_NEW''), (''code'', PInt 4242)] ''errorCode'')"
    by (simp add: dict_get_def STRING_ERROR_CODES_def)
  have n: "unknown_numeric_code B
             (dict_get [(''errorCode'', PStr ''SOMETHING_NEW''), (''code'', PInt 4242)] ''code'')"
    by (simp add: dict_get_def unknown_numeric_code_def NUMERIC_ERROR_CODES_def)
  from p s n unknown_codes_pass_through [OF p s n, where str_amount = "\<lambda>a. a"
      and self = "\<lparr>api_key = ''key'', chain_id = 56, wallet_address = []\<rparr>"
      and amount = "''1.5''" and is_buy = False and status = 200]
  show "unpack2 (split_on (CHR ''/'') (convert_symbol_to_deluthium ''BNB-USDT'')) = Inr (''BNB'', ''USDT'')
   \<and> unknown_string_code (dict_get [(''errorCode'', PStr ''SOMETHING_NEW''), (''code'', PInt 4242)] ''errorCode'')
   \<and> unknown_numeric_code B (dict_get [(''errorCode'', PStr ''SOMETHING_NEW''), (''code'', PInt 4242)] ''code'')
   \<and> handle_response_errors B (PDict [(''errorCode'', PStr ''SOMETHING_NEW''), (''code'', PInt 4242)]) = Inr ()
   \<and> place_order B (\<lambda>a. a)
        (\<lambda>u p h. Response 200 (Inr (PDict [(''errorCode'', PStr ''SOMETHING_NEW''), (''code'', PInt 4242)])))
        \<lparr>api_key = ''key'', chain_id = 56, wallet_address = []\<rparr> ''BNB-USDT'' ''1.5'' False
       = Inr (PDict [(''errorCode'', PStr ''SOMETHING_NEW''), (''code'', PInt 4242)])" by blast
qed

section \<open>Rounding: properties\<close>

lemma round_half_even_error: "\<bar>of_int (round_half_even x) - x\<bar> \<le> 1 / 2"
proof -
  have "of_int \<lfloor>x\<rfloor> \<le> x" "x < of_int \<lfloor>x\<rfloor> + 1"
    by linarith+
  then show ?thesis
    by (auto simp: round_half_even_def Let_def)
qed

lemma round_half_even_of_int [simp]: "round_half_even (of_int n) = n"
  by (simp add: round_half_even_def)

lemma ilog_bounds:
  assumes "0 < x" and "1 < b"
  shows "of_nat b powi (ilog b x) \<le> x \<and> x < of_nat b powi (ilog b x + 1)"
proof -
  obtain p q where pq: "quotient_of x = (p, q)"
    by (cases "quotient_of x")
  then have q: "0 < q" and x: "x = of_int p / of_int q"
    using quotient_of_denom_pos quotient_of_div by auto
  with assms have p: "0 < p"
    by (simp add: zero_less_divide_iff)
  define P where "P = floorlog b (nat p)"
  define Q where "Q = floorlog b (nat q)"
  define B :: rat where "B = of_nat b"
  have B: "1 < B" using assms by (simp add: B_def)
  have Pb: "b ^ (P - 1) \<le> nat p" "nat p < b ^ P"
    using floorlog_bounds [of "nat p" b] p assms by (simp_all add: P_def)
  have Qb: "b ^ (Q - 1) \<le> nat q" "nat q < b ^ Q"
    using floorlog_bounds [of "nat q" b] q assms by (simp_all add: Q_def)
  have P1: "1 \<le> P" and Q1: "1 \<le> Q"
    using p q assms by (simp_all add: P_def Q_def floorlog_def)
  have "(of_nat (b ^ (P - 1)) :: rat) \<le> of_nat (nat p)" "(of_nat (nat p) :: rat) < of_nat (b ^ P)"
    using Pb by (simp_all only: of_nat_le_iff of_nat_less_iff)
  then have rp: "B ^ (P - 1) \<le> of_int p" "of_int p < B ^ P"
    using p by (simp_all add: B_def)
  have "(of_nat (b ^ (Q - 1)) :: rat) \<le> of_nat (nat q)" "(of_nat (nat q) :: rat) < of_nat (b ^ Q)"
    using Qb by (simp_all only: of_nat_le_iff of_nat_less_iff)
  then have rq: "B ^ (Q - 1) \<le> of_int q" "of_int q < B ^ Q"
    using q by (simp_all add: B_def)
  have Bpos: "0 < B" using B by simp
  define k where "k = int P - int Q"
  have "B powi (int (P - 1) - int Q) = B powi int (P - 1) / B powi int Q"
    using Bpos by (intro power_int_diff) simp
  moreover have "int (P - 1) - int Q = k - 1"
    using P1 by (simp add: k_def)
  ultimately have e1: "B powi (k - 1) = B ^ (P - 1) / B ^ Q"
    by simp
  have "B ^ (P - 1) / B ^ Q < of_int p / of_int q"
    using rp(1) rq(2) q Bpos by (intro frac_less2) simp_all
  then have lo: "B powi (k - 1) < x"
    by (simp add: e1 x)
  have "B powi (int P - int (Q - 1)) = B powi int P / B powi int (Q - 1)"
    using Bpos by (intro power_int_diff) simp
  moreover have "int P - int (Q - 1) = k + 1"
    using Q1 by (simp add: k_def)
  ultimately have e2: "B powi (k + 1) = B ^ P / B ^ (Q - 1)"
    by simp
  have "of_int p / of_int q < B ^ P / B ^ (Q - 1)"
    using rp(2) rq(1) p Bpos by (intro frac_less) simp_all
  then have hi: "x < B powi (k + 1)"
    by (simp add: e2 x)
  have il: "ilog b x = (if B powi k \<le> x then k else k - 1)"
    by (simp add: ilog_def pq P_def Q_def k_def B_def Let_def)
  show ?thesis
    using lo hi by (auto simp: il B_def [symmetric])
qed


lemma powi_less_cancel:
  fixes B :: rat
  assumes "1 < B" and "B powi m < B powi n"
  shows "m < n"
proof (rule ccontr)
  assume "\<not> m < n"
  then have "B powi n \<le> B powi m"
    using assms(1) by (intro power_int_increasing) simp_all
  with assms(2) show False by simp
qed

lemma ilog_unique:
  assumes "0 < x" and "1 < b" and "of_nat b powi e \<le> x" and "x < of_nat b powi (e + 1)"
  shows "ilog b x = e"
proof -
  define B :: rat where "B = of_nat b"
  have B: "1 < B" using assms by (simp add: B_def)
  note ib = ilog_bounds [OF assms(1,2), folded B_def]
  from ib assms(4) have "B powi (ilog b x) < B powi (e + 1)"
    by (simp add: B_def)
  then have 1: "ilog b x < e + 1"
    by (rule powi_less_cancel [OF B])
  from ib assms(3) have "B powi e < B powi (ilog b x + 1)"
    by (simp add: B_def)
  then have 2: "e < ilog b x + 1"
    by (rule powi_less_cancel [OF B])
  from 1 2 show ?thesis by simp
qed

lemma ilog_less:
  assumes "0 < x" and "1 < b" and "x < of_nat b powi n"
  shows "ilog b x < n"
proof -
  have B: "1 < (of_nat b :: rat)" using assms by simp
  from ilog_bounds [OF assms(1,2)] assms(3) have "(of_nat b :: rat) powi (ilog b x) < of_nat b powi n"
    by simp
  then show ?thesis
    by (rule powi_less_cancel [OF B])
qed

lemma ilog_ge:
  assumes "0 < x" and "1 < b" and "of_nat b powi n \<le> x"
  shows "n \<le> ilog b x"
proof -
  have B: "1 < (of_nat b :: rat)" using assms by simp
  from ilog_bounds [OF assms(1,2)] assms(3) have "(of_nat b :: rat) powi n < of_nat b powi (ilog b x + 1)"
    by simp
  then have "n < ilog b x + 1"
    by (rule powi_less_cancel [OF B])
  then show ?thesis by simp
qed


lemma has_digits_form:
  assumes "has_digits n x"
  shows "\<exists>c k. x = of_int c * 10 powi k \<and> \<bar>c\<bar> < 10 ^ n"
proof (cases "x = 0")
  case True
  then have "x = of_int 0 * 10 powi 0 \<and> \<bar>0 :: int\<bar> < 10 ^ n" by simp
  then show ?thesis by blast
next
  case False
  define a where "a = \<bar>x\<bar>"
  define L where "L = ilog 10 a"
  define u :: rat where "u = 10 powi (L + 1 - int n)"
  define t where "t = a / u"
  have a: "0 < a" using False by (simp add: a_def)
  have u: "0 < u" by (simp add: u_def)
  from assms False have ti: "of_int \<lfloor>t\<rfloor> = t"
    by (simp add: has_digits_def Let_def t_def u_def L_def a_def)
  have "a < 10 powi (L + 1)"
    using ilog_bounds [of a 10] a by (simp add: L_def)
  also have "(10 :: rat) powi (L + 1) = 10 powi (L + 1 - int n) * 10 powi int n"
    using power_int_add [of "10 :: rat" "L + 1 - int n" "int n"] by simp
  finally have "a < u * 10 ^ n"
    by (simp add: u_def)
  then have "t < 10 ^ n"
    using u by (simp add: t_def pos_divide_less_eq mult.commute)
  then have fl: "\<lfloor>t\<rfloor> < 10 ^ n"
    by (simp add: floor_less_iff)
  have "0 \<le> t" using a u by (simp add: t_def)
  then have f0: "0 \<le> \<lfloor>t\<rfloor>" by simp
  have "a = t * u"
    using u by (simp add: t_def)
  then have au: "a = of_int \<lfloor>t\<rfloor> * u"
    by (simp only: ti)
  show ?thesis
  proof (cases "0 < x")
    case True
    then have "x = of_int \<lfloor>t\<rfloor> * 10 powi (L + 1 - int n)"
      using au by (simp add: a_def u_def)
    moreover have "\<bar>\<lfloor>t\<rfloor>\<bar> < 10 ^ n" using fl f0 by simp
    ultimately show ?thesis by blast
  next
    case False
    with \<open>x \<noteq> 0\<close> have "x = of_int (- \<lfloor>t\<rfloor>) * 10 powi (L + 1 - int n)"
      using au by (simp add: a_def u_def)
    moreover have "\<bar>- \<lfloor>t\<rfloor>\<bar> < 10 ^ n" using fl f0 by simp
    ultimately show ?thesis by blast
  qed
qed

lemma round_prec_exact:
  assumes "x = of_int c * 10 powi k" and "\<bar>c\<bar> < 10 ^ 28"
  shows "round_prec x = x"
proof (cases "x = 0")
  case True
  then show ?thesis by (simp add: round_prec_def)
next
  case False
  define a where "a = \<bar>x\<bar>"
  define q where "q = ilog 10 a - 27"
  have a: "0 < a" using False by (simp add: a_def)
  have ac: "a = of_int \<bar>c\<bar> * 10 powi k"
    by (simp add: a_def assms(1) abs_mult)
  have "(of_int \<bar>c\<bar> :: rat) < of_int (10 ^ 28)"
    using assms(2) by (simp only: of_int_less_iff)
  then have "a < 10 ^ 28 * 10 powi k"
    by (simp add: ac)
  also have "(10 :: rat) ^ 28 * 10 powi k = 10 powi (28 + k)"
    by (simp add: power_int_add)
  finally have "ilog 10 a < 28 + k"
    using ilog_less [of a 10 "28 + k"] a by simp
  then have qk: "q \<le> k" by (simp add: q_def)
  have "(10 :: rat) powi k = 10 powi q * 10 powi (k - q)"
    by (simp flip: power_int_add)
  also have "(10 :: rat) powi (k - q) = 10 ^ nat (k - q)"
    using qk by (simp add: power_int_def)
  finally have "a / 10 powi q = of_int (\<bar>c\<bar> * 10 ^ nat (k - q))"
    by (simp add: ac)
  then have "of_int (round_half_even (a / 10 powi q)) * 10 powi q = a"
    by (simp only: round_half_even_of_int) (simp add: ac \<open>10 powi k = 10 powi q * 10 powi (k - q)\<close> \<open>(10 :: rat) powi (k - q) = 10 ^ nat (k - q)\<close>)
  then have "of_int (round_half_even (\<bar>x\<bar> / 10 powi (ilog 10 \<bar>x\<bar> - 27)))
      * 10 powi (ilog 10 \<bar>x\<bar> - 27) = \<bar>x\<bar>"
    by (simp only: a_def q_def)
  then show ?thesis
    using False by (auto simp: round_prec_def Let_def)
qed


lemma float_of_rat_pos:
  assumes "0 < x"
  shows "float_of_rat x =
     (let ulp = 2 powi (max (ilog 2 x) (- 1022) - 52);
          m = of_int (round_half_even (x / ulp)) * ulp
      in if 2 powi 1024 \<le> m then PInf else Finite m)"
  using assms by (simp add: float_of_rat_def Let_def)

lemma round_half_even_nonneg: "0 \<le> x \<Longrightarrow> 0 \<le> round_half_even x"
  by (auto simp: round_half_even_def Let_def)

lemma float_abs_error:
  fixes x ulp :: rat
  assumes "0 < ulp"
  shows "\<bar>of_int (round_half_even (x / ulp)) * ulp - x\<bar> \<le> ulp / 2"
proof -
  define r :: rat where "r = of_int (round_half_even (x / ulp))"
  have "\<bar>r - x / ulp\<bar> \<le> 1 / 2"
    unfolding r_def by (rule round_half_even_error)
  then have "r - x / ulp \<le> 1 / 2" "- (1 / 2) \<le> r - x / ulp"
    by linarith+
  then have "(r - x / ulp) * ulp \<le> 1 / 2 * ulp" "- (1 / 2) * ulp \<le> (r - x / ulp) * ulp"
    using assms by (simp_all only: mult_le_cancel_right_pos)
  moreover have "(r - x / ulp) * ulp = r * ulp - x"
    using assms by (simp add: left_diff_distrib)
  ultimately have "\<bar>r * ulp - x\<bar> \<le> ulp / 2"
    by linarith
  then show ?thesis
    by (simp only: r_def)
qed

lemma float_rel_error:
  assumes "2 powi (- 1022) \<le> x" and "float_of_rat x = Finite y"
  shows "x * (1 - 1 / 2 ^ 53) \<le> y \<and> y \<le> x * (1 + 1 / 2 ^ 53)"
proof -
  have x: "0 < x"
    using assms(1) by (rule less_le_trans [rotated]) simp
  define e where "e = ilog 2 x"
  define ulp :: rat where "ulp = 2 powi (e - 52)"
  have e: "- 1022 \<le> e"
    using ilog_ge [of x 2 "- 1022"] x assms(1) by (simp add: e_def)
  have ulp: "0 < ulp" by (simp add: ulp_def)
  have "2 powi e \<le> x"
    using ilog_bounds [of x 2] x by (simp add: e_def)
  moreover have "ulp = 2 powi e / 2 ^ 52"
    using power_int_diff [of "2 :: rat" e 52] by (simp add: ulp_def)
  ultimately have u: "ulp \<le> x / 2 ^ 52"
    by (simp add: divide_right_mono)
  have "y = of_int (round_half_even (x / ulp)) * ulp"
    using assms(2) e by (simp add: float_of_rat_pos [OF x] Let_def e_def [symmetric] max_def
        ulp_def [symmetric] split: if_splits)
  then have "\<bar>y - x\<bar> \<le> ulp / 2"
    using float_abs_error [OF ulp, of x] by simp
  moreover have "ulp / 2 \<le> x / 2 ^ 52 / 2"
    using u by (simp only: divide_right_mono zero_le_numeral)
  ultimately have "\<bar>y - x\<bar> \<le> x / 2 ^ 52 / 2"
    by (rule order_trans)
  then have "\<bar>y - x\<bar> \<le> x / 2 ^ 53"
    by simp
  then have "x - x / 2 ^ 53 \<le> y" "y \<le> x + x / 2 ^ 53"
    by linarith+
  then show ?thesis
    by (simp add: algebra_simps)
qed

lemma float_of_rat_finite:
  assumes "0 < x" and "x \<le> 2 powi 1023"
  shows "\<exists>y. float_of_rat x = Finite y"
proof -
  define e where "e = max (ilog 2 x) (- 1022)"
  define ulp :: rat where "ulp = 2 powi (e - 52)"
  define m where "m = of_int (round_half_even (x / ulp)) * ulp"
  have "x < 2 powi 1024"
    using assms(2) by (rule le_less_trans) (simp add: power_int_def)
  then have "ilog 2 x < 1024"
    using ilog_less [of x 2 1024] assms(1) by simp
  then have "e - 52 \<le> 971" by (simp add: e_def)
  then have "ulp \<le> 2 powi 971"
    unfolding ulp_def by (intro power_int_increasing) simp_all
  moreover have "\<bar>m - x\<bar> \<le> ulp / 2"
    unfolding m_def by (rule float_abs_error) (simp add: ulp_def)
  ultimately have "m \<le> 2 powi 1023 + 2 powi 971 / 2"
    using assms(2) by linarith
  also have "\<dots> < 2 powi 1024"
    by (simp add: power_int_def)
  finally have "\<not> 2 powi 1024 \<le> m" by simp
  then show ?thesis
    by (simp add: float_of_rat_pos [OF assms(1)] Let_def e_def [symmetric] ulp_def [symmetric]
        m_def [symmetric])
qed

lemma float_of_rat_sign:
  assumes "float_of_rat x = Finite y" and "0 < y"
  shows "0 < x"
proof (rule ccontr)
  assume "\<not> 0 < x"
  then consider "x = 0" | "x < 0" by fastforce
  then show False
  proof cases
    case 1
    with assms show ?thesis by (simp add: float_of_rat_def)
  next
    case 2
    define ulp :: rat where "ulp = 2 powi (max (ilog 2 (- x)) (- 1022) - 52)"
    have "0 < ulp" by (simp add: ulp_def)
    with 2 have "0 \<le> - (x / ulp)"
      by (simp add: divide_le_0_iff)
    then have "0 \<le> round_half_even (- (x / ulp))"
      by (rule round_half_even_nonneg)
    then have "0 \<le> of_int (round_half_even (- (x / ulp))) * ulp"
      using \<open>0 < ulp\<close> by simp
    with 2 assms show ?thesis
      by (simp add: float_of_rat_def Let_def ulp_def [symmetric] split: if_splits)
  qed
qed

section \<open>The indicative price: properties\<close>

lemma py_float_is_Exception: "py_float B v = Inl e \<Longrightarrow> is_Exception e"
  by (cases v) (auto simp: is_Exception_def split: pyfloat.splits option.splits)

lemma price_of_response_cancel:
  assumes "price_of_response B outcome = Inl e" and "\<not> cancelled outcome"
  shows "is_Exception e"
proof (cases outcome)
  case (Raised e')
  with assms show ?thesis
    by (simp add: price_of_response_def is_Exception_def)
next
  case (Response status json)
  show ?thesis
  proof (cases json)
    case (Inl e')
    with Response assms show ?thesis
      by (auto simp: price_of_response_def is_Exception_def split: if_splits)
  next
    case (Inr v)
    with Response assms show ?thesis
      by (cases v)
         (auto simp: price_of_response_def is_Exception_def Let_def
               dest: py_float_is_Exception split: if_splits sum.splits)
  qed
qed

lemma get_indicative_price_split:
  assumes "unpack2 (if CHR ''-'' \<in> set trading_pair
                    then split_on (CHR ''-'') trading_pair
                    else split_on (CHR ''/'') trading_pair) = Inr (base, quote)"
  shows "get_indicative_price B (\<lambda>u h p. outcome) self trading_pair
           = except_Exception None (price_of_response B outcome)"
  using assms by (simp add: get_indicative_price_def Let_def)

text \<open>
  Claim C7, as stated, fails: a pair without separator cannot be unpacked into two tokens,
  which happens before the \<open>try\<close> block, and a cancellation of the request is not an
  \<open>Exception\<close> and is raised to the caller.
\<close>

theorem indicative_price_counterexample:
  "(\<forall>B get self. get_indicative_price B get self ''BNBUSDT'' = Inl BuiltinValueError)
   \<and> (\<forall>B self. get_indicative_price B (\<lambda>u h p. Raised CancelledError) self ''BNB-USDT''
          = Inl CancelledError)"
  by (simp add: get_indicative_price_def Let_def price_of_response_def except_Exception_def
        is_Exception_def)

text \<open>
  Claim C7, amended. For every trading pair that splits into exactly two tokens (at \<open>-\<close>
  if it holds one, at \<open>/\<close> otherwise), every chain id and every outcome of the request
  other than a cancellation, \<open>_get_indicative_price\<close> returns and does not raise; it
  returns \<open>None\<close> when the client raises, when the status is 400 or more, when the body
  cannot be decoded or is not an object, when the \<open>price\<close> field is missing, and when the
  price cannot be converted; otherwise it returns the price as a float.
\<close>

theorem indicative_price_never_raises:
  assumes split: "unpack2 (if CHR ''-'' \<in> set trading_pair
                    then split_on (CHR ''-'') trading_pair
                    else split_on (CHR ''/'') trading_pair) = Inr (base, quote)"
    and nc: "\<not> cancelled outcome"
  shows "\<exists>r. get_indicative_price B (\<lambda>u h p. outcome) self trading_pair = Inr r
      \<and> (\<forall>e. outcome = Raised e \<longrightarrow> r = None)
      \<and> (\<forall>status json. outcome = Response status json \<and> 400 \<le> status \<longrightarrow> r = None)
      \<and> (\<forall>status e. outcome = Response status (Inl e) \<longrightarrow> r = None)
      \<and> (\<forall>status v. outcome = Response status (Inr v) \<and> (\<forall>d. v \<noteq> PDict d) \<longrightarrow> r = None)
      \<and> (\<forall>status d. outcome = Response status (Inr (PDict d)) \<and> map_of d ''price'' = None
            \<longrightarrow> r = None)
      \<and> (\<forall>status d p e. outcome = Response status (Inr (PDict d)) \<and> map_of d ''price'' = Some p
            \<and> py_float B p = Inl e \<longrightarrow> r = None)
      \<and> (\<forall>status d p f. outcome = Response status (Inr (PDict d)) \<and> status < 400
            \<and> map_of d ''price'' = Some p \<and> p \<noteq> PNone \<and> py_float B p = Inr f \<longrightarrow> r = Some f)"
proof -
  note g = get_indicative_price_split [OF split, of B outcome self]
  show ?thesis
  proof (cases outcome)
    case (Raised e)
    with nc have "price_of_response B outcome = Inl e" "is_Exception e"
      by (simp_all add: price_of_response_def is_Exception_def)
    then have "get_indicative_price B (\<lambda>u h p. outcome) self trading_pair = Inr None"
      by (simp add: g except_Exception_def)
    then show ?thesis
      using Raised by (intro exI [of _ None]) simp
  next
    case (Response status json)
    show ?thesis
    proof (cases "400 \<le> status")
      case True
      with Response have "price_of_response B outcome = Inl ClientError"
        by (simp add: price_of_response_def)
      then have "get_indicative_price B (\<lambda>u h p. outcome) self trading_pair = Inr None"
        by (simp add: g except_Exception_def is_Exception_def)
      then show ?thesis
        using Response True by (intro exI [of _ None]) simp
    next
      case ok: False
      show ?thesis
      proof (cases json)
        case (Inl e)
        with Response nc ok have "price_of_response B outcome = Inl e" "is_Exception e"
          by (simp_all add: price_of_response_def is_Exception_def)
        then have "get_indicative_price B (\<lambda>u h p. outcome) self trading_pair = Inr None"
          by (simp add: g except_Exception_def)
        then show ?thesis
          using Response Inl by (intro exI [of _ None]) simp
      next
        case (Inr v)
        show ?thesis
        proof (cases "\<exists>d. v = PDict d")
          case False
          with Response Inr ok have "price_of_response B outcome = Inl AttributeError"
            by (cases v) (simp_all add: price_of_response_def)
          then have "get_indicative_price B (\<lambda>u h p. outcome) self trading_pair = Inr None"
            by (simp add: g except_Exception_def is_Exception_def)
          then show ?thesis
            using Response Inr False by (intro exI [of _ None]) simp
        next
          case True
          then obtain d where d: "v = PDict d" by blast
          show ?thesis
          proof (cases "map_of d ''price''")
            case None
            with Response Inr ok d have "price_of_response B outcome = Inr None"
              by (simp add: price_of_response_def dict_get_def)
            then have "get_indicative_price B (\<lambda>u h p. outcome) self trading_pair = Inr None"
              by (simp add: g except_Exception_def)
            then show ?thesis
              using Response Inr d None by (intro exI [of _ None]) simp
          next
            case (Some p)
            show ?thesis
            proof (cases "py_float B p")
              case fail: (Inl e)
              then have "is_Exception e" by (rule py_float_is_Exception)
              have "price_of_response B outcome = (if p = PNone then Inr None else Inl e)"
                using Response Inr ok d Some fail
                by (simp add: price_of_response_def dict_get_def)
              with \<open>is_Exception e\<close>
              have "get_indicative_price B (\<lambda>u h p. outcome) self trading_pair = Inr None"
                by (simp add: g except_Exception_def)
              then show ?thesis
                using Response Inr d Some fail by (intro exI [of _ None]) simp
            next
              case conv: (Inr f)
              then have "p \<noteq> PNone" by (cases p) auto
              then have "price_of_response B outcome = Inr (Some f)"
                using Response Inr ok d Some conv
                by (simp add: price_of_response_def dict_get_def)
              then have "get_indicative_price B (\<lambda>u h p. outcome) self trading_pair
                           = Inr (Some f)"
                by (simp add: g except_Exception_def)
              then show ?thesis
                using Response Inr d Some conv ok by (intro exI [of _ "Some f"]) simp
            qed
          qed
        qed
      qed
    qed
  qed
qed

theorem indicative_price_never_raises_witness:
  "\<forall>B self. unpack2 (split_on (CHR ''-'') ''BNB-USDT'') = Inr (''BNB'', ''USDT'')
     \<and> \<not> cancelled (Raised ClientError)
     \<and> get_indicative_price B (\<lambda>u h p. Raised ClientError) self ''BNB-USDT'' = Inr None
     \<and> \<not> cancelled (Response 200 (Inr (PDict [(''price'', PFloat (Finite 600))])))
     \<and> get_indicative_price B
          (\<lambda>u h p. Response 200 (Inr (PDict [(''price'', PFloat (Finite 600))]))) self ''BNB-USDT''
         = Inr (Some (Finite 600))"
proof (intro allI)
  fix B :: builtins and self :: data_source
  have s: "unpack2 (if CHR ''-'' \<in> set ''BNB-USDT''
                    then split_on (CHR ''-'') ''BNB-USDT''
                    else split_on (CHR ''/'') ''BNB-USDT'') = Inr (''BNB'', ''USDT'')"
    by simp
  have c1: "\<not> cancelled (Raised ClientError)"
    by simp
  have c2: "\<not> cancelled (Response 200 (Inr (PDict [(''price'', PFloat (Finite 600))])))"
    by simp
  have r1: "get_indicative_price B (\<lambda>u h p. Raised ClientError) self ''BNB-USDT'' = Inr None"
    using indicative_price_never_raises [OF s c1, of B self] by (elim exE conjE) simp
  have r2: "get_indicative_price B
          (\<lambda>u h p. Response 200 (Inr (PDict [(''price'', PFloat (Finite 600))]))) self ''BNB-USDT''
         = Inr (Some (Finite 600))"
    using indicative_price_never_raises [OF s c2, of B self] by (elim exE conjE) simp
  from s c1 c2 r1 r2
  show "unpack2 (split_on (CHR ''-'') ''BNB-USDT'') = Inr (''BNB'', ''USDT'')
     \<and> \<not> cancelled (Raised ClientError)
     \<and> get_indicative_price B (\<lambda>u h p. Raised ClientError) self ''BNB-USDT'' = Inr None
     \<and> \<not> cancelled (Response 200 (Inr (PDict [(''price'', PFloat (Finite 600))])))
     \<and> get_indicative_price B
          (\<lambda>u h p. Response 200 (Inr (PDict [(''price'', PFloat (Finite 600))]))) self ''BNB-USDT''
         = Inr (Some (Finite 600))"
    by simp
qed

text \<open>
  Claim C5. Whenever the indicative price is absent (\<open>_get_indicative_price\<close> has returned
  \<open>None\<close>), \<open>_request_order_book_snapshot\<close> returns, without raising, the book of the pair
  with no bid level and no ask level.
\<close>

theorem absent_price_empty_book:
  assumes "get_indicative_price B get self trading_pair = Inr None"
  shows "request_order_book_snapshot B get self trading_pair
           = Inr [(''bids'', PList []), (''asks'', PList []), (''trading_pair'', PStr trading_pair)]
       \<and> (\<exists>book. request_order_book_snapshot B get self trading_pair = Inr book
             \<and> dict_get book ''bids'' = PList [] \<and> dict_get book ''asks'' = PList [])"
  using assms by (simp add: request_order_book_snapshot_def bind_exn_def dict_get_def)

theorem absent_price_empty_book_witness:
  "\<forall>B self. get_indicative_price B (\<lambda>u h p. Response 200 (Inr (PDict []))) self ''BNB-USDT''
               = Inr None
     \<and> request_order_book_snapshot B (\<lambda>u h p. Response 200 (Inr (PDict []))) self ''BNB-USDT''
         = Inr [(''bids'', PList []), (''asks'', PList []), (''trading_pair'', PStr ''BNB-USDT'')]"
proof (intro allI)
  fix B :: builtins and self :: data_source
  have g: "get_indicative_price B (\<lambda>u h p. Response 200 (Inr (PDict []))) self ''BNB-USDT''
             = Inr None"
    by (simp add: get_indicative_price_def Let_def price_of_response_def except_Exception_def
          dict_get_def)
  from g absent_price_empty_book [OF g]
  show "get_indicative_price B (\<lambda>u h p. Response 200 (Inr (PDict []))) self ''BNB-USDT''
               = Inr None
     \<and> request_order_book_snapshot B (\<lambda>u h p. Response 200 (Inr (PDict []))) self ''BNB-USDT''
         = Inr [(''bids'', PList []), (''asks'', PList []), (''trading_pair'', PStr ''BNB-USDT'')]"
    by simp
qed

section \<open>The synthetic book: properties\<close>

lemma round_prec_scaled:
  assumes "d = of_int c * 10 powi k" and "\<bar>c\<bar> < 10 ^ 17" and "\<bar>n\<bar> \<le> 100000"
    and "y = d * of_int n / 10 ^ j"
  shows "round_prec y = y"
proof (rule round_prec_exact)
  have "(10 :: rat) powi (k - int j) = 10 powi k / 10 powi int j"
    by (intro power_int_diff) simp
  then show "y = of_int (c * n) * 10 powi (k - int j)"
    by (simp add: assms(1,4))
  have "\<bar>c\<bar> * \<bar>n\<bar> \<le> \<bar>c\<bar> * 100000"
    using assms(3) by (intro mult_left_mono) simp_all
  also have "\<dots> < 10 ^ 17 * 100000"
    using assms(2) by simp
  finally show "\<bar>c * n\<bar> < 10 ^ 28"
    by (simp add: abs_mult)
qed

lemma synthetic_levels:
  assumes "has_digits 17 m"
  shows "dec_mul (DFin m) SYNTHETIC_SPREAD_RATIO = Inr (DFin (m * (1 / 1000)))"
    and "dec_div (DFin (m * (1 / 1000))) (DFin 2) = Inr (DFin (m * (1 / 1000) / 2))"
    and "dec_sub (DFin m) (DFin (m * (1 / 1000) / 2)) = Inr (DFin (m - m * (1 / 1000) / 2))"
    and "dec_add (DFin m) (DFin (m * (1 / 1000) / 2)) = Inr (DFin (m + m * (1 / 1000) / 2))"
    and "dec_mul (DFin (m * (1 / 1000) / 2)) (DFin 2) = Inr (DFin (m * (1 / 1000)))"
    and "dec_sub (DFin m) (DFin (m * (1 / 1000))) = Inr (DFin (m - m * (1 / 1000)))"
    and "dec_add (DFin m) (DFin (m * (1 / 1000))) = Inr (DFin (m + m * (1 / 1000)))"
proof -
  from has_digits_form [OF assms]
  obtain c k where d: "m = of_int c * 10 powi k" and c: "\<bar>c\<bar> < 10 ^ 17"
    by blast
  note sc = round_prec_scaled [OF d c]
  have r1: "round_prec (m * (1 / 1000)) = m * (1 / 1000)"
    by (rule sc [where n = 1 and j = 3]) simp_all
  have r2: "round_prec (m * (1 / 1000) / 2) = m * (1 / 1000) / 2"
    by (rule sc [where n = 5 and j = 4]) simp_all
  have r3: "round_prec (m + - (m * (1 / 1000) / 2)) = m - m * (1 / 1000) / 2"
    using sc [where n = 9995 and j = 4 and y = "m + - (m * (1 / 1000) / 2)"] by simp
  have r4: "round_prec (m + m * (1 / 1000) / 2) = m + m * (1 / 1000) / 2"
    by (rule sc [where n = 10005 and j = 4]) simp_all
  have r5: "round_prec (m * (1 / 1000) / 2 * 2) = m * (1 / 1000)"
    using sc [where n = 1 and j = 3 and y = "m * (1 / 1000) / 2 * 2"] by simp
  have r6: "round_prec (m + - (m * (1 / 1000))) = m - m * (1 / 1000)"
    using sc [where n = 999 and j = 3 and y = "m + - (m * (1 / 1000))"] by simp
  have r7: "round_prec (m + m * (1 / 1000)) = m + m * (1 / 1000)"
    by (rule sc [where n = 1001 and j = 3]) simp_all
  show "dec_mul (DFin m) SYNTHETIC_SPREAD_RATIO = Inr (DFin (m * (1 / 1000)))"
    by (simp only: SYNTHETIC_SPREAD_RATIO_def dec_mul.simps r1)
  show "dec_div (DFin (m * (1 / 1000))) (DFin 2) = Inr (DFin (m * (1 / 1000) / 2))"
    by (simp only: dec_div.simps r2) simp
  show "dec_sub (DFin m) (DFin (m * (1 / 1000) / 2)) = Inr (DFin (m - m * (1 / 1000) / 2))"
    by (simp only: dec_sub_def dec_neg.simps dec_add.simps r3)
  show "dec_add (DFin m) (DFin (m * (1 / 1000) / 2)) = Inr (DFin (m + m * (1 / 1000) / 2))"
    by (simp only: dec_add.simps r4)
  show "dec_mul (DFin (m * (1 / 1000) / 2)) (DFin 2) = Inr (DFin (m * (1 / 1000)))"
    by (simp only: dec_mul.simps r5)
  show "dec_sub (DFin m) (DFin (m * (1 / 1000))) = Inr (DFin (m - m * (1 / 1000)))"
    by (simp only: dec_sub_def dec_neg.simps dec_add.simps r6)
  show "dec_add (DFin m) (DFin (m * (1 / 1000))) = Inr (DFin (m + m * (1 / 1000)))"
    by (simp only: dec_add.simps r7)
qed

lemma snapshot_of_finite_price:
  assumes "get_indicative_price B get self trading_pair = Inr (Some (Finite x))"
    and "has_digits 17 (float_decimal B x)"
    and "m = float_decimal B x"
  shows "request_order_book_snapshot B get self trading_pair
     = Inr [(''trading_pair'', PStr trading_pair),
            (''bids'',
               PList [PList [PFloat (float_of_rat (m - m * (1 / 1000) / 2)), PFloat (Finite 1)],
                      PList [PFloat (float_of_rat (m - m * (1 / 1000))), PFloat (Finite 2)]]),
            (''asks'',
               PList [PList [PFloat (float_of_rat (m + m * (1 / 1000) / 2)), PFloat (Finite 1)],
                      PList [PFloat (float_of_rat (m + m * (1 / 1000))), PFloat (Finite 2)]])]"
proof -
  from assms(2,3) have h: "has_digits 17 m" by simp
  show ?thesis
    unfolding request_order_book_snapshot_def assms(1)
    by (simp only: bind_exn_def sum.case option.case Let_def decimal_of_float.simps
          assms(3) [symmetric] synthetic_levels [OF h] float_of_decimal.simps)
qed

text \<open>
  Claim C1, as stated, fails: a price that reads as the float infinity (the JSON number
  \<open>1e999\<close>, for one) is present, and the book is not returned: the decimal subtraction
  \<open>Infinity - Infinity\<close> raises \<open>InvalidOperation\<close>.
\<close>

theorem synthetic_book_counterexample:
  "\<forall>B self.
     get_indicative_price B (\<lambda>u h p. Response 200 (Inr (PDict [(''price'', PFloat PInf)])))
         self ''BNB-USDT'' = Inr (Some PInf)
     \<and> request_order_book_snapshot B
           (\<lambda>u h p. Response 200 (Inr (PDict [(''price'', PFloat PInf)]))) self ''BNB-USDT''
         = Inl InvalidOperation"
proof (intro allI)
  fix B :: builtins and self :: data_source
  have g: "get_indicative_price B (\<lambda>u h p. Response 200 (Inr (PDict [(''price'', PFloat PInf)])))
         self ''BNB-USDT'' = Inr (Some PInf)"
    by (simp add: get_indicative_price_def Let_def price_of_response_def except_Exception_def
          dict_get_def)
  have "request_order_book_snapshot B
           (\<lambda>u h p. Response 200 (Inr (PDict [(''price'', PFloat PInf)]))) self ''BNB-USDT''
         = Inl InvalidOperation"
    unfolding request_order_book_snapshot_def g
    by (simp add: bind_exn_def SYNTHETIC_SPREAD_RATIO_def dec_sub_def)
  with g show "get_indicative_price B
         (\<lambda>u h p. Response 200 (Inr (PDict [(''price'', PFloat PInf)])))
         self ''BNB-USDT'' = Inr (Some PInf)
     \<and> request_order_book_snapshot B
           (\<lambda>u h p. Response 200 (Inr (PDict [(''price'', PFloat PInf)]))) self ''BNB-USDT''
         = Inl InvalidOperation"
    by simp
qed

text \<open>
  Claim C1, amended. For every trading pair whose indicative mid-price is present and
  finite, with \<open>m\<close> the decimal number that \<open>str\<close> prints for it (of at most 17 significant
  digits) and \<open>r = 0.001\<close> the fixed spread ratio, \<open>_request_order_book_snapshot\<close> returns
  the book with exactly the two bid levels \<open>[(m - m*r/2, 1.0), (m - m*r, 2.0)]\<close> and
  exactly the two ask levels \<open>[(m + m*r/2, 1.0), (m + m*r, 2.0)]\<close>, each price being the
  float nearest to the decimal: the decimal arithmetic of the source is exact there. For
  the mid-price 600.00 the prices are the floats 599.70, 599.40, 600.30 and 600.60.
\<close>

theorem synthetic_book_two_levels:
  assumes "get_indicative_price B get self trading_pair = Inr (Some (Finite x))"
    and "has_digits 17 (float_decimal B x)"
    and "m = float_decimal B x"
    and "SYNTHETIC_SPREAD_RATIO = DFin r"
  shows "request_order_book_snapshot B get self trading_pair
     = Inr [(''trading_pair'', PStr trading_pair),
            (''bids'',
               PList [PList [PFloat (float_of_rat (m - m * r / 2)), PFloat (Finite 1)],
                      PList [PFloat (float_of_rat (m - m * r)), PFloat (Finite 2)]]),
            (''asks'',
               PList [PList [PFloat (float_of_rat (m + m * r / 2)), PFloat (Finite 1)],
                      PList [PFloat (float_of_rat (m + m * r)), PFloat (Finite 2)]])]"
proof -
  from assms(4) have r: "r = 1 / 1000"
    by (simp add: SYNTHETIC_SPREAD_RATIO_def)
  show ?thesis
    unfolding r by (rule snapshot_of_finite_price [OF assms(1,2,3)])
qed

lemma ilog10_600: "ilog 10 600 = 2"
  by (rule ilog_unique) simp_all

lemma has_digits_600: "has_digits 17 600"
proof -
  have "\<bar>600 :: rat\<bar> / 10 powi (2 + 1 - int 17) = of_int (600 * 10 ^ 14)"
    by (simp add: power_int_def power_divide)
  moreover have "ilog 10 \<bar>600 :: rat\<bar> = 2"
    using ilog10_600 by simp
  ultimately have "\<bar>600 :: rat\<bar> / 10 powi (ilog 10 \<bar>600\<bar> + 1 - int 17)
      = of_int (600 * 10 ^ 14)"
    by (simp only:)
  then show ?thesis
    unfolding has_digits_def Let_def by (simp only: floor_of_int) simp
qed

theorem synthetic_book_two_levels_witness:
  "get_indicative_price
       \<lparr>int_of_str = (\<lambda>s. None), float_of_str = (\<lambda>s. None), repr_float = (\<lambda>f. []),
        repr_container = (\<lambda>v. []), float_decimal = (\<lambda>x. x)\<rparr>
       (\<lambda>u h p. Response 200 (Inr (PDict [(''price'', PFloat (Finite 600))])))
       \<lparr>src_trading_pairs = [''BNB-USDT''], src_api_key = ''key'', src_chain_id = 56\<rparr>
       ''BNB-USDT'' = Inr (Some (Finite 600))
   \<and> has_digits 17 600
   \<and> SYNTHETIC_SPREAD_RATIO = DFin (1 / 1000)
   \<and> request_order_book_snapshot
       \<lparr>int_of_str = (\<lambda>s. None), float_of_str = (\<lambda>s. None), repr_float = (\<lambda>f. []),
        repr_container = (\<lambda>v. []), float_decimal = (\<lambda>x. x)\<rparr>
       (\<lambda>u h p. Response 200 (Inr (PDict [(''price'', PFloat (Finite 600))])))
       \<lparr>src_trading_pairs = [''BNB-USDT''], src_api_key = ''key'', src_chain_id = 56\<rparr>
       ''BNB-USDT''
     = Inr [(''trading_pair'', PStr ''BNB-USDT''),
            (''bids'',
               PList [PList [PFloat (float_of_rat (5997 / 10)), PFloat (Finite 1)],
                      PList [PFloat (float_of_rat (5994 / 10)), PFloat (Finite 2)]]),
            (''asks'',
               PList [PList [PFloat (float_of_rat (6003 / 10)), PFloat (Finite 1)],
                      PList [PFloat (float_of_rat (6006 / 10)), PFloat (Finite 2)]])]"
proof -
  define B where "B = \<lparr>int_of_str = (\<lambda>s. None), float_of_str = (\<lambda>s. None),
        repr_float = (\<lambda>f. []), repr_container = (\<lambda>v. []), float_decimal = (\<lambda>x :: rat. x)\<rparr>"
  define S where "S = \<lparr>src_trading_pairs = [''BNB-USDT''], src_api_key = ''key'',
        src_chain_id = 56\<rparr>"
  have g: "get_indicative_price B
       (\<lambda>u h p. Response 200 (Inr (PDict [(''price'', PFloat (Finite 600))]))) S ''BNB-USDT''
       = Inr (Some (Finite 600))"
    by (simp add: get_indicative_price_def Let_def price_of_response_def except_Exception_def
          dict_get_def)
  have h: "has_digits 17 (float_decimal B 600)"
    by (simp add: B_def has_digits_600)
  have m: "600 = float_decimal B 600"
    by (simp add: B_def)
  have r: "SYNTHETIC_SPREAD_RATIO = DFin (1 / 1000)"
    by (simp add: SYNTHETIC_SPREAD_RATIO_def)
  have "request_order_book_snapshot B
       (\<lambda>u h p. Response 200 (Inr (PDict [(''price'', PFloat (Finite 600))]))) S ''BNB-USDT''
     = Inr [(''trading_pair'', PStr ''BNB-USDT''),
            (''bids'',
               PList [PList [PFloat (float_of_rat (5997 / 10)), PFloat (Finite 1)],
                      PList [PFloat (float_of_rat (5994 / 10)), PFloat (Finite 2)]]),
            (''asks'',
               PList [PList [PFloat (float_of_rat (6003 / 10)), PFloat (Finite 1)],
                      PList [PFloat (float_of_rat (6006 / 10)), PFloat (Finite 2)]])]"
    using synthetic_book_two_levels [OF g h m r] by simp
  with g has_digits_600 r show ?thesis
    unfolding B_def S_def by blast
qed

section \<open>Order of the synthetic levels: properties\<close>

lemma round_half_even_le:
  assumes "t \<le> of_int n"
  shows "round_half_even t \<le> n"
proof -
  have "\<bar>of_int (round_half_even t) - t\<bar> \<le> 1 / 2"
    by (rule round_half_even_error)
  with assms have "(of_int (round_half_even t) :: rat) < of_int n + 1"
    by linarith
  then have "(of_int (round_half_even t) :: rat) < of_int (n + 1)"
    by simp
  then have "round_half_even t < n + 1"
    by (simp only: of_int_less_iff)
  then show ?thesis by simp
qed

lemma round_half_even_ge:
  assumes "of_int n \<le> t"
  shows "n \<le> round_half_even t"
proof -
  have "\<bar>of_int (round_half_even t) - t\<bar> \<le> 1 / 2"
    by (rule round_half_even_error)
  with assms have "(of_int n :: rat) - 1 < of_int (round_half_even t)"
    by linarith
  then have "(of_int (n - 1) :: rat) < of_int (round_half_even t)"
    by simp
  then have "n - 1 < round_half_even t"
    by (simp only: of_int_less_iff)
  then show ?thesis by simp
qed

lemma round_half_even_near:
  assumes "of_int n - 1 / 2 < t" and "t < of_int n + 1 / 2"
  shows "round_half_even t = n"
proof -
  have "\<bar>of_int (round_half_even t) - t\<bar> \<le> 1 / 2"
    by (rule round_half_even_error)
  with assms have "(of_int n :: rat) - 1 < of_int (round_half_even t)"
    and "(of_int (round_half_even t) :: rat) < of_int n + 1"
    by linarith+
  then have "(of_int (n - 1) :: rat) < of_int (round_half_even t)"
    and "(of_int (round_half_even t) :: rat) < of_int (n + 1)"
    by simp_all
  then have "n - 1 < round_half_even t" and "round_half_even t < n + 1"
    by (simp_all only: of_int_less_iff)
  then show ?thesis by simp
qed

lemma float_of_rat_cases:
  assumes "0 < a"
  shows "(\<exists>y. float_of_rat a = Finite y) \<or> float_of_rat a = PInf"
  by (simp add: float_of_rat_pos [OF assms] Let_def)

lemma float_of_rat_overflow:
  assumes "2 powi 1024 \<le> a"
  shows "float_of_rat a = PInf"
proof -
  have a: "0 < a"
    using assms by (rule less_le_trans [rotated]) simp
  define e where "e = ilog 2 a"
  define ulp :: rat where "ulp = 2 powi (e - 52)"
  have e: "1024 \<le> e"
    using ilog_ge [of a 2 1024] a assms by (simp add: e_def)
  then have m: "max e (- 1022) = e" by simp
  have ulp: "0 < ulp" by (simp add: ulp_def)
  have "2 powi e \<le> a"
    using ilog_bounds [of a 2] a by (simp add: e_def)
  moreover have pe: "(2 :: rat) powi e = 2 ^ 52 * ulp"
    using power_int_add [of "2 :: rat" 52 "e - 52"] by (simp add: ulp_def)
  ultimately have "of_int (2 ^ 52) * ulp \<le> a"
    by simp
  then have "of_int (2 ^ 52) \<le> a / ulp"
    using ulp by (simp only: pos_le_divide_eq)
  then have "2 ^ 52 \<le> round_half_even (a / ulp)"
    by (rule round_half_even_ge)
  then have "(of_int (2 ^ 52) :: rat) \<le> of_int (round_half_even (a / ulp))"
    by (simp only: of_int_le_iff)
  then have "of_int (2 ^ 52) * ulp \<le> of_int (round_half_even (a / ulp)) * ulp"
    using ulp by (simp only: mult_le_cancel_right_pos)
  then have "2 powi e \<le> of_int (round_half_even (a / ulp)) * ulp"
    by (simp add: pe)
  moreover have "(2 :: rat) powi 1024 \<le> 2 powi e"
    using e by (intro power_int_increasing) simp_all
  ultimately have "2 powi 1024 \<le> of_int (round_half_even (a / ulp)) * ulp"
    by (rule order_trans [rotated])
  then show ?thesis
    by (simp add: float_of_rat_pos [OF a] Let_def e_def [symmetric] m ulp_def [symmetric])
qed

lemma float_error:
  assumes "0 < a" and "float_of_rat a = Finite y"
  shows "\<bar>y - a\<bar> \<le> 2 powi (- 1075) + a / 10 ^ 15"
proof (cases "2 powi (- 1022) \<le> a")
  case True
  define U :: rat where "U = 2 powi (- 1075)"
  have U: "0 < U" by (simp add: U_def)
  from float_rel_error [OF True assms(2)]
  have "a * (1 - 1 / 2 ^ 53) \<le> y" "y \<le> a * (1 + 1 / 2 ^ 53)"
    by simp_all
  moreover have "a * (1 - 1 / 10 ^ 15) \<le> a * (1 - 1 / 2 ^ 53)"
    "a * (1 + 1 / 2 ^ 53) \<le> a * (1 + 1 / 10 ^ 15)"
    using assms(1) by (intro mult_left_mono; simp)+
  ultimately have "a * (1 - 1 / 10 ^ 15) \<le> y" "y \<le> a * (1 + 1 / 10 ^ 15)"
    by linarith+
  then have "a - a / 10 ^ 15 \<le> y" "y \<le> a + a / 10 ^ 15"
    by (simp_all add: algebra_simps)
  with U show ?thesis
    unfolding U_def [symmetric] by linarith
next
  case False
  then have small: "a < 2 powi (- 1022)" by simp
  then have "ilog 2 a < - 1022"
    using ilog_less [of a 2 "- 1022"] assms(1) by simp
  then have e: "max (ilog 2 a) (- 1022) - 52 = - 1074"
    by simp
  define ulp :: rat where "ulp = 2 powi (- 1074)"
  define U :: rat where "U = 2 powi (- 1075)"
  have ulp: "0 < ulp" by (simp add: ulp_def)
  have "y = of_int (round_half_even (a / ulp)) * ulp"
    using assms(2) unfolding float_of_rat_pos [OF assms(1)] Let_def e ulp_def [symmetric]
    by (simp split: if_splits)
  then have "\<bar>y - a\<bar> \<le> ulp / 2"
    using float_abs_error [OF ulp, of a] by simp
  moreover have "ulp = 2 * U"
    using power_int_add [of "2 :: rat" 1 "- 1075"] by (simp add: ulp_def U_def)
  moreover have "0 \<le> a / 10 ^ 15"
    using assms(1) by simp
  ultimately show ?thesis
    unfolding U_def [symmetric] by linarith
qed

lemma float_sep:
  assumes "0 < a" and "float_of_rat a = Finite ya" and "float_of_rat b = Finite yb"
    and "2 powi (- 1074) + (a + b) / 10 ^ 15 < b - a"
  shows "ya < yb"
proof -
  define U :: rat where "U = 2 powi (- 1075)"
  have U: "0 < U" by (simp add: U_def)
  have UU: "(2 :: rat) powi (- 1074) = 2 * U"
    using power_int_add [of "2 :: rat" 1 "- 1075"] by (simp add: U_def)
  have ab: "(a + b) / 10 ^ 15 = a / 10 ^ 15 + b / 10 ^ 15"
    by (rule add_divide_distrib)
  have "0 \<le> a / 10 ^ 15" using assms(1) by simp
  have g: "2 * U + (a / 10 ^ 15 + b / 10 ^ 15) < b - a"
    using assms(4) unfolding UU ab .
  have "0 \<le> b / 10 ^ 15 \<or> b / 10 ^ 15 < 0" by linarith
  then have b: "0 < b"
  proof
    assume "0 \<le> b / 10 ^ 15"
    with g U \<open>0 \<le> a / 10 ^ 15\<close> assms(1) show ?thesis by linarith
  next
    assume "b / 10 ^ 15 < 0"
    then have "b < 0" by simp
    then have "- b / 10 ^ 15 \<le> - b" by (simp add: field_simps)
    with g U \<open>0 \<le> a / 10 ^ 15\<close> assms(1) \<open>b < 0\<close> show ?thesis by (simp add: field_simps) 
  qed
  from float_error [OF assms(1,2)] have "ya \<le> a + (U + a / 10 ^ 15)"
    unfolding U_def [symmetric] by linarith
  moreover from float_error [OF b assms(3)] have "b - (U + b / 10 ^ 15) \<le> yb"
    unfolding U_def [symmetric] by linarith
  ultimately show ?thesis
    using g by linarith
qed

lemma float_of_rat_finite_max:
  assumes "0 < a" and "a \<le> 2 powi 1024 - 2 powi 971"
  shows "\<exists>y. float_of_rat a = Finite y"
proof (cases "a \<le> 2 powi 1023")
  case True
  with assms(1) show ?thesis by (rule float_of_rat_finite)
next
  case False
  define ulp :: rat where "ulp = 2 powi 971"
  have ulp: "0 < ulp" by (simp add: ulp_def)
  have q: "(2 :: rat) powi 1024 = 2 ^ 53 * ulp"
    using power_int_add [of "2 :: rat" 53 971] by (simp add: ulp_def)
  from False have lo: "2 powi 1023 \<le> a" by simp
  have hi: "a < 2 powi 1024"
    using assms(2) ulp unfolding ulp_def [symmetric] by linarith
  have i: "ilog 2 a = 1023"
    using assms(1) lo hi by (intro ilog_unique) simp_all
  have e: "max (1023 :: int) (- 1022) - 52 = 971" by simp
  have "a \<le> of_int (2 ^ 53 - 1) * ulp"
    using assms(2) unfolding ulp_def [symmetric] q by (simp add: algebra_simps)
  then have "a / ulp \<le> of_int (2 ^ 53 - 1)"
    using ulp by (simp only: pos_divide_le_eq)
  then have "round_half_even (a / ulp) \<le> 2 ^ 53 - 1"
    by (rule round_half_even_le)
  then have "(of_int (round_half_even (a / ulp)) :: rat) \<le> of_int (2 ^ 53 - 1)"
    by (simp only: of_int_le_iff)
  then have "of_int (round_half_even (a / ulp)) * ulp \<le> of_int (2 ^ 53 - 1) * ulp"
    using ulp by (simp only: mult_le_cancel_right_pos)
  also have "\<dots> < 2 ^ 53 * ulp"
    using ulp by simp
  finally have "\<not> 2 powi 1024 \<le> of_int (round_half_even (a / ulp)) * ulp"
    unfolding q by simp
  then show ?thesis
    unfolding float_of_rat_pos [OF assms(1)] Let_def i e ulp_def [symmetric] by simp
qed

lemma powi_1074: "(2 :: rat) powi (- 1074) = 1 / 2 ^ 1074"
  by (simp add: power_int_def power_divide)

lemma round_half_even_gt:
  assumes "of_int n - 1 / 2 < t"
  shows "n \<le> round_half_even t"
proof -
  have "\<bar>of_int (round_half_even t) - t\<bar> \<le> 1 / 2"
    by (rule round_half_even_error)
  with assms have "(of_int n :: rat) - 1 < of_int (round_half_even t)"
    by linarith
  then have "(of_int (n - 1) :: rat) < of_int (round_half_even t)"
    by simp
  then have "n - 1 < round_half_even t"
    by (simp only: of_int_less_iff)
  then show ?thesis by simp
qed

lemma float_subnormal_scaled:
  assumes "of_int n - 1 / 2 < t" and "t < of_int n + 1 / 2" and "0 < n" and "n < 2 ^ 52"
  shows "float_of_rat (t / 2 ^ 1074) = Finite (of_int n / 2 ^ 1074)"
proof -
  define P :: rat where "P = 2 ^ 1074"
  have P: "0 < P" by (simp add: P_def)
  have n1: "(1 :: rat) \<le> of_int n"
    using assms(3) by simp
  have "n + 1 \<le> 2 ^ 52" using assms(4) by simp
  then have "(of_int (n + 1) :: rat) \<le> of_int (2 ^ 52)"
    by (simp only: of_int_le_iff)
  then have n2: "(of_int n :: rat) + 1 \<le> 4503599627370496"
    by simp
  have t: "0 < t" using assms(1) n1 by linarith
  then have x: "0 < t / P" using P by simp
  have "t < 4503599627370496" using assms(2) n2 by linarith
  then have "t / P < 4503599627370496 / P"
    using P by (simp only: divide_strict_right_mono)
  also have "4503599627370496 / P = 2 powi (- 1022)"
    unfolding P_def by (simp add: power_int_def power_divide)
  finally have small: "t / P < 2 powi (- 1022)" .
  then have "ilog 2 (t / P) < - 1022"
    using ilog_less [of "t / P" 2 "- 1022"] x by simp
  then have e: "max (ilog 2 (t / P)) (- 1022) - 52 = - 1074"
    by simp
  have tt: "t / P / (1 / P) = t"
    using P by simp
  have r: "round_half_even t = n"
    using assms(1,2) by (rule round_half_even_near)
  have "of_int n * (1 / P) \<le> t / P + 1 / P"
    using assms(1) P by (simp add: field_simps)
  moreover have "1 / P \<le> t / P + t / P"
    using assms(1) n1 P by (simp add: field_simps)
  moreover have "(2 :: rat) powi (- 1022) \<le> 2 powi 0"
    by (intro power_int_increasing) simp_all
  moreover have "(2 :: rat) powi 2 \<le> 2 powi 1024"
    by (intro power_int_increasing) simp_all
  ultimately have "\<not> 2 powi 1024 \<le> of_int n * (1 / P)"
    using small by simp
  then have "float_of_rat (t / P) = Finite (of_int n * (1 / P))"
    unfolding float_of_rat_pos [OF x] Let_def e powi_1074 P_def [symmetric] tt r by simp
  then show ?thesis
    by (simp add: P_def)
qed

lemma float_top_binade:
  assumes "of_int n - 1 / 2 < t" and "t < of_int n + 1 / 2" and "2 ^ 52 < n" and "n < 2 ^ 53"
  shows "float_of_rat (t * 2 ^ 971) = Finite (of_int n * 2 ^ 971)"
proof -
  define P :: rat where "P = 2 ^ 971"
  have P: "0 < P" by (simp add: P_def)
  have p971: "(2 :: rat) powi 971 = P"
    unfolding P_def by (rule power_int_numeral)
  have p1023: "(2 :: rat) powi 1023 = 4503599627370496 * P"
    unfolding P_def by simp
  have p1024: "(2 :: rat) powi 1024 = 9007199254740992 * P"
    unfolding P_def by simp
  have "2 ^ 52 + 1 \<le> n" using assms(3) by simp
  then have "(of_int (2 ^ 52 + 1) :: rat) \<le> of_int n"
    by (simp only: of_int_le_iff)
  then have n1: "(4503599627370497 :: rat) \<le> of_int n"
    by simp
  have "n + 1 \<le> 2 ^ 53" using assms(4) by simp
  then have "(of_int (n + 1) :: rat) \<le> of_int (2 ^ 53)"
    by (simp only: of_int_le_iff)
  then have n2: "(of_int n :: rat) + 1 \<le> 9007199254740992"
    by simp
  have t1: "4503599627370496 \<le> t" and t2: "t < 9007199254740992"
    using assms(1,2) n1 n2 by linarith+
  have a: "0 < t * P" using t1 P by simp
  have lo: "2 powi 1023 \<le> t * P"
    unfolding p1023 using t1 P by simp
  have hi: "t * P < 2 powi 1024"
    unfolding p1024 using t2 P by simp
  have i: "ilog 2 (t * P) = 1023"
    using a lo hi by (intro ilog_unique) simp_all
  have e: "max (1023 :: int) (- 1022) - 52 = 971" by simp
  have tt: "t * P / P = t" using P by simp
  have r: "round_half_even t = n"
    using assms(1,2) by (rule round_half_even_near)
  have "of_int n * P < 9007199254740992 * P"
    using n2 P by simp
  then have "\<not> 2 powi 1024 \<le> of_int n * P"
    unfolding p1024 by simp
  then have "float_of_rat (t * P) = Finite (of_int n * P)"
    unfolding float_of_rat_pos [OF a] Let_def i e p971 tt r by simp
  then show ?thesis
    by (simp only: P_def)
qed

lemma float_overflow_top:
  assumes "9007199254740992 - 1 / 2 < t"
  shows "float_of_rat (t * 2 ^ 971) = PInf"
proof (cases "2 powi 1024 \<le> t * 2 ^ 971")
  case True
  then show ?thesis by (rule float_of_rat_overflow)
next
  case False
  define P :: rat where "P = 2 ^ 971"
  have P: "0 < P" by (simp add: P_def)
  have p971: "(2 :: rat) powi 971 = P"
    unfolding P_def by (rule power_int_numeral)
  have p1023: "(2 :: rat) powi 1023 = 4503599627370496 * P"
    unfolding P_def by simp
  have p1024: "(2 :: rat) powi 1024 = 9007199254740992 * P"
    unfolding P_def by simp
  from False have hi: "t * P < 2 powi 1024"
    by (simp only: P_def not_le)
  have t1: "4503599627370496 \<le> t" using assms by linarith
  have a: "0 < t * P" using t1 P by simp
  have lo: "2 powi 1023 \<le> t * P"
    unfolding p1023 using t1 P by simp
  have i: "ilog 2 (t * P) = 1023"
    using a lo hi by (intro ilog_unique) simp_all
  have e: "max (1023 :: int) (- 1022) - 52 = 971" by simp
  have tt: "t * P / P = t" using P by simp
  have "of_int 9007199254740992 - 1 / 2 < t"
    using assms by simp
  then have "9007199254740992 \<le> round_half_even t"
    by (rule round_half_even_gt)
  then have "(of_int 9007199254740992 :: rat) \<le> of_int (round_half_even t)"
    by (simp only: of_int_le_iff)
  then have "9007199254740992 * P \<le> of_int (round_half_even t) * P"
    using P by simp
  then have "2 powi 1024 \<le> of_int (round_half_even t) * P"
    by (simp only: p1024)
  then have "float_of_rat (t * P) = PInf"
    unfolding float_of_rat_pos [OF a] Let_def i e p971 tt by simp
  then show ?thesis
    by (simp only: P_def)
qed

lemma float_of_rat_600: "float_of_rat 600 = Finite 600"
proof -
  have i: "ilog 2 600 = 9"
    by (rule ilog_unique) simp_all
  have u: "(2 :: rat) powi (max 9 (- 1022) - 52) = 1 / 2 ^ 43"
    by (simp add: power_int_def power_divide)
  have t: "(600 :: rat) / (1 / 2 ^ 43) = of_int (600 * 2 ^ 43)"
    by simp
  have "\<not> (2 :: rat) powi 1024 \<le> 600"
    by (simp add: power_int_def)
  then show ?thesis
    unfolding float_of_rat_pos [of 600, simplified] Let_def i u t round_half_even_of_int
    by simp
qed

lemma order_fails_least:
  "(0 :: rat) < 1 / 2 ^ 1074
   \<and> float_of_rat (5 / 10 ^ 324) = Finite (1 / 2 ^ 1074)
   \<and> request_order_book_snapshot
       \<lparr>int_of_str = (\<lambda>s. None), float_of_str = (\<lambda>s. None), repr_float = (\<lambda>f. []),
        repr_container = (\<lambda>v. []), float_decimal = (\<lambda>x. 5 / 10 ^ 324)\<rparr>
       (\<lambda>u h p. Response 200 (Inr (PDict [(''price'', PFloat (Finite (1 / 2 ^ 1074)))])))
       \<lparr>src_trading_pairs = [''BNB-USDT''], src_api_key = ''key'', src_chain_id = 56\<rparr>
       ''BNB-USDT''
     = Inr [(''trading_pair'', PStr ''BNB-USDT''),
            (''bids'',
               PList [PList [PFloat (Finite (1 / 2 ^ 1074)), PFloat (Finite 1)],
                      PList [PFloat (Finite (1 / 2 ^ 1074)), PFloat (Finite 2)]]),
            (''asks'',
               PList [PList [PFloat (Finite (1 / 2 ^ 1074)), PFloat (Finite 1)],
                      PList [PFloat (Finite (1 / 2 ^ 1074)), PFloat (Finite 2)]])]
   \<and> \<not> float_less (Finite (1 / 2 ^ 1074)) (Finite (1 / 2 ^ 1074))"
proof -
  define B where "B = \<lparr>int_of_str = (\<lambda>s. None), float_of_str = (\<lambda>s. None),
        repr_float = (\<lambda>f. []), repr_container = (\<lambda>v. []),
        float_decimal = (\<lambda>x :: rat. 5 / 10 ^ 324 :: rat)\<rparr>"
  define S where "S = \<lparr>src_trading_pairs = [''BNB-USDT''], src_api_key = ''key'',
        src_chain_id = 56\<rparr>"
  define m :: rat where "m = 5 / 10 ^ 324"
  have g: "get_indicative_price B
       (\<lambda>u h p. Response 200 (Inr (PDict [(''price'', PFloat (Finite (1 / 2 ^ 1074)))]))) S
       ''BNB-USDT'' = Inr (Some (Finite (1 / 2 ^ 1074)))"
    by (simp add: get_indicative_price_def Let_def price_of_response_def except_Exception_def
          dict_get_def)
  have i: "ilog 10 \<bar>m\<bar> = - 324"
    unfolding m_def by (rule ilog_unique) (simp_all add: power_int_def power_divide)
  have "\<bar>m\<bar> / 10 powi (- 324 + 1 - int 17) = of_int (5 * 10 ^ 16)"
    unfolding m_def by (simp add: power_int_def power_divide)
  then have "\<bar>m\<bar> / 10 powi (ilog 10 \<bar>m\<bar> + 1 - int 17) = of_int (5 * 10 ^ 16)"
    by (simp only: i)
  then have "has_digits 17 m"
    unfolding has_digits_def Let_def by (simp only: floor_of_int) simp
  then have h: "has_digits 17 (float_decimal B (1 / 2 ^ 1074))"
    by (simp add: B_def m_def)
  have md: "m = float_decimal B (1 / 2 ^ 1074)"
    by (simp add: B_def m_def)
  define P :: rat where "P = 2 ^ 1074"
  define t where "t = m * P"
  have P: "0 < P" by (simp add: P_def)
  have tb: "101 / 100 < t" "t < 102 / 100"
    unfolding t_def m_def P_def by simp_all
  have mt: "m = t / P"
    using P by (simp add: t_def)
  note one = float_subnormal_scaled [folded P_def, of 1, simplified]
  have f0: "float_of_rat m = Finite (1 / P)"
    unfolding mt using tb by (intro one) simp_all
  have "m - m * (1 / 1000) / 2 = (t - t * (1 / 1000) / 2) / P"
    unfolding mt by (simp add: diff_divide_distrib)
  then have f1: "float_of_rat (m - m * (1 / 1000) / 2) = Finite (1 / P)"
    using tb by (simp only:) (intro one, simp_all)
  have "m - m * (1 / 1000) = (t - t * (1 / 1000)) / P"
    unfolding mt by (simp add: diff_divide_distrib)
  then have f2: "float_of_rat (m - m * (1 / 1000)) = Finite (1 / P)"
    using tb by (simp only:) (intro one, simp_all)
  have "m + m * (1 / 1000) / 2 = (t + t * (1 / 1000) / 2) / P"
    unfolding mt by (simp add: add_divide_distrib)
  then have f3: "float_of_rat (m + m * (1 / 1000) / 2) = Finite (1 / P)"
    using tb by (simp only:) (intro one, simp_all)
  have "m + m * (1 / 1000) = (t + t * (1 / 1000)) / P"
    unfolding mt by (simp add: add_divide_distrib)
  then have f4: "float_of_rat (m + m * (1 / 1000)) = Finite (1 / P)"
    using tb by (simp only:) (intro one, simp_all)
  have "request_order_book_snapshot B
       (\<lambda>u h p. Response 200 (Inr (PDict [(''price'', PFloat (Finite (1 / 2 ^ 1074)))]))) S
       ''BNB-USDT''
     = Inr [(''trading_pair'', PStr ''BNB-USDT''),
            (''bids'',
               PList [PList [PFloat (Finite (1 / 2 ^ 1074)), PFloat (Finite 1)],
                      PList [PFloat (Finite (1 / 2 ^ 1074)), PFloat (Finite 2)]]),
            (''asks'',
               PList [PList [PFloat (Finite (1 / 2 ^ 1074)), PFloat (Finite 1)],
                      PList [PFloat (Finite (1 / 2 ^ 1074)), PFloat (Finite 2)]])]"
    unfolding snapshot_of_finite_price [OF g h md] f1 f2 f3 f4 P_def by (rule refl)
  moreover have "(0 :: rat) < 1 / 2 ^ 1074"
    using P by (simp only: P_def zero_less_divide_1_iff)
  moreover have "\<not> float_less (Finite (1 / 2 ^ 1074)) (Finite (1 / 2 ^ 1074))"
    by (simp only: float_less.simps less_irrefl not_False_eq_True)
  ultimately show ?thesis
    using f0 unfolding B_def S_def m_def P_def by blast
qed


lemma order_fails_subnormal:
  "float_of_rat (979 / 10 ^ 323) = Finite (1982 / 2 ^ 1074)
   \<and> request_order_book_snapshot
       \<lparr>int_of_str = (\<lambda>s. None), float_of_str = (\<lambda>s. None), repr_float = (\<lambda>f. []),
        repr_container = (\<lambda>v. []), float_decimal = (\<lambda>x. 979 / 10 ^ 323)\<rparr>
       (\<lambda>u h p. Response 200 (Inr (PDict [(''price'', PFloat (Finite (1982 / 2 ^ 1074)))])))
       \<lparr>src_trading_pairs = [''BNB-USDT''], src_api_key = ''key'', src_chain_id = 56\<rparr>
       ''BNB-USDT''
     = Inr [(''trading_pair'', PStr ''BNB-USDT''),
            (''bids'',
               PList [PList [PFloat (Finite (1981 / 2 ^ 1074)), PFloat (Finite 1)],
                      PList [PFloat (Finite (1980 / 2 ^ 1074)), PFloat (Finite 2)]]),
            (''asks'',
               PList [PList [PFloat (Finite (1983 / 2 ^ 1074)), PFloat (Finite 1)],
                      PList [PFloat (Finite (1983 / 2 ^ 1074)), PFloat (Finite 2)]])]
   \<and> \<not> float_less (Finite (1983 / 2 ^ 1074)) (Finite (1983 / 2 ^ 1074))"
proof -
  define B where "B = \<lparr>int_of_str = (\<lambda>s. None), float_of_str = (\<lambda>s. None),
        repr_float = (\<lambda>f. []), repr_container = (\<lambda>v. []),
        float_decimal = (\<lambda>x :: rat. 979 / 10 ^ 323 :: rat)\<rparr>"
  define S where "S = \<lparr>src_trading_pairs = [''BNB-USDT''], src_api_key = ''key'',
        src_chain_id = 56\<rparr>"
  define m :: rat where "m = 979 / 10 ^ 323"
  define P :: rat where "P = 2 ^ 1074"
  have g: "get_indicative_price B
       (\<lambda>u h p. Response 200 (Inr (PDict [(''price'', PFloat (Finite (1982 / P)))]))) S
       ''BNB-USDT'' = Inr (Some (Finite (1982 / P)))"
    by (simp add: get_indicative_price_def Let_def price_of_response_def except_Exception_def
          dict_get_def)
  have i: "ilog 10 \<bar>m\<bar> = - 321"
    unfolding m_def by (rule ilog_unique) (simp_all add: power_int_def power_divide)
  have "\<bar>m\<bar> / 10 powi (- 321 + 1 - int 17) = of_int (979 * 10 ^ 14)"
    unfolding m_def by (simp add: power_int_def power_divide)
  then have "\<bar>m\<bar> / 10 powi (ilog 10 \<bar>m\<bar> + 1 - int 17) = of_int (979 * 10 ^ 14)"
    by (simp only: i)
  then have "has_digits 17 m"
    unfolding has_digits_def Let_def by (simp only: floor_of_int) simp
  then have h: "has_digits 17 (float_decimal B (1982 / P))"
    by (simp add: B_def m_def)
  have md: "m = float_decimal B (1982 / P)"
    by (simp add: B_def m_def)
  define t where "t = m * P"
  have P: "0 < P" by (simp add: P_def)
  have tb: "198151805 / 100000 < t" "t < 198151806 / 100000"
    unfolding t_def m_def P_def by simp_all
  have mt: "m = t / P"
    using P by (simp add: t_def)
  note sc = float_subnormal_scaled [folded P_def]
  have f0: "float_of_rat m = Finite (1982 / P)"
    unfolding mt by (rule sc [of 1982, simplified]) (use tb in simp_all)
  have e1: "m - m * (1 / 1000) / 2 = (t - t * (1 / 1000) / 2) / P"
    unfolding mt by (simp add: diff_divide_distrib)
  have f1: "float_of_rat (m - m * (1 / 1000) / 2) = Finite (1981 / P)"
    unfolding e1 by (rule sc [of 1981, simplified]) (use tb in simp_all)
  have e2: "m - m * (1 / 1000) = (t - t * (1 / 1000)) / P"
    unfolding mt by (simp add: diff_divide_distrib)
  have f2: "float_of_rat (m - m * (1 / 1000)) = Finite (1980 / P)"
    unfolding e2 by (rule sc [of 1980, simplified]) (use tb in simp_all)
  have e3: "m + m * (1 / 1000) / 2 = (t + t * (1 / 1000) / 2) / P"
    unfolding mt by (simp add: add_divide_distrib)
  have f3: "float_of_rat (m + m * (1 / 1000) / 2) = Finite (1983 / P)"
    unfolding e3 by (rule sc [of 1983, simplified]) (use tb in simp_all)
  have e4: "m + m * (1 / 1000) = (t + t * (1 / 1000)) / P"
    unfolding mt by (simp add: add_divide_distrib)
  have f4: "float_of_rat (m + m * (1 / 1000)) = Finite (1983 / P)"
    unfolding e4 by (rule sc [of 1983, simplified]) (use tb in simp_all)
  have "request_order_book_snapshot B
       (\<lambda>u h p. Response 200 (Inr (PDict [(''price'', PFloat (Finite (1982 / P)))]))) S
       ''BNB-USDT''
     = Inr [(''trading_pair'', PStr ''BNB-USDT''),
            (''bids'',
               PList [PList [PFloat (Finite (1981 / P)), PFloat (Finite 1)],
                      PList [PFloat (Finite (1980 / P)), PFloat (Finite 2)]]),
            (''asks'',
               PList [PList [PFloat (Finite (1983 / P)), PFloat (Finite 1)],
                      PList [PFloat (Finite (1983 / P)), PFloat (Finite 2)]])]"
    unfolding snapshot_of_finite_price [OF g h md] f1 f2 f3 f4 by (rule refl)
  moreover have "\<not> float_less (Finite (1983 / P)) (Finite (1983 / P))"
    by (simp only: float_less.simps less_irrefl not_False_eq_True)
  ultimately show ?thesis
    using f0 unfolding B_def S_def m_def P_def by blast
qed


lemma order_fails_overflow:
  "float_of_rat (17967947374935691 * 10 ^ 292) = Finite (9002697905788098 * 2 ^ 971)
   \<and> request_order_book_snapshot
       \<lparr>int_of_str = (\<lambda>s. None), float_of_str = (\<lambda>s. None), repr_float = (\<lambda>f. []),
        repr_container = (\<lambda>v. []), float_decimal = (\<lambda>x. 17967947374935691 * 10 ^ 292)\<rparr>
       (\<lambda>u h p. Response 200
          (Inr (PDict [(''price'', PFloat (Finite (9002697905788098 * 2 ^ 971)))])))
       \<lparr>src_trading_pairs = [''BNB-USDT''], src_api_key = ''key'', src_chain_id = 56\<rparr>
       ''BNB-USDT''
     = Inr [(''trading_pair'', PStr ''BNB-USDT''),
            (''bids'',
               PList [PList [PFloat (Finite (8998196556835204 * 2 ^ 971)), PFloat (Finite 1)],
                      PList [PFloat (Finite (8993695207882310 * 2 ^ 971)), PFloat (Finite 2)]]),
            (''asks'',
               PList [PList [PFloat PInf, PFloat (Finite 1)],
                      PList [PFloat PInf, PFloat (Finite 2)]])]
   \<and> \<not> float_less PInf PInf"
proof -
  define B where "B = \<lparr>int_of_str = (\<lambda>s. None), float_of_str = (\<lambda>s. None),
        repr_float = (\<lambda>f. []), repr_container = (\<lambda>v. []),
        float_decimal = (\<lambda>x :: rat. 17967947374935691 * 10 ^ 292 :: rat)\<rparr>"
  define S where "S = \<lparr>src_trading_pairs = [''BNB-USDT''], src_api_key = ''key'',
        src_chain_id = 56\<rparr>"
  define m :: rat where "m = 17967947374935691 * 10 ^ 292"
  define P :: rat where "P = 2 ^ 971"
  have g: "get_indicative_price B
       (\<lambda>u h p. Response 200 (Inr (PDict [(''price'', PFloat (Finite (9002697905788098 * P)))]))) S
       ''BNB-USDT'' = Inr (Some (Finite (9002697905788098 * P)))"
    by (simp add: get_indicative_price_def Let_def price_of_response_def except_Exception_def
          dict_get_def)
  have i: "ilog 10 \<bar>m\<bar> = 308"
    unfolding m_def by (rule ilog_unique) (simp_all add: power_int_def)
  have "\<bar>m\<bar> / 10 powi (308 + 1 - int 17) = of_int 17967947374935691"
    unfolding m_def by (simp add: power_int_def)
  then have "\<bar>m\<bar> / 10 powi (ilog 10 \<bar>m\<bar> + 1 - int 17) = of_int 17967947374935691"
    by (simp only: i)
  then have "has_digits 17 m"
    unfolding has_digits_def Let_def by (simp only: floor_of_int) simp
  then have h: "has_digits 17 (float_decimal B (9002697905788098 * P))"
    by (simp add: B_def m_def)
  have md: "m = float_decimal B (9002697905788098 * P)"
    by (simp add: B_def m_def)
  define t where "t = m / P"
  have P: "0 < P" by (simp add: P_def)
  have tb: "90026979057880978 / 10 < t" "t < 90026979057880979 / 10"
    unfolding t_def m_def P_def by simp_all
  have mt: "m = t * P"
    using P by (simp add: t_def)
  note tp = float_top_binade [folded P_def]
  note ov = float_overflow_top [folded P_def]
  have f0: "float_of_rat m = Finite (9002697905788098 * P)"
    unfolding mt by (rule tp [of 9002697905788098, simplified]) (use tb in simp_all)
  have e1: "m - m * (1 / 1000) / 2 = (t - t * (1 / 1000) / 2) * P"
    unfolding mt by (simp add: algebra_simps)
  have f1: "float_of_rat (m - m * (1 / 1000) / 2) = Finite (8998196556835204 * P)"
    unfolding e1 by (rule tp [of 8998196556835204, simplified]) (use tb in simp_all)
  have e2: "m - m * (1 / 1000) = (t - t * (1 / 1000)) * P"
    unfolding mt by (simp add: algebra_simps)
  have f2: "float_of_rat (m - m * (1 / 1000)) = Finite (8993695207882310 * P)"
    unfolding e2 by (rule tp [of 8993695207882310, simplified]) (use tb in simp_all)
  have e3: "m + m * (1 / 1000) / 2 = (t + t * (1 / 1000) / 2) * P"
    unfolding mt by (simp add: algebra_simps)
  have f3: "float_of_rat (m + m * (1 / 1000) / 2) = PInf"
    unfolding e3 by (rule ov) (use tb in simp_all)
  have e4: "m + m * (1 / 1000) = (t + t * (1 / 1000)) * P"
    unfolding mt by (simp add: algebra_simps)
  have f4: "float_of_rat (m + m * (1 / 1000)) = PInf"
    unfolding e4 by (rule ov) (use tb in simp_all)
  have "request_order_book_snapshot B
       (\<lambda>u h p. Response 200 (Inr (PDict [(''price'', PFloat (Finite (9002697905788098 * P)))]))) S
       ''BNB-USDT''
     = Inr [(''trading_pair'', PStr ''BNB-USDT''),
            (''bids'',
               PList [PList [PFloat (Finite (8998196556835204 * P)), PFloat (Finite 1)],
                      PList [PFloat (Finite (8993695207882310 * P)), PFloat (Finite 2)]]),
            (''asks'',
               PList [PList [PFloat PInf, PFloat (Finite 1)],
                      PList [PFloat PInf, PFloat (Finite 2)]])]"
    unfolding snapshot_of_finite_price [OF g h md] f1 f2 f3 f4 by (rule refl)
  moreover have "\<not> float_less PInf PInf"
    by simp
  ultimately show ?thesis
    using f0 unfolding B_def S_def m_def P_def by blast
qed

text \<open>
  Claim C2, as stated, fails at both ends of the range of the floats. For the least
  positive float \<open>2\<^sup>-\<^sup>1\<^sup>0\<^sup>7\<^sup>4\<close>, which \<open>str\<close> prints as \<open>5e-324\<close>, the four decimal levels
  all convert to that same float, so the best bid is not below the best ask. For the
  float \<open>1982 * 2\<^sup>-\<^sup>1\<^sup>0\<^sup>7\<^sup>4\<close>, printed as \<open>9.79e-321\<close>, the bids are \<open>1981\<close> and \<open>1980\<close> units of
  \<open>2\<^sup>-\<^sup>1\<^sup>0\<^sup>7\<^sup>4\<close> but both asks are \<open>1983\<close> units, so the best ask is not below the second
  ask. For the float \<open>9002697905788098 * 2\<^sup>9\<^sup>7\<^sup>1\<close>, printed as \<open>1.7967947374935691e+308\<close>
  (about \<open>0.99950025 * 2\<^sup>1\<^sup>0\<^sup>2\<^sup>4\<close>), both asks convert to the float infinity, so again the
  best ask is not below the second ask.
\<close>

theorem synthetic_book_order_counterexample:
  "((0 :: rat) < 1 / 2 ^ 1074
   \<and> float_of_rat (5 / 10 ^ 324) = Finite (1 / 2 ^ 1074)
   \<and> request_order_book_snapshot
       \<lparr>int_of_str = (\<lambda>s. None), float_of_str = (\<lambda>s. None), repr_float = (\<lambda>f. []),
        repr_container = (\<lambda>v. []), float_decimal = (\<lambda>x. 5 / 10 ^ 324)\<rparr>
       (\<lambda>u h p. Response 200 (Inr (PDict [(''price'', PFloat (Finite (1 / 2 ^ 1074)))])))
       \<lparr>src_trading_pairs = [''BNB-USDT''], src_api_key = ''key'', src_chain_id = 56\<rparr>
       ''BNB-USDT''
     = Inr [(''trading_pair'', PStr ''BNB-USDT''),
            (''bids'',
               PList [PList [PFloat (Finite (1 / 2 ^ 1074)), PFloat (Finite 1)],
                      PList [PFloat (Finite (1 / 2 ^ 1074)), PFloat (Finite 2)]]),
            (''asks'',
               PList [PList [PFloat (Finite (1 / 2 ^ 1074)), PFloat (Finite 1)],
                      PList [PFloat (Finite (1 / 2 ^ 1074)), PFloat (Finite 2)]])]
   \<and> \<not> float_less (Finite (1 / 2 ^ 1074)) (Finite (1 / 2 ^ 1074)))
   \<and> (float_of_rat (979 / 10 ^ 323) = Finite (1982 / 2 ^ 1074)
   \<and> request_order_book_snapshot
       \<lparr>int_of_str = (\<lambda>s. None), float_of_str = (\<lambda>s. None), repr_float = (\<lambda>f. []),
        repr_container = (\<lambda>v. []), float_decimal = (\<lambda>x. 979 / 10 ^ 323)\<rparr>
       (\<lambda>u h p. Response 200 (Inr (PDict [(''price'', PFloat (Finite (1982 / 2 ^ 1074)))])))
       \<lparr>src_trading_pairs = [''BNB-USDT''], src_api_key = ''key'', src_chain_id = 56\<rparr>
       ''BNB-USDT''
     = Inr [(''trading_pair'', PStr ''BNB-USDT''),
            (''bids'',
               PList [PList [PFloat (Finite (1981 / 2 ^ 1074)), PFloat (Finite 1)],
                      PList [PFloat (Finite (1980 / 2 ^ 1074)), PFloat (Finite 2)]]),
            (''asks'',
               PList [PList [PFloat (Finite (1983 / 2 ^ 1074)), PFloat (Finite 1)],
                      PList [PFloat (Finite (1983 / 2 ^ 1074)), PFloat (Finite 2)]])]
   \<and> \<not> float_less (Finite (1983 / 2 ^ 1074)) (Finite (1983 / 2 ^ 1074)))
   \<and> (float_of_rat (17967947374935691 * 10 ^ 292) = Finite (9002697905788098 * 2 ^ 971)
   \<and> request_order_book_snapshot
       \<lparr>int_of_str = (\<lambda>s. None), float_of_str = (\<lambda>s. None), repr_float = (\<lambda>f. []),
        repr_container = (\<lambda>v. []), float_decimal = (\<lambda>x. 17967947374935691 * 10 ^ 292)\<rparr>
       (\<lambda>u h p. Response 200
          (Inr (PDict [(''price'', PFloat (Finite (9002697905788098 * 2 ^ 971)))])))
       \<lparr>src_trading_pairs = [''BNB-USDT''], src_api_key = ''key'', src_chain_id = 56\<rparr>
       ''BNB-USDT''
     = Inr [(''trading_pair'', PStr ''BNB-USDT''),
            (''bids'',
               PList [PList [PFloat (Finite (8998196556835204 * 2 ^ 971)), PFloat (Finite 1)],
                      PList [PFloat (Finite (8993695207882310 * 2 ^ 971)), PFloat (Finite 2)]]),
            (''asks'',
               PList [PList [PFloat PInf, PFloat (Finite 1)],
                      PList [PFloat PInf, PFloat (Finite 2)]])]
   \<and> \<not> float_less PInf PInf)"
  by (rule conjI, rule order_fails_least, rule conjI, rule order_fails_subnormal,
      rule order_fails_overflow)

text \<open>
  Claim C2, amended. For every finite mid-price \<open>m\<close> with
  \<open>2001 * 2\<^sup>-\<^sup>1\<^sup>0\<^sup>7\<^sup>4 \<le> m \<le> 0.9995 * 2\<^sup>1\<^sup>0\<^sup>2\<^sup>4\<close> (with \<open>str\<close> printing it as Python documents: a
  decimal of at most 17 significant digits that reads back as \<open>m\<close>), and the fixed ratio
  \<open>0.001\<close>, the book returned by \<open>_request_order_book_snapshot\<close> satisfies
  \<open>bid2 < bestBid < mid < bestAsk < ask2\<close>, and so \<open>bestBid < bestAsk\<close>. The range takes in
  subnormal and normal floats alike, and at its upper end the second ask may be the float
  infinity, above the finite best ask. Below the range the spacing \<open>0.0005 * m\<close> of the
  levels is no more than the spacing \<open>2\<^sup>-\<^sup>1\<^sup>0\<^sup>7\<^sup>4\<close> of the floats; above it the best ask
  \<open>1.0005 * m\<close> overflows.
\<close>

theorem synthetic_book_strictly_ordered:
  assumes price: "get_indicative_price B get self trading_pair = Inr (Some (Finite x))"
    and contract: "repr_contract B x"
    and lo: "2001 * 2 powi (- 1074) \<le> x"
    and hi: "x \<le> 1999 / 2000 * 2 powi 1024"
  shows "\<exists>bid1 bid2 ask1 ask2.
      request_order_book_snapshot B get self trading_pair
        = Inr [(''trading_pair'', PStr trading_pair),
               (''bids'', PList [PList [PFloat bid1, PFloat (Finite 1)],
                                 PList [PFloat bid2, PFloat (Finite 2)]]),
               (''asks'', PList [PList [PFloat ask1, PFloat (Finite 1)],
                                 PList [PFloat ask2, PFloat (Finite 2)]])]
      \<and> float_less bid2 bid1 \<and> float_less bid1 (Finite x) \<and> float_less (Finite x) ask1
      \<and> float_less ask1 ask2 \<and> float_less bid1 ask1"
proof -
  define d where "d = float_decimal B x"
  from contract have fd: "float_of_rat d = Finite x" and hd: "has_digits 17 (float_decimal B x)"
    by (simp_all add: repr_contract_def d_def)
  define U :: rat where "U = 2 powi (- 1074)"
  define Q :: rat where "Q = 2 powi 1024"
  have U: "0 < U" by (simp add: U_def)
  have Uh: "(2 :: rat) powi (- 1075) = U / 2"
    using power_int_add [of "2 :: rat" 1 "- 1075"] by (simp add: U_def)
  have "U \<le> 2 powi 0"
    unfolding U_def by (intro power_int_increasing) simp_all
  then have U1: "U \<le> 1" by simp
  have "(2 :: rat) powi 60 \<le> Q"
    unfolding Q_def by (intro power_int_increasing) simp_all
  then have Q60: "1152921504606846976 \<le> Q" by simp
  have q971: "(2 :: rat) powi 971 = Q / 9007199254740992"
    using power_int_add [of "2 :: rat" 53 971] by (simp add: Q_def)
  from lo have lo': "2001 * U \<le> x" by (simp only: U_def)
  from hi have hi': "x \<le> 1999 / 2000 * Q" by (simp only: Q_def)
  have x: "0 < x" using lo' U by linarith
  have d: "0 < d" using fd x by (rule float_of_rat_sign)
  from float_error [OF d fd]
  have ed: "x - d \<le> U / 2 + d / 10 ^ 15" "d - x \<le> U / 2 + d / 10 ^ 15"
    unfolding Uh by linarith+
  define L0 where "L0 = d - d * (1 / 1000)"
  define L1 where "L1 = d - d * (1 / 1000) / 2"
  define L3 where "L3 = d + d * (1 / 1000) / 2"
  define L4 where "L4 = d + d * (1 / 1000)"
  have pos: "0 < L0" "0 < L1" "0 < L3" "0 < L4"
    using d by (simp_all add: L0_def L1_def L3_def L4_def)
  have g01: "U + (L0 + L1) / 10 ^ 15 < L1 - L0"
    using ed(1) lo' U d unfolding L0_def L1_def by simp
  have g12: "U + (L1 + d) / 10 ^ 15 < d - L1"
    using ed(1) lo' U d unfolding L1_def by simp
  have g23: "U + (d + L3) / 10 ^ 15 < L3 - d"
    using ed(1) lo' U d unfolding L3_def by simp
  have g34: "U + (L3 + L4) / 10 ^ 15 < L4 - L3"
    using ed(1) lo' U d unfolding L3_def L4_def by simp
  have l3: "L3 \<le> Q - Q / 9007199254740992"
    using ed(2) hi' U1 Q60 d unfolding L3_def by simp
  then have up: "L0 \<le> 2 powi 1024 - 2 powi 971" "L1 \<le> 2 powi 1024 - 2 powi 971"
    "L3 \<le> 2 powi 1024 - 2 powi 971"
    using d unfolding q971 Q_def [symmetric] by (simp_all add: L0_def L1_def L3_def)
  obtain y0 where y0: "float_of_rat L0 = Finite y0"
    using float_of_rat_finite_max [OF pos(1) up(1)] by blast
  obtain y1 where y1: "float_of_rat L1 = Finite y1"
    using float_of_rat_finite_max [OF pos(2) up(2)] by blast
  obtain y3 where y3: "float_of_rat L3 = Finite y3"
    using float_of_rat_finite_max [OF pos(3) up(3)] by blast
  have o01: "y0 < y1"
    using pos(1) y0 y1 g01 [unfolded U_def] by (rule float_sep)
  have o12: "y1 < x"
    using pos(2) y1 fd g12 [unfolded U_def] by (rule float_sep)
  have o23: "x < y3"
    using d fd y3 g23 [unfolded U_def] by (rule float_sep)
  have o34: "float_less (Finite y3) (float_of_rat L4)"
  proof -
    from float_of_rat_cases [OF pos(4)]
    consider y4 where "float_of_rat L4 = Finite y4" | "float_of_rat L4 = PInf"
      by blast
    then show ?thesis
    proof cases
      case 1
      have "y3 < y4"
        using pos(3) y3 1 g34 [unfolded U_def] by (rule float_sep)
      with 1 show ?thesis by simp
    next
      case 2
      then show ?thesis by simp
    qed
  qed
  have "request_order_book_snapshot B get self trading_pair
        = Inr [(''trading_pair'', PStr trading_pair),
               (''bids'', PList [PList [PFloat (Finite y1), PFloat (Finite 1)],
                                 PList [PFloat (Finite y0), PFloat (Finite 2)]]),
               (''asks'', PList [PList [PFloat (Finite y3), PFloat (Finite 1)],
                                 PList [PFloat (float_of_rat L4), PFloat (Finite 2)]])]"
    unfolding snapshot_of_finite_price [OF price hd d_def]
      y0 [unfolded L0_def] y1 [unfolded L1_def] y3 [unfolded L3_def] L4_def
    by (rule refl)
  moreover have "float_less (Finite y0) (Finite y1)" "float_less (Finite y1) (Finite x)"
    "float_less (Finite x) (Finite y3)" "float_less (Finite y1) (Finite y3)"
    using o01 o12 o23 by simp_all
  ultimately show ?thesis using o34 by blast
qed

theorem synthetic_book_strictly_ordered_witness:
  "get_indicative_price
       \<lparr>int_of_str = (\<lambda>s. None), float_of_str = (\<lambda>s. None), repr_float = (\<lambda>f. []),
        repr_container = (\<lambda>v. []), float_decimal = (\<lambda>x. x)\<rparr>
       (\<lambda>u h p. Response 200 (Inr (PDict [(''price'', PFloat (Finite 600))])))
       \<lparr>src_trading_pairs = [''BNB-USDT''], src_api_key = ''key'', src_chain_id = 56\<rparr>
       ''BNB-USDT'' = Inr (Some (Finite 600))
   \<and> repr_contract
       \<lparr>int_of_str = (\<lambda>s. None), float_of_str = (\<lambda>s. None), repr_float = (\<lambda>f. []),
        repr_container = (\<lambda>v. []), float_decimal = (\<lambda>x. x)\<rparr> 600
   \<and> 2001 * 2 powi (- 1074) \<le> (600 :: rat) \<and> (600 :: rat) \<le> 1999 / 2000 * 2 powi 1024
   \<and> (\<exists>bid1 bid2 ask1 ask2.
      request_order_book_snapshot
        \<lparr>int_of_str = (\<lambda>s. None), float_of_str = (\<lambda>s. None), repr_float = (\<lambda>f. []),
         repr_container = (\<lambda>v. []), float_decimal = (\<lambda>x. x)\<rparr>
        (\<lambda>u h p. Response 200 (Inr (PDict [(''price'', PFloat (Finite 600))])))
        \<lparr>src_trading_pairs = [''BNB-USDT''], src_api_key = ''key'', src_chain_id = 56\<rparr>
        ''BNB-USDT''
        = Inr [(''trading_pair'', PStr ''BNB-USDT''),
               (''bids'', PList [PList [PFloat bid1, PFloat (Finite 1)],
                                 PList [PFloat bid2, PFloat (Finite 2)]]),
               (''asks'', PList [PList [PFloat ask1, PFloat (Finite 1)],
                                 PList [PFloat ask2, PFloat (Finite 2)]])]
      \<and> float_less bid2 bid1 \<and> float_less bid1 (Finite 600) \<and> float_less (Finite 600) ask1
      \<and> float_less ask1 ask2 \<and> float_less bid1 ask1)"
proof -
  define B where "B = \<lparr>int_of_str = (\<lambda>s. None), float_of_str = (\<lambda>s. None),
        repr_float = (\<lambda>f. []), repr_container = (\<lambda>v. []), float_decimal = (\<lambda>x :: rat. x)\<rparr>"
  define S where "S = \<lparr>src_trading_pairs = [''BNB-USDT''], src_api_key = ''key'',
        src_chain_id = 56\<rparr>"
  have g: "get_indicative_price B
       (\<lambda>u h p. Response 200 (Inr (PDict [(''price'', PFloat (Finite 600))]))) S ''BNB-USDT''
       = Inr (Some (Finite 600))"
    by (simp add: get_indicative_price_def Let_def price_of_response_def except_Exception_def
          dict_get_def)
  have c: "repr_contract B 600"
    by (simp add: repr_contract_def B_def float_of_rat_600 has_digits_600)
  define U :: rat where "U = 2 powi (- 1074)"
  define Q :: rat where "Q = 2 powi 1024"
  have p11: "(2 :: rat) powi (- 11) = 1 / 2048"
    by (simp add: power_int_def power_divide)
  have "U \<le> 2 powi (- 11)" "2 powi 10 \<le> Q"
    unfolding U_def Q_def by (rule power_int_increasing, simp, simp)+
  then have "U \<le> 1 / 2048" "1024 \<le> Q"
    unfolding p11 by simp_all
  then have "2001 * U \<le> 600" "600 \<le> 1999 / 2000 * Q"
    by linarith+
  then have lo: "2001 * 2 powi (- 1074) \<le> (600 :: rat)"
    and hi: "(600 :: rat) \<le> 1999 / 2000 * 2 powi 1024"
    by (simp_all only: U_def Q_def)
  from g c lo hi synthetic_book_strictly_ordered [OF g c lo hi]
  show ?thesis
    unfolding B_def S_def by blast
qed

section \<open>The snapshot message: properties\<close>

lemma map_of_dict_merge: "map_of (dict_merge a b) = map_of a ++ map_of (rev b)"
proof (induction b arbitrary: a)
  case Nil
  show ?case by (simp add: dict_merge_def)
next
  case (Cons kv b)
  obtain k v where kv: "kv = (k, v)" by (cases kv)
  have "dict_merge a (kv # b) = dict_merge (AList.update k v a) b"
    by (simp add: dict_merge_def kv)
  moreover have "(map_of a)(k \<mapsto> v) = map_of a ++ [k \<mapsto> v]"
    by simp
  ultimately show ?case
    using Cons.IH [of "AList.update k v a"]
    by (simp only: kv update_conv' rev.simps map_of_append map_add_assoc map_of.simps
          fst_conv snd_conv map_add_empty)
qed

lemma map_of_rev_distinct: "distinct (map fst xs) \<Longrightarrow> map_of (rev xs) = map_of xs"
proof (induction xs)
  case Nil
  show ?case by simp
next
  case (Cons kv xs)
  obtain k v where kv: "kv = (k, v)" by (cases kv)
  from Cons.prems have "k \<notin> fst ` set xs" and "distinct (map fst xs)"
    by (simp_all add: kv)
  then have "map_of xs k = None" and ih: "map_of (rev xs) = map_of xs"
    using Cons.IH by (simp_all add: map_of_eq_None_iff)
  then show ?case
    by (auto simp: kv map_add_def fun_eq_iff split: option.splits)
qed

lemma dict_get_default_merge:
  assumes "distinct (map fst metadata)"
  shows "dict_get_default (dict_merge m metadata) k dflt = overriding_get metadata m k dflt"
  by (simp add: dict_get_default_def overriding_get_def map_of_dict_merge
        map_of_rev_distinct [OF assms] map_add_def split: option.splits)

text \<open>
  Claim C10. For every store, every \<open>msg\<close> dictionary in it, every timestamp and every
  non-empty \<open>metadata\<close> dictionary, \<open>snapshot_message_from_exchange\<close> leaves the caller's
  \<open>msg\<close> dictionary (and every other dictionary of the store) unchanged; and in the content
  it produces, which it does wherever \<open>int(timestamp)\<close> is defined, each field is the
  entry of \<open>metadata\<close> when it has one, else the entry of \<open>msg\<close>, else the default:
  \<open>""\<close> for \<open>trading_pair\<close>, \<open>int(timestamp)\<close> for \<open>update_id\<close>, \<open>[]\<close> for \<open>bids\<close> and \<open>asks\<close>.
\<close>

theorem snapshot_message_frame:
  assumes "msg < length s" and "metadata \<noteq> []" and "distinct (map fst metadata)"
  shows "\<exists>r s'.
      snapshot_message_from_exchange B hb_available s msg timestamp (Some metadata) = (r, s')
      \<and> (\<forall>a. a < length s \<longrightarrow> s' ! a = s ! a)
      \<and> s' ! msg = s ! msg
      \<and> (\<forall>ts. py_int B (PFloat timestamp) = Inr ts \<longrightarrow>
            (\<exists>content.
               r = Inr (if hb_available then OrderBookMessage SNAPSHOT content timestamp
                        else PlainContent content)
               \<and> content =
                   [(''trading_pair'', overriding_get metadata (s ! msg) ''trading_pair'' (PStr [])),
                    (''update_id'', overriding_get metadata (s ! msg) ''update_id'' (PInt ts)),
                    (''bids'', overriding_get metadata (s ! msg) ''bids'' (PList [])),
                    (''asks'', overriding_get metadata (s ! msg) ''asks'' (PList []))]))
      \<and> (\<forall>e. py_int B (PFloat timestamp) = Inl e \<longrightarrow> r = Inl e)"
proof -
  define s' where "s' = s @ [dict_merge (s ! msg) metadata]"
  have frame: "\<forall>a. a < length s \<longrightarrow> s' ! a = s ! a"
    by (simp add: s'_def nth_append)
  have new: "s' ! length s = dict_merge (s ! msg) metadata"
    by (simp add: s'_def)
  note dg = dict_get_default_merge [OF assms(3)]
  show ?thesis
  proof (cases "py_int B (PFloat timestamp)")
    case (Inl e)
    then have "snapshot_message_from_exchange B hb_available s msg timestamp (Some metadata)
        = (Inl e, s')"
      using assms(2) by (simp add: snapshot_message_from_exchange_def s'_def)
    with frame assms(1) Inl show ?thesis by simp
  next
    case (Inr ts)
    then have "snapshot_message_from_exchange B hb_available s msg timestamp (Some metadata)
        = (Inr (if hb_available
                then OrderBookMessage SNAPSHOT
                  [(''trading_pair'', overriding_get metadata (s ! msg) ''trading_pair'' (PStr [])),
                   (''update_id'', overriding_get metadata (s ! msg) ''update_id'' (PInt ts)),
                   (''bids'', overriding_get metadata (s ! msg) ''bids'' (PList [])),
                   (''asks'', overriding_get metadata (s ! msg) ''asks'' (PList []))] timestamp
                else PlainContent
                  [(''trading_pair'', overriding_get metadata (s ! msg) ''trading_pair'' (PStr [])),
                   (''update_id'', overriding_get metadata (s ! msg) ''update_id'' (PInt ts)),
                   (''bids'', overriding_get metadata (s ! msg) ''bids'' (PList [])),
                   (''asks'', overriding_get metadata (s ! msg) ''asks'' (PList []))]), s')"
      using assms(2)
      by (simp add: snapshot_message_from_exchange_def s'_def [symmetric] new dg Let_def)
    with frame assms(1) Inr show ?thesis by simp
  qed
qed

theorem snapshot_message_frame_witness:
  "\<forall>B. (0 :: nat) < length [[(''trading_pair'', PStr ''OLD''), (''bids'', PList [PInt 1])]]
     \<and> [(''trading_pair'', PStr ''BNB-USDT'')] \<noteq> []
     \<and> distinct (map fst [(''trading_pair'', PStr ''BNB-USDT'')])
     \<and> snapshot_message_from_exchange B False
          [[(''trading_pair'', PStr ''OLD''), (''bids'', PList [PInt 1])]] 0 (Finite (3401 / 2))
          (Some [(''trading_pair'', PStr ''BNB-USDT'')])
        = (Inr (PlainContent
                  [(''trading_pair'', PStr ''BNB-USDT''), (''update_id'', PInt 1700),
                   (''bids'', PList [PInt 1]), (''asks'', PList [])]),
           [[(''trading_pair'', PStr ''OLD''), (''bids'', PList [PInt 1])],
            [(''trading_pair'', PStr ''BNB-USDT''), (''bids'', PList [PInt 1])]])"
proof
  fix B :: builtins
  have a: "(0 :: nat) < length [[(''trading_pair'', PStr ''OLD''), (''bids'', PList [PInt 1])]]"
    by simp
  have b: "[(''trading_pair'', PStr ''BNB-USDT'')] \<noteq> []"
    by simp
  have c: "distinct (map fst [(''trading_pair'', PStr ''BNB-USDT'')])"
    by simp
  have fl: "\<lfloor>3401 / 2 :: rat\<rfloor> = 1700"
    by (simp add: floor_eq_iff)
  have i: "py_int B (PFloat (Finite (3401 / 2))) = Inr 1700"
    by (simp add: trunc_rat_def fl)
  have ev: "snapshot_message_from_exchange B False
          [[(''trading_pair'', PStr ''OLD''), (''bids'', PList [PInt 1])]] 0 (Finite (3401 / 2))
          (Some [(''trading_pair'', PStr ''BNB-USDT'')])
      = (Inr (PlainContent
                  [(''trading_pair'', PStr ''BNB-USDT''), (''update_id'', PInt 1700),
                   (''bids'', PList [PInt 1]), (''asks'', PList [])]),
         [[(''trading_pair'', PStr ''OLD''), (''bids'', PList [PInt 1])],
          [(''trading_pair'', PStr ''BNB-USDT''), (''bids'', PList [PInt 1])]])"
    by (simp add: snapshot_message_from_exchange_def dict_merge_def dict_get_default_def Let_def
          trunc_rat_def fl)
  note t = snapshot_message_frame [OF a b c, of B False "Finite (3401 / 2)", unfolded ev]
  then have "[[(''trading_pair'', PStr ''OLD''), (''bids'', PList [PInt 1])],
          [(''trading_pair'', PStr ''BNB-USDT''), (''bids'', PList [PInt 1])]] ! 0
      = [[(''trading_pair'', PStr ''OLD''), (''bids'', PList [PInt 1])]] ! 0"
    by (elim exE conjE) simp
  with a b c ev
  show "(0 :: nat) < length [[(''trading_pair'', PStr ''OLD''), (''bids'', PList [PInt 1])]]
     \<and> [(''trading_pair'', PStr ''BNB-USDT'')] \<noteq> []
     \<and> distinct (map fst [(''trading_pair'', PStr ''BNB-USDT'')])
     \<and> snapshot_message_from_exchange B False
          [[(''trading_pair'', PStr ''OLD''), (''bids'', PList [PInt 1])]] 0 (Finite (3401 / 2))
          (Some [(''trading_pair'', PStr ''BNB-USDT'')])
        = (Inr (PlainContent
                  [(''trading_pair'', PStr ''BNB-USDT''), (''update_id'', PInt 1700),
                   (''bids'', PList [PInt 1]), (''asks'', PList [])]),
           [[(''trading_pair'', PStr ''OLD''), (''bids'', PList [PInt 1])],
            [(''trading_pair'', PStr ''BNB-USDT''), (''bids'', PList [PInt 1])]])"
    by simp
qed

section \<open>The polling loop: properties\<close>

lemma bind_exn_not_raising:
  assumes "r \<noteq> Inl e" and "\<And>v. r = Inr v \<Longrightarrow> f v \<noteq> Inl e"
  shows "bind_exn r f \<noteq> Inl e"
  using assms by (cases r) (simp_all add: bind_exn_def)

lemma dec_mul_not_cancelled: "dec_mul a b \<noteq> Inl CancelledError"
  by (cases a; cases b) simp_all

lemma dec_div_not_cancelled: "dec_div a b \<noteq> Inl CancelledError"
  by (cases a; cases b) simp_all

lemma dec_add_not_cancelled: "dec_add a b \<noteq> Inl CancelledError"
  by (cases a; cases b) simp_all

lemma dec_sub_not_cancelled: "dec_sub a b \<noteq> Inl CancelledError"
  by (simp add: dec_sub_def dec_add_not_cancelled)

lemma snapshot_cancelled:
  assumes "request_order_book_snapshot B get self pair = Inl CancelledError"
  shows "get_indicative_price B get self pair = Inl CancelledError"
proof (rule ccontr)
  assume n: "get_indicative_price B get self pair \<noteq> Inl CancelledError"
  have "request_order_book_snapshot B get self pair \<noteq> Inl CancelledError"
    unfolding request_order_book_snapshot_def
  proof (rule bind_exn_not_raising [OF n], goal_cases)
    case (1 mid)
    show ?case
    proof (cases mid)
      case None
      then show ?thesis by simp
    next
      case (Some mid_f)
      show ?thesis
        unfolding Some option.case Let_def
        by (intro bind_exn_not_raising dec_mul_not_cancelled dec_div_not_cancelled
              dec_sub_not_cancelled dec_add_not_cancelled) simp
    qed
  qed
  with assms show False by simp
qed

lemma price_cancelled:
  assumes "get_indicative_price B get self pair = Inl CancelledError"
  shows "\<exists>u h p. cancelled (get u h p)"
proof (rule ccontr)
  assume "\<not> (\<exists>u h p. cancelled (get u h p))"
  then have nc: "\<And>u h p. \<not> cancelled (get u h p)" by blast
  have ex: "except_Exception None (price_of_response B outcome) \<noteq> Inl CancelledError"
    if "\<not> cancelled outcome" for outcome
  proof (cases "price_of_response B outcome")
    case (Inl e)
    then have "is_Exception e" using that by (rule price_of_response_cancel)
    with Inl show ?thesis by (simp add: except_Exception_def)
  next
    case (Inr r)
    then show ?thesis by (simp add: except_Exception_def)
  qed
  have "get_indicative_price B get self pair \<noteq> Inl CancelledError"
    unfolding get_indicative_price_def Let_def
    by (cases "unpack2 (if CHR ''-'' \<in> set pair then split_on (CHR ''-'') pair
                        else split_on (CHR ''/'') pair)")
       (auto simp: ex nc elim: unpack2.elims)
  with assms show False by simp
qed

lemma message_not_cancelled:
  "fst (snapshot_message_from_exchange B hb_available s msg timestamp metadata)
     \<noteq> Inl CancelledError"
  by (cases timestamp)
     (simp_all add: snapshot_message_from_exchange_def Let_def split_beta)

lemma poll_pair_cancelled:
  assumes "poll_pair B hb_available self env pair out = Inl CancelledError"
  shows "\<exists>u h p. cancelled (http env u h p)"
proof (rule ccontr)
  assume n: "\<not> (\<exists>u h p. cancelled (http env u h p))"
  then have "request_order_book_snapshot B (http env) self pair \<noteq> Inl CancelledError"
    using price_cancelled snapshot_cancelled by blast
  then have "poll_pair B hb_available self env pair out \<noteq> Inl CancelledError"
    unfolding poll_pair_def
    by (intro bind_exn_not_raising message_not_cancelled) (simp_all add: put_nowait_def)
  with assms show False by simp
qed

lemma step_terminated: "terminated st \<Longrightarrow> step B hb_available self env st = None"
  by (cases "control st") (simp_all add: step_def terminated_def)

lemma step_none: "step B hb_available self env st = None \<Longrightarrow> terminated st"
  by (cases "control st")
     (auto simp: step_def terminated_def split: list.splits sum.splits if_splits)

lemma run_terminated: "terminated st \<Longrightarrow> run B hb_available self envs st = st"
  by (cases envs) (simp_all add: step_terminated)

lemma run_append:
  "run B hb_available self (envs @ envs') st
     = run B hb_available self envs' (run B hb_available self envs st)"
proof (induction envs arbitrary: st)
  case Nil
  show ?case by simp
next
  case (Cons env envs)
  show ?case
  proof (cases "step B hb_available self env st")
    case None
    then have "terminated st" by (rule step_none)
    then have "run B hb_available self envs' st = st"
      by (rule run_terminated)
    with None show ?thesis
      by simp
  next
    case (Some st')
    then show ?thesis
      using Cons.IH [of st'] by simp
  qed
qed

lemma step_caught:
  assumes "control st = Polling (pair # rest)"
    and "poll_pair B hb_available self env pair (emitted st) = Inl e"
    and "e \<noteq> CancelledError"
  shows "step B hb_available self env st = Some (st\<lparr>control := Recovering\<rparr>)"
  using assms by (simp add: step_def is_Exception_def)

lemma step_next_cycle:
  assumes "control st = Recovering \<or> control st = Polling []" and "sleep env = Woke"
  shows "step B hb_available self env st
           = Some (st\<lparr>control := Polling (src_trading_pairs self)\<rparr>)"
  using assms by (auto simp: step_def after_sleep_def)

lemma step_progress:
  assumes "\<not> terminated st" and "\<not> cancellation_delivered env st"
  shows "\<exists>st'. step B hb_available self env st = Some st' \<and> \<not> terminated st'"
proof (cases "control st")
  case (Polling pairs)
  show ?thesis
  proof (cases pairs)
    case Nil
    with Polling assms(2) have "sleep env = Woke"
      by (cases "sleep env") (simp_all add: cancellation_delivered_def)
    with Polling Nil show ?thesis
      by (simp add: step_def after_sleep_def terminated_def)
  next
    case (Cons pair rest)
    with Polling assms(2) have "\<not> (\<exists>u h p. cancelled (http env u h p))"
      by (simp add: cancellation_delivered_def)
    then have "poll_pair B hb_available self env pair (emitted st) \<noteq> Inl CancelledError"
      using poll_pair_cancelled by blast
    with Polling Cons show ?thesis
      by (cases "poll_pair B hb_available self env pair (emitted st)")
         (simp_all add: step_def is_Exception_def terminated_def)
  qed
next
  case Recovering
  with assms(2) have "sleep env = Woke"
    by (cases "sleep env") (simp_all add: cancellation_delivered_def)
  with Recovering show ?thesis
    by (simp add: step_def after_sleep_def terminated_def)
next
  case (Terminated e)
  with assms(1) show ?thesis by (simp add: terminated_def)
qed

lemma step_terminates:
  assumes "step B hb_available self env st = Some st'" and "terminated st'"
  shows "control st' = Terminated CancelledError \<and> cancellation_delivered env st
       \<and> emitted st' = emitted st"
proof (cases "control st")
  case (Polling pairs)
  show ?thesis
  proof (cases pairs)
    case Nil
    with Polling assms show ?thesis
      by (cases "sleep env") (auto simp: step_def after_sleep_def cancellation_delivered_def terminated_def)
  next
    case (Cons pair rest)
    show ?thesis
    proof (cases "poll_pair B hb_available self env pair (emitted st)")
      case (Inr out)
      with Polling Cons assms show ?thesis
        by (auto simp: step_def terminated_def)
    next
      case (Inl e)
      with Polling Cons assms have e: "e = CancelledError"
        by (auto simp: step_def is_Exception_def terminated_def split: if_splits)
      with Inl have "\<exists>u h p. cancelled (http env u h p)"
        using poll_pair_cancelled by blast
      with Polling Cons Inl e assms show ?thesis
        by (auto simp: step_def cancellation_delivered_def terminated_def)
    qed
  qed
next
  case Recovering
  with assms show ?thesis
    by (cases "sleep env") (auto simp: step_def after_sleep_def cancellation_delivered_def terminated_def)
next
  case (Terminated e)
  with assms show ?thesis by (simp add: step_def)
qed

lemma no_cancellation_not_delivered:
  "no_cancellation env \<Longrightarrow> \<not> cancellation_delivered env st"
  by (auto simp: no_cancellation_def cancellation_delivered_def
           split: control.splits list.splits)

lemma run_never_terminates:
  assumes "\<not> terminated st" and "list_all no_cancellation envs"
  shows "\<not> terminated (run B hb_available self envs st)"
  using assms
proof (induction envs arbitrary: st)
  case Nil
  then show ?case by simp
next
  case (Cons env envs)
  from Cons.prems have "\<not> cancellation_delivered env st"
    by (simp add: no_cancellation_not_delivered)
  with Cons.prems(1) obtain st' where "step B hb_available self env st = Some st'"
    and "\<not> terminated st'"
    using step_progress by blast
  with Cons show ?case by simp
qed

lemma price_request_cancelled:
  assumes "unpack2 (if CHR ''-'' \<in> set pair then split_on (CHR ''-'') pair
                    else split_on (CHR ''/'') pair) = Inr (base, quote)"
    and "\<forall>u h p. price_of_response B (get u h p) = Inl CancelledError"
  shows "get_indicative_price B get self pair = Inl CancelledError"
  using assms
  by (simp add: get_indicative_price_def Let_def except_Exception_def is_Exception_def)

lemma poll_pair_observed:
  assumes "get_indicative_price B (http env) self pair = Inl CancelledError"
  shows "poll_pair B hb_available self env pair out = Inl CancelledError"
  using assms by (simp add: poll_pair_def request_order_book_snapshot_def bind_exn_def)

lemma step_observed:
  assumes "cancellation_observed B self env st"
  shows "step B hb_available self env st = Some (st\<lparr>control := Terminated CancelledError\<rparr>)"
proof (cases "control st")
  case (Polling pairs)
  show ?thesis
  proof (cases pairs)
    case Nil
    with Polling assms show ?thesis
      by (simp add: cancellation_observed_def step_def after_sleep_def)
  next
    case (Cons pair rest)
    with Polling assms
    have "poll_pair B hb_available self env pair (emitted st) = Inl CancelledError"
      by (simp add: cancellation_observed_def poll_pair_observed)
    with Polling Cons show ?thesis
      by (simp add: step_def)
  qed
next
  case Recovering
  with assms show ?thesis
    by (simp add: cancellation_observed_def step_def after_sleep_def)
next
  case (Terminated e)
  with assms show ?thesis
    by (simp add: cancellation_observed_def)
qed

lemma observed_delivered:
  assumes "cancellation_observed B self env st"
  shows "cancellation_delivered env st"
proof (cases "control st")
  case (Polling pairs)
  show ?thesis
  proof (cases pairs)
    case Nil
    with Polling assms show ?thesis
      by (simp add: cancellation_observed_def cancellation_delivered_def)
  next
    case (Cons pair rest)
    with Polling assms
    have "get_indicative_price B (http env) self pair = Inl CancelledError"
      by (simp add: cancellation_observed_def)
    then have "\<exists>u h p. cancelled (http env u h p)"
      by (rule price_cancelled)
    with Polling Cons show ?thesis
      by (simp add: cancellation_delivered_def)
  qed
next
  case Recovering
  with assms show ?thesis
    by (simp add: cancellation_observed_def cancellation_delivered_def)
next
  case (Terminated e)
  with assms show ?thesis
    by (simp add: cancellation_observed_def)
qed

lemma run_observed:
  assumes "cancellation_observed B self env (run B hb_available self envs st)"
  shows "run B hb_available self (envs @ env # envs') st
           = (run B hb_available self envs st)\<lparr>control := Terminated CancelledError\<rparr>"
proof -
  define st1 where "st1 = run B hb_available self envs st"
  from assms have "step B hb_available self env st1
                     = Some (st1\<lparr>control := Terminated CancelledError\<rparr>)"
    unfolding st1_def by (rule step_observed)
  moreover have "terminated (st1\<lparr>control := Terminated CancelledError\<rparr>)"
    by (simp add: terminated_def)
  ultimately have "run B hb_available self (env # envs') st1
                     = st1\<lparr>control := Terminated CancelledError\<rparr>"
    by (simp add: run_terminated)
  then show ?thesis
    by (simp add: run_append st1_def)
qed

text \<open>
  Claim C6. In the transition system of \<open>listen_for_order_book_snapshots\<close>: an exception
  other than the cancellation raised while a pair is polled is caught, the poller goes to
  the handler's sleep, and when that sleep completes the next cycle starts with all pairs;
  a step during which no cancellation is delivered never ends the poller, so a run without
  cancellation never terminates; a step that ends the poller does so with the
  cancellation, which was delivered during that step, and emits nothing; once the
  poller has ended no further step exists, so no further message is emitted whatever
  follows. Conversely a cancellation raised at the suspension point of a step, by the
  request of the pair being polled or by either sleep, ends the poller in that step with
  nothing emitted, and the run stays in that state whatever environments follow: after
  the cancellation has been observed no further snapshot is emitted. A request that is
  cancelled for a pair of two tokens, and a cancelled sleep, are such steps.
\<close>

theorem polling_loop_failure_isolation:
  "(\<forall>env st pair rest e.
       control st = Polling (pair # rest)
       \<and> poll_pair B hb_available self env pair (emitted st) = Inl e \<and> e \<noteq> CancelledError
       \<longrightarrow> step B hb_available self env st = Some (st\<lparr>control := Recovering\<rparr>))
   \<and> (\<forall>env st. (control st = Recovering \<or> control st = Polling []) \<and> sleep env = Woke
       \<longrightarrow> step B hb_available self env st
             = Some (st\<lparr>control := Polling (src_trading_pairs self)\<rparr>))
   \<and> (\<forall>env st. \<not> terminated st \<and> \<not> cancellation_delivered env st
       \<longrightarrow> (\<exists>st'. step B hb_available self env st = Some st' \<and> \<not> terminated st'))
   \<and> (\<forall>envs st. \<not> terminated st \<and> list_all no_cancellation envs
       \<longrightarrow> \<not> terminated (run B hb_available self envs st))
   \<and> (\<forall>env st st'. step B hb_available self env st = Some st' \<and> terminated st'
       \<longrightarrow> control st' = Terminated CancelledError \<and> cancellation_delivered env st
           \<and> emitted st' = emitted st)
   \<and> (\<forall>env st. terminated st \<longrightarrow> step B hb_available self env st = None)
   \<and> (\<forall>envs envs' st. terminated (run B hb_available self envs st)
       \<longrightarrow> emitted (run B hb_available self (envs @ envs') st)
             = emitted (run B hb_available self envs st))
   \<and> (\<forall>env st. cancellation_observed B self env st
       \<longrightarrow> step B hb_available self env st = Some (st\<lparr>control := Terminated CancelledError\<rparr>)
           \<and> cancellation_delivered env st)
   \<and> (\<forall>envs env envs' st.
       cancellation_observed B self env (run B hb_available self envs st)
       \<longrightarrow> run B hb_available self (envs @ env # envs') st
             = (run B hb_available self envs st)\<lparr>control := Terminated CancelledError\<rparr>
           \<and> emitted (run B hb_available self (envs @ env # envs') st)
             = emitted (run B hb_available self envs st))
   \<and> (\<forall>env st. (control st = Recovering \<or> control st = Polling [])
         \<and> sleep env = SleepCancelled
       \<longrightarrow> step B hb_available self env st = Some (st\<lparr>control := Terminated CancelledError\<rparr>))
   \<and> (\<forall>env st pair rest base quote.
       control st = Polling (pair # rest)
       \<and> unpack2 (if CHR ''-'' \<in> set pair then split_on (CHR ''-'') pair
                    else split_on (CHR ''/'') pair) = Inr (base, quote)
       \<and> (\<forall>u h p. price_of_response B (http env u h p) = Inl CancelledError)
       \<longrightarrow> step B hb_available self env st = Some (st\<lparr>control := Terminated CancelledError\<rparr>))"
proof (intro conjI allI impI)
  fix env :: environment and st :: poller and pair rest e
  assume "control st = Polling (pair # rest)
       \<and> poll_pair B hb_available self env pair (emitted st) = Inl e \<and> e \<noteq> CancelledError"
  then show "step B hb_available self env st = Some (st\<lparr>control := Recovering\<rparr>)"
    using step_caught by blast
next
  fix env :: environment and st :: poller
  assume "(control st = Recovering \<or> control st = Polling []) \<and> sleep env = Woke"
  then show "step B hb_available self env st
             = Some (st\<lparr>control := Polling (src_trading_pairs self)\<rparr>)"
    using step_next_cycle by blast
next
  fix env :: environment and st :: poller
  assume "\<not> terminated st \<and> \<not> cancellation_delivered env st"
  then show "\<exists>st'. step B hb_available self env st = Some st' \<and> \<not> terminated st'"
    using step_progress by blast
next
  fix envs :: "environment list" and st :: poller
  assume "\<not> terminated st \<and> list_all no_cancellation envs"
  then show "\<not> terminated (run B hb_available self envs st)"
    using run_never_terminates by blast
next
  fix env :: environment and st st' :: poller
  assume a: "step B hb_available self env st = Some st' \<and> terminated st'"
  then show "control st' = Terminated CancelledError"
    and "cancellation_delivered env st" and "emitted st' = emitted st"
    using step_terminates [of B hb_available self env st st'] by simp_all
next
  fix env :: environment and st :: poller
  assume "terminated st"
  then show "step B hb_available self env st = None"
    by (rule step_terminated)
next
  fix envs envs' :: "environment list" and st :: poller
  assume "terminated (run B hb_available self envs st)"
  then show "emitted (run B hb_available self (envs @ envs') st)
             = emitted (run B hb_available self envs st)"
    by (simp add: run_append run_terminated)
next
  fix env :: environment and st :: poller
  assume a: "cancellation_observed B self env st"
  then show "step B hb_available self env st = Some (st\<lparr>control := Terminated CancelledError\<rparr>)"
    by (rule step_observed)
  from a show "cancellation_delivered env st"
    by (rule observed_delivered)
next
  fix envs envs' :: "environment list" and env :: environment and st :: poller
  assume a: "cancellation_observed B self env (run B hb_available self envs st)"
  then show r: "run B hb_available self (envs @ env # envs') st
             = (run B hb_available self envs st)\<lparr>control := Terminated CancelledError\<rparr>"
    by (rule run_observed)
  show "emitted (run B hb_available self (envs @ env # envs') st)
             = emitted (run B hb_available self envs st)"
    by (simp add: r)
next
  fix env :: environment and st :: poller
  assume "(control st = Recovering \<or> control st = Polling []) \<and> sleep env = SleepCancelled"
  then have "cancellation_observed B self env st"
    by (auto simp: cancellation_observed_def)
  then show "step B hb_available self env st = Some (st\<lparr>control := Terminated CancelledError\<rparr>)"
    by (rule step_observed)
next
  fix env :: environment and st :: poller and pair rest base quote
  assume a: "control st = Polling (pair # rest)
       \<and> unpack2 (if CHR ''-'' \<in> set pair then split_on (CHR ''-'') pair
                    else split_on (CHR ''/'') pair) = Inr (base, quote)
       \<and> (\<forall>u h p. price_of_response B (http env u h p) = Inl CancelledError)"
  then have "get_indicative_price B (http env) self pair = Inl CancelledError"
    using price_request_cancelled [of pair base quote B "http env" self] by blast
  with a have "cancellation_observed B self env st"
    by (simp add: cancellation_observed_def)
  then show "step B hb_available self env st = Some (st\<lparr>control := Terminated CancelledError\<rparr>)"
    by (rule step_observed)
qed

theorem polling_loop_failure_isolation_witness:
  "\<forall>B.
     poll_pair B False
        \<lparr>src_trading_pairs = [''BNB-USDT'', ''BNBUSDT''], src_api_key = ''key'', src_chain_id = 56\<rparr>
        \<lparr>http = (\<lambda>u h p. Response 200 (Inr (PDict []))), now = Finite 1700,
         queue_full = False, sleep = Woke\<rparr>
        ''BNBUSDT'' [] = Inl BuiltinValueError
     \<and> step B False
        \<lparr>src_trading_pairs = [''BNB-USDT'', ''BNBUSDT''], src_api_key = ''key'', src_chain_id = 56\<rparr>
        \<lparr>http = (\<lambda>u h p. Response 200 (Inr (PDict []))), now = Finite 1700,
         queue_full = False, sleep = Woke\<rparr>
        \<lparr>control = Polling [''BNBUSDT''], emitted = []\<rparr>
       = Some \<lparr>control = Recovering, emitted = []\<rparr>
     \<and> step B False
        \<lparr>src_trading_pairs = [''BNB-USDT'', ''BNBUSDT''], src_api_key = ''key'', src_chain_id = 56\<rparr>
        \<lparr>http = (\<lambda>u h p. Response 200 (Inr (PDict []))), now = Finite 1700,
         queue_full = False, sleep = Woke\<rparr>
        \<lparr>control = Recovering, emitted = []\<rparr>
       = Some \<lparr>control = Polling [''BNB-USDT'', ''BNBUSDT''], emitted = []\<rparr>
     \<and> step B False
        \<lparr>src_trading_pairs = [''BNB-USDT'', ''BNBUSDT''], src_api_key = ''key'', src_chain_id = 56\<rparr>
        \<lparr>http = (\<lambda>u h p. Raised CancelledError), now = Finite 1700,
         queue_full = False, sleep = Woke\<rparr>
        \<lparr>control = Polling [''BNB-USDT'', ''BNBUSDT''], emitted = []\<rparr>
       = Some \<lparr>control = Terminated CancelledError, emitted = []\<rparr>
     \<and> cancellation_delivered
        \<lparr>http = (\<lambda>u h p. Raised CancelledError), now = Finite 1700,
         queue_full = False, sleep = Woke\<rparr>
        \<lparr>control = Polling [''BNB-USDT'', ''BNBUSDT''], emitted = []\<rparr>
     \<and> step B False
        \<lparr>src_trading_pairs = [''BNB-USDT'', ''BNBUSDT''], src_api_key = ''key'', src_chain_id = 56\<rparr>
        \<lparr>http = (\<lambda>u h p. Response 200 (Inr (PDict []))), now = Finite 1700,
         queue_full = False, sleep = Woke\<rparr>
        \<lparr>control = Terminated CancelledError, emitted = []\<rparr>
       = None
     \<and> step B False
        \<lparr>src_trading_pairs = [''BNB-USDT'', ''BNBUSDT''], src_api_key = ''key'', src_chain_id = 56\<rparr>
        \<lparr>http = (\<lambda>u h p. Response 200 (Inr (PDict []))), now = Finite 1700,
         queue_full = False, sleep = SleepCancelled\<rparr>
        \<lparr>control = Recovering, emitted = []\<rparr>
       = Some \<lparr>control = Terminated CancelledError, emitted = []\<rparr>
     \<and> step B False
        \<lparr>src_trading_pairs = [''BNB-USDT'', ''BNBUSDT''], src_api_key = ''key'', src_chain_id = 56\<rparr>
        \<lparr>http = (\<lambda>u h p. Response 200 (Inr (PDict []))), now = Finite 1700,
         queue_full = False, sleep = SleepCancelled\<rparr>
        \<lparr>control = Polling [], emitted = []\<rparr>
       = Some \<lparr>control = Terminated CancelledError, emitted = []\<rparr>
     \<and> step B False
        \<lparr>src_trading_pairs = [''BNB-USDT'', ''BNBUSDT''], src_api_key = ''key'', src_chain_id = 56\<rparr>
        \<lparr>http = (\<lambda>u h p. Response 200 (Inl CancelledError)), now = Finite 1700,
         queue_full = False, sleep = Woke\<rparr>
        \<lparr>control = Polling [''BNB-USDT'', ''BNBUSDT''], emitted = []\<rparr>
       = Some \<lparr>control = Terminated CancelledError, emitted = []\<rparr>
     \<and> run B False
        \<lparr>src_trading_pairs = [''BNB-USDT'', ''BNBUSDT''], src_api_key = ''key'', src_chain_id = 56\<rparr>
        [\<lparr>http = (\<lambda>u h p. Raised CancelledError), now = Finite 1700,
          queue_full = False, sleep = Woke\<rparr>,
         \<lparr>http = (\<lambda>u h p. Response 200 (Inr (PDict []))), now = Finite 1700,
          queue_full = False, sleep = Woke\<rparr>,
         \<lparr>http = (\<lambda>u h p. Response 200 (Inr (PDict []))), now = Finite 1700,
          queue_full = False, sleep = Woke\<rparr>]
        \<lparr>control = Polling [''BNB-USDT'', ''BNBUSDT''], emitted = []\<rparr>
       = \<lparr>control = Terminated CancelledError, emitted = []\<rparr>"
proof
  fix B :: builtins
  define S where "S = \<lparr>src_trading_pairs = [''BNB-USDT'', ''BNBUSDT''], src_api_key = ''key'',
        src_chain_id = 56\<rparr>"
  define ok where "ok = \<lparr>http = (\<lambda>u h p. Response 200 (Inr (PDict []))), now = Finite 1700,
         queue_full = False, sleep = Woke\<rparr>"
  define cancel where "cancel = \<lparr>http = (\<lambda>u h p. Raised CancelledError), now = Finite 1700,
         queue_full = False, sleep = Woke\<rparr>"
  define sc where "sc = \<lparr>http = (\<lambda>u h p. Response 200 (Inr (PDict []))), now = Finite 1700,
         queue_full = False, sleep = SleepCancelled\<rparr>"
  define jc where "jc = \<lparr>http = (\<lambda>u h p. Response 200 (Inl CancelledError)), now = Finite 1700,
         queue_full = False, sleep = Woke\<rparr>"
  note t = polling_loop_failure_isolation [of B False S]
  note runobs = t [THEN conjunct2, THEN conjunct2, THEN conjunct2, THEN conjunct2,
      THEN conjunct2, THEN conjunct2, THEN conjunct2, THEN conjunct2, THEN conjunct1, rule_format]
  note slp = t [THEN conjunct2, THEN conjunct2, THEN conjunct2, THEN conjunct2,
      THEN conjunct2, THEN conjunct2, THEN conjunct2, THEN conjunct2, THEN conjunct2,
      THEN conjunct1, rule_format]
  note req = t [THEN conjunct2, THEN conjunct2, THEN conjunct2, THEN conjunct2,
      THEN conjunct2, THEN conjunct2, THEN conjunct2, THEN conjunct2, THEN conjunct2,
      THEN conjunct2, rule_format]
  from t have caught: "\<forall>env st pair rest e.
       control st = Polling (pair # rest)
       \<and> poll_pair B False S env pair (emitted st) = Inl e \<and> e \<noteq> CancelledError
       \<longrightarrow> step B False S env st = Some (st\<lparr>control := Recovering\<rparr>)"
    by (rule conjunct1)
  from t have nxt: "\<forall>env st. (control st = Recovering \<or> control st = Polling []) \<and> sleep env = Woke
       \<longrightarrow> step B False S env st = Some (st\<lparr>control := Polling (src_trading_pairs S)\<rparr>)"
    by (rule conjunct1 [OF conjunct2])
  from t have ends: "\<forall>env st st'. step B False S env st = Some st' \<and> terminated st'
       \<longrightarrow> control st' = Terminated CancelledError \<and> cancellation_delivered env st
           \<and> emitted st' = emitted st"
    by (rule conjunct1 [OF conjunct2 [OF conjunct2 [OF conjunct2 [OF conjunct2]]]])
  from t have stuck: "\<forall>env st. terminated st \<longrightarrow> step B False S env st = None"
    by (rule conjunct1 [OF conjunct2 [OF conjunct2 [OF conjunct2 [OF conjunct2 [OF conjunct2]]]]])
  have p: "poll_pair B False S ok ''BNBUSDT'' [] = Inl BuiltinValueError"
    by (simp add: poll_pair_def request_order_book_snapshot_def get_indicative_price_def
          bind_exn_def Let_def)
  have r1: "step B False S ok \<lparr>control = Polling [''BNBUSDT''], emitted = []\<rparr>
       = Some \<lparr>control = Recovering, emitted = []\<rparr>"
    using caught [rule_format, of "\<lparr>control = Polling [''BNBUSDT''], emitted = []\<rparr>"
        "''BNBUSDT''" "[]" ok BuiltinValueError] p
    by simp
  have r2: "step B False S ok \<lparr>control = Recovering, emitted = []\<rparr>
       = Some \<lparr>control = Polling [''BNB-USDT'', ''BNBUSDT''], emitted = []\<rparr>"
    using nxt [rule_format, of "\<lparr>control = Recovering, emitted = []\<rparr>" ok]
    by (simp add: ok_def S_def)
  have c: "step B False S cancel \<lparr>control = Polling [''BNB-USDT'', ''BNBUSDT''], emitted = []\<rparr>
       = Some \<lparr>control = Terminated CancelledError, emitted = []\<rparr>"
    by (simp add: step_def poll_pair_def request_order_book_snapshot_def
          get_indicative_price_def price_of_response_def except_Exception_def is_Exception_def
          bind_exn_def Let_def cancel_def)
  have tm: "terminated \<lparr>control = Terminated CancelledError, emitted = []\<rparr>"
    by (simp add: terminated_def)
  have r3: "cancellation_delivered cancel
        \<lparr>control = Polling [''BNB-USDT'', ''BNBUSDT''], emitted = []\<rparr>"
    using ends [rule_format, of cancel
        "\<lparr>control = Polling [''BNB-USDT'', ''BNBUSDT''], emitted = []\<rparr>"
        "\<lparr>control = Terminated CancelledError, emitted = []\<rparr>"] c tm
    by simp
  have r4: "step B False S ok \<lparr>control = Terminated CancelledError, emitted = []\<rparr> = None"
    using stuck [rule_format, of "\<lparr>control = Terminated CancelledError, emitted = []\<rparr>" ok] tm
    by simp
  have r5: "step B False S sc \<lparr>control = Recovering, emitted = []\<rparr>
       = Some \<lparr>control = Terminated CancelledError, emitted = []\<rparr>"
    using slp [of "\<lparr>control = Recovering, emitted = []\<rparr>" sc]
    by (simp add: sc_def)
  have r6: "step B False S sc \<lparr>control = Polling [], emitted = []\<rparr>
       = Some \<lparr>control = Terminated CancelledError, emitted = []\<rparr>"
    using slp [of "\<lparr>control = Polling [], emitted = []\<rparr>" sc]
    by (simp add: sc_def)
  have r7: "step B False S jc \<lparr>control = Polling [''BNB-USDT'', ''BNBUSDT''], emitted = []\<rparr>
       = Some \<lparr>control = Terminated CancelledError, emitted = []\<rparr>"
    using req [of "\<lparr>control = Polling [''BNB-USDT'', ''BNBUSDT''], emitted = []\<rparr>"
        "''BNB-USDT''" "[''BNBUSDT'']" "''BNB''" "''USDT''" jc]
    by (simp add: jc_def price_of_response_def)
  have ob: "cancellation_observed B S cancel
        (run B False S [] \<lparr>control = Polling [''BNB-USDT'', ''BNBUSDT''], emitted = []\<rparr>)"
    by (simp add: cancellation_observed_def get_indicative_price_def price_of_response_def
          except_Exception_def is_Exception_def Let_def cancel_def)
  have r8: "run B False S [cancel, ok, ok]
        \<lparr>control = Polling [''BNB-USDT'', ''BNBUSDT''], emitted = []\<rparr>
       = \<lparr>control = Terminated CancelledError, emitted = []\<rparr>"
    using runobs [OF ob, of "[ok, ok]"] by simp
  from p r1 r2 c r3 r4 r5 r6 r7 r8
  show "poll_pair B False
        \<lparr>src_trading_pairs = [''BNB-USDT'', ''BNBUSDT''], src_api_key = ''key'', src_chain_id = 56\<rparr>
        \<lparr>http = (\<lambda>u h p. Response 200 (Inr (PDict []))), now = Finite 1700,
         queue_full = False, sleep = Woke\<rparr>
        ''BNBUSDT'' [] = Inl BuiltinValueError
     \<and> step B False
        \<lparr>src_trading_pairs = [''BNB-USDT'', ''BNBUSDT''], src_api_key = ''key'', src_chain_id = 56\<rparr>
        \<lparr>http = (\<lambda>u h p. Response 200 (Inr (PDict []))), now = Finite 1700,
         queue_full = False, sleep = Woke\<rparr>
        \<lparr>control = Polling [''BNBUSDT''], emitted = []\<rparr>
       = Some \<lparr>control = Recovering, emitted = []\<rparr>
     \<and> step B False
        \<lparr>src_trading_pairs = [''BNB-USDT'', ''BNBUSDT''], src_api_key = ''key'', src_chain_id = 56\<rparr>
        \<lparr>http = (\<lambda>u h p. Response 200 (Inr (PDict []))), now = Finite 1700,
         queue_full = False, sleep = Woke\<rparr>
        \<lparr>control = Recovering, emitted = []\<rparr>
       = Some \<lparr>control = Polling [''BNB-USDT'', ''BNBUSDT''], emitted = []\<rparr>
     \<and> step B False
        \<lparr>src_trading_pairs = [''BNB-USDT'', ''BNBUSDT''], src_api_key = ''key'', src_chain_id = 56\<rparr>
        \<lparr>http = (\<lambda>u h p. Raised CancelledError), now = Finite 1700,
         queue_full = False, sleep = Woke\<rparr>
        \<lparr>control = Polling [''BNB-USDT'', ''BNBUSDT''], emitted = []\<rparr>
       = Some \<lparr>control = Terminated CancelledError, emitted = []\<rparr>
     \<and> cancellation_delivered
        \<lparr>http = (\<lambda>u h p. Raised CancelledError), now = Finite 1700,
         queue_full = False, sleep = Woke\<rparr>
        \<lparr>control = Polling [''BNB-USDT'', ''BNBUSDT''], emitted = []\<rparr>
     \<and> step B False
        \<lparr>src_trading_pairs = [''BNB-USDT'', ''BNBUSDT''], src_api_key = ''key'', src_chain_id = 56\<rparr>
        \<lparr>http = (\<lambda>u h p. Response 200 (Inr (PDict []))), now = Finite 1700,
         queue_full = False, sleep = Woke\<rparr>
        \<lparr>control = Terminated CancelledError, emitted = []\<rparr>
       = None
     \<and> step B False
        \<lparr>src_trading_pairs = [''BNB-USDT'', ''BNBUSDT''], src_api_key = ''key'', src_chain_id = 56\<rparr>
        \<lparr>http = (\<lambda>u h p. Response 200 (Inr (PDict []))), now = Finite 1700,
         queue_full = False, sleep = SleepCancelled\<rparr>
        \<lparr>control = Recovering, emitted = []\<rparr>
       = Some \<lparr>control = Terminated CancelledError, emitted = []\<rparr>
     \<and> step B False
        \<lparr>src_trading_pairs = [''BNB-USDT'', ''BNBUSDT''], src_api_key = ''key'', src_chain_id = 56\<rparr>
        \<lparr>http = (\<lambda>u h p. Response 200 (Inr (PDict []))), now = Finite 1700,
         queue_full = False, sleep = SleepCancelled\<rparr>
        \<lparr>control = Polling [], emitted = []\<rparr>
       = Some \<lparr>control = Terminated CancelledError, emitted = []\<rparr>
     \<and> step B False
        \<lparr>src_trading_pairs = [''BNB-USDT'', ''BNBUSDT''], src_api_key = ''key'', src_chain_id = 56\<rparr>
        \<lparr>http = (\<lambda>u h p. Response 200 (Inl CancelledError)), now = Finite 1700,
         queue_full = False, sleep = Woke\<rparr>
        \<lparr>control = Polling [''BNB-USDT'', ''BNBUSDT''], emitted = []\<rparr>
       = Some \<lparr>control = Terminated CancelledError, emitted = []\<rparr>
     \<and> run B False
        \<lparr>src_trading_pairs = [''BNB-USDT'', ''BNBUSDT''], src_api_key = ''key'', src_chain_id = 56\<rparr>
        [\<lparr>http = (\<lambda>u h p. Raised CancelledError), now = Finite 1700,
          queue_full = False, sleep = Woke\<rparr>,
         \<lparr>http = (\<lambda>u h p. Response 200 (Inr (PDict []))), now = Finite 1700,
          queue_full = False, sleep = Woke\<rparr>,
         \<lparr>http = (\<lambda>u h p. Response 200 (Inr (PDict []))), now = Finite 1700,
          queue_full = False, sleep = Woke\<rparr>]
        \<lparr>control = Polling [''BNB-USDT'', ''BNBUSDT''], emitted = []\<rparr>
       = \<lparr>control = Terminated CancelledError, emitted = []\<rparr>"
    unfolding S_def ok_def cancel_def sc_def jc_def by blast
qed

end
